theory Spec2Isabelle
  imports Complex_Main "HOL-Library.Signed_Division"
begin

chapter \<open>CoreBlas tile kernels: a shallow embedding\<close>

text \<open>
  The theory embeds the kernels of the CoreBlas sources that the specification talks
  about: the two band bulge-chasing kernels \<open>coreblas_zgbtype1cb\<close> and
  \<open>coreblas_zgbtype2cb\<close>, and the argument-checking wrappers \<open>coreblas_ztsmqr\<close>,
  \<open>coreblas_ztradd\<close>, \<open>coreblas_zpemv\<close> and \<open>coreblas_zlarfb_gemm\<close>.

  Conventions of the embedding.
  \<^item> A C \<open>int\<close> is an Isabelle \<open>int\<close>. Signed overflow is undefined behaviour in C, so the
    model computes on unbounded integers; the remainder operator \<open>%\<close> is the truncating
    \<open>smod\<close>.
  \<^item> A \<open>coreblas_complex64_t\<close> is a \<open>complex\<close> number: the model is exact arithmetic, the
    rounding of IEEE doubles is not part of it.
  \<^item> BLAS, LAPACK and LAPACKE routines are not part of the repository. They are parameters
    of the model, so the general theorems hold for any implementation of them; calls on
    concrete input run with the Householder routines in exact arithmetic.
\<close>

section \<open>Definitions\<close>

subsection \<open>Enumerations, return codes, helpers\<close>

text \<open>
  The enumerators of \<open>coreblas_types.h\<close> that the modelled kernels compare against. The
  header is not among the sources; the enumerators are taken as pairwise distinct. The
  CBLAS enumerators (\<open>CblasConjTrans\<close>, ...) carry the same values as their CoreBlas
  counterparts (the sources cast between the two, as in \<open>(CBLAS_TRANSPOSE)trans\<close>), so
  one type serves both. \<open>CoreBlas_ConjTrans\<close> is the precision-dependent alias of
  \<open>CoreBlasConjTrans\<close> in the \<open>z\<close> precision modelled here.
\<close>

datatype coreblas_enum =
    CoreBlasNoTrans | CoreBlasTrans | CoreBlasConjTrans
  | CoreBlasUpper | CoreBlasLower | CoreBlasGeneral
  | CoreBlasNonUnit | CoreBlasUnit
  | CoreBlasLeft | CoreBlasRight
  | CoreBlasForward | CoreBlasBackward
  | CoreBlasColumnwise | CoreBlasRowwise

text \<open>
  The two symbolic return codes. Their numeric values live in the missing header, so
  they are a parameter of every kernel that returns one of them.
\<close>

record coreblas_codes =
  CoreBlasSuccess :: int
  CoreBlasErrorNotSupported :: int

text \<open>
  Modelled from the spec: \<open>imin\<close> and \<open>imax\<close> are declared in \<open>coreblas_internal.h\<close>,
  which is not among the sources; the spec writes \<open>J2 = min(ed+nb, n-1)\<close> for the code's
  \<open>imin(ed+nb, n-1)\<close> and \<open>lda >= max(1, ...)\<close> for the bounds checked with \<open>imax\<close>.
\<close>

definition imin :: "int \<Rightarrow> int \<Rightarrow> int" where
  "imin a b = (if a < b then a else b)"

definition imax :: "int \<Rightarrow> int \<Rightarrow> int" where
  "imax a b = (if a > b then a else b)"

subsection \<open>Buffers, pointers and external calls\<close>

text \<open>
  The wrappers receive pointers into caller-owned arrays. A heap maps a buffer name and
  an element offset to the element stored there; a pointer is \<open>NULL\<close> or a buffer with an
  offset, and \<open>&p[k]\<close> is \<open>ptr_add p k\<close>.
\<close>

type_synonym 'b heap = "'b \<Rightarrow> int \<Rightarrow> complex"

datatype 'b ptr = NULL | Ptr 'b int

fun ptr_add :: "'b ptr \<Rightarrow> int \<Rightarrow> 'b ptr" where
  "ptr_add NULL k = NULL"
| "ptr_add (Ptr b off) k = Ptr b (off + k)"

text \<open>
  Element access through a pointer. A kernel that tests a pointer rejects \<open>NULL\<close> before
  any access; an access through \<open>NULL\<close>, undefined in C, reads zero and stores nothing.
\<close>

fun load :: "'b heap \<Rightarrow> 'b ptr \<Rightarrow> int \<Rightarrow> complex" where
  "load h NULL k = 0"
| "load h (Ptr b off) k = h b (off + k)"

fun store :: "'b heap \<Rightarrow> 'b ptr \<Rightarrow> int \<Rightarrow> complex \<Rightarrow> 'b heap" where
  "store h NULL k v = h"
| "store h (Ptr b off) k v = h(b := (h b)(off + k := v))"

text \<open>
  A call that leaves the repository's sources: the CBLAS routines with the arguments
  the kernels pass (the leading \<open>CblasColMajor\<close> is constant and left out), and
  \<open>coreblas_zparfb\<close> as called by \<open>coreblas_ztsmqr\<close>. What a call does to the heap is
  given by a parameter of type \<open>'b extern\<close>.
\<close>

datatype 'b extcall =
    Cblas_zgemm coreblas_enum coreblas_enum int int int complex
      "'b ptr" int "'b ptr" int complex "'b ptr" int
  | Cblas_ztrmm coreblas_enum coreblas_enum coreblas_enum coreblas_enum int int complex
      "'b ptr" int "'b ptr" int
  | Cblas_zcopy int "'b ptr" int "'b ptr" int
  | Cblas_ztrmv coreblas_enum coreblas_enum coreblas_enum int "'b ptr" int "'b ptr" int
  | Cblas_zgemv coreblas_enum int int complex "'b ptr" int "'b ptr" int complex "'b ptr" int
  | Cblas_zaxpy int complex "'b ptr" int "'b ptr" int
  | Cblas_zscal int complex "'b ptr" int
  | Coreblas_zparfb coreblas_enum coreblas_enum coreblas_enum coreblas_enum
      int int int int int int
      "'b ptr" int "'b ptr" int "'b ptr" int "'b ptr" int "'b ptr" int

type_synonym 'b extern = "'b extcall \<Rightarrow> 'b heap \<Rightarrow> 'b heap"

subsection \<open>\<open>coreblas_zlarfb_gemm\<close>\<close>

text \<open>
  The block-reflector application of \<open>src/unnamed/part_003\<close>. Only the
  columnwise/forward cases are implemented; the other three return
  \<open>CoreBlasErrorNotSupported\<close>. The parameter \<open>trans\<close> is written \<open>trans'\<close>; its local
  reassignment for the left side is the \<open>let\<close> before the case distinction.
\<close>

definition coreblas_zlarfb_gemm ::
  "'b extern \<Rightarrow> coreblas_codes \<Rightarrow> coreblas_enum \<Rightarrow> coreblas_enum \<Rightarrow> coreblas_enum \<Rightarrow>
   coreblas_enum \<Rightarrow> int \<Rightarrow> int \<Rightarrow> int \<Rightarrow> 'b ptr \<Rightarrow> int \<Rightarrow> 'b ptr \<Rightarrow> int \<Rightarrow>
   'b ptr \<Rightarrow> int \<Rightarrow> 'b ptr \<Rightarrow> int \<Rightarrow> 'b heap \<Rightarrow> int \<times> 'b heap" where
  "coreblas_zlarfb_gemm X E side trans' direct storev M N K V LDV T LDT C LDC WORK LDWORK h =
    (if M = 0 \<or> N = 0 \<or> K = 0 then (CoreBlasSuccess E, h)
     else
       let trans_sw = (if side = CoreBlasLeft
                     then (if trans' = CoreBlasNoTrans then CoreBlasConjTrans
                           else CoreBlasNoTrans)
                     else trans')
       in
       if storev = CoreBlasColumnwise then
         if direct = CoreBlasForward then
           if side = CoreBlasLeft then
             let h1 = X (Cblas_zgemm CoreBlasConjTrans CoreBlasNoTrans N K M
                          1 C LDC V LDV 0 WORK LDWORK) h;
                 h2 = X (Cblas_ztrmm CoreBlasRight CoreBlasUpper trans_sw CoreBlasNonUnit N K
                          1 T LDT WORK LDWORK) h1;
                 h3 = X (Cblas_zgemm CoreBlasNoTrans CoreBlasConjTrans M N K
                          (- 1) V LDV WORK LDWORK 1 C LDC) h2
             in (CoreBlasSuccess E, h3)
           else
             let h1 = X (Cblas_zgemm CoreBlasNoTrans CoreBlasNoTrans M K N
                          1 C LDC V LDV 0 WORK LDWORK) h;
                 h2 = X (Cblas_ztrmm CoreBlasRight CoreBlasUpper trans_sw CoreBlasNonUnit M K
                          1 T LDT WORK LDWORK) h1;
                 h3 = X (Cblas_zgemm CoreBlasNoTrans CoreBlasConjTrans M N K
                          (- 1) WORK LDWORK V LDV 1 C LDC) h2
             in (CoreBlasSuccess E, h3)
         else (CoreBlasErrorNotSupported E, h)
       else
         if direct = CoreBlasForward then (CoreBlasErrorNotSupported E, h)
         else (CoreBlasErrorNotSupported E, h))"

subsection \<open>\<open>coreblas_ztsmqr\<close>\<close>

text \<open>
  The loop \<open>for (int i = i1; i > -1 && i < k; i += i3)\<close> of \<open>coreblas_ztsmqr\<close>. Each
  iteration calls \<open>coreblas_zparfb\<close> on a sub-tile of \<open>A1\<close>; its return value is ignored by
  the source. The C loop has no guard against \<open>i3 = 0\<close>, so the model is a partial
  function: not returning is the value \<open>None\<close>.
\<close>

partial_function (option) ztsmqr_loop ::
  "'b extern \<Rightarrow> coreblas_enum \<Rightarrow> coreblas_enum \<Rightarrow> int \<Rightarrow> int \<Rightarrow> int \<Rightarrow> int \<Rightarrow> int \<Rightarrow> int \<Rightarrow>
   'b ptr \<Rightarrow> int \<Rightarrow> 'b ptr \<Rightarrow> int \<Rightarrow> 'b ptr \<Rightarrow> int \<Rightarrow> 'b ptr \<Rightarrow> int \<Rightarrow> 'b ptr \<Rightarrow> int \<Rightarrow>
   int \<Rightarrow> int \<Rightarrow> 'b heap \<Rightarrow> 'b heap option" where
  "ztsmqr_loop X side trans' m1 n1 m2 n2 k ib A1 lda1 A2 lda2 V ldv T ldt work ldwork i3 i h =
    (if i > - 1 \<and> i < k then
       let kb = imin ib (k - i);
           ic = (if side = CoreBlasLeft then i else 0);
           jc = (if side = CoreBlasLeft then 0 else i);
           mi = (if side = CoreBlasLeft then m1 - i else m1);
           ni = (if side = CoreBlasLeft then n1 else n1 - i);
           h' = X (Coreblas_zparfb side trans' CoreBlasForward CoreBlasColumnwise
                     mi ni m2 n2 kb 0
                     (ptr_add A1 (lda1 * jc + ic)) lda1
                     A2 lda2
                     (ptr_add V (ldv * i)) ldv
                     (ptr_add T (ldt * i)) ldt
                     work ldwork) h
       in ztsmqr_loop X side trans' m1 n1 m2 n2 k ib A1 lda1 A2 lda2 V ldv T ldt work ldwork
            i3 (i + i3) h'
     else Some h)"

text \<open>
  The kernel: eighteen argument checks in the order of the source, the quick return,
  then the loop. The result is the returned \<open>int\<close> with the heap after the call.
\<close>

definition coreblas_ztsmqr ::
  "'b extern \<Rightarrow> coreblas_codes \<Rightarrow> coreblas_enum \<Rightarrow> coreblas_enum \<Rightarrow>
   int \<Rightarrow> int \<Rightarrow> int \<Rightarrow> int \<Rightarrow> int \<Rightarrow> int \<Rightarrow>
   'b ptr \<Rightarrow> int \<Rightarrow> 'b ptr \<Rightarrow> int \<Rightarrow> 'b ptr \<Rightarrow> int \<Rightarrow> 'b ptr \<Rightarrow> int \<Rightarrow> 'b ptr \<Rightarrow> int \<Rightarrow>
   'b heap \<Rightarrow> (int \<times> 'b heap) option" where
  "coreblas_ztsmqr X E side trans' m1 n1 m2 n2 k ib A1 lda1 A2 lda2 V ldv T ldt work ldwork h =
    (if side \<noteq> CoreBlasLeft \<and> side \<noteq> CoreBlasRight then Some (- 1, h)
     else if trans' \<noteq> CoreBlasNoTrans \<and> trans' \<noteq> CoreBlasConjTrans then Some (- 2, h)
     else if m1 < 0 then Some (- 3, h)
     else if n1 < 0 then Some (- 4, h)
     else if m2 < 0 \<or> (m2 \<noteq> m1 \<and> side = CoreBlasRight) then Some (- 5, h)
     else if n2 < 0 \<or> (n2 \<noteq> n1 \<and> side = CoreBlasLeft) then Some (- 6, h)
     else if k < 0 \<or> (side = CoreBlasLeft \<and> k > m1) \<or> (side = CoreBlasRight \<and> k > n1)
       then Some (- 7, h)
     else if ib < 0 then Some (- 8, h)
     else if A1 = NULL then Some (- 9, h)
     else if lda1 < imax 1 m1 then Some (- 10, h)
     else if A2 = NULL then Some (- 11, h)
     else if lda2 < imax 1 m2 then Some (- 12, h)
     else if V = NULL then Some (- 13, h)
     else if ldv < imax 1 (if side = CoreBlasLeft then m2 else n2) then Some (- 14, h)
     else if T = NULL then Some (- 15, h)
     else if ldt < imax 1 ib then Some (- 16, h)
     else if work = NULL then Some (- 17, h)
     else if ldwork < imax 1 (if side = CoreBlasLeft then ib else m1) then Some (- 18, h)
     else if m1 = 0 \<or> n1 = 0 \<or> m2 = 0 \<or> n2 = 0 \<or> k = 0 \<or> ib = 0
       then Some (CoreBlasSuccess E, h)
     else
       let i1 = (if (side = CoreBlasLeft \<and> trans' \<noteq> CoreBlasNoTrans) \<or>
                    (side = CoreBlasRight \<and> trans' = CoreBlasNoTrans)
                 then 0 else ((k - 1) sdiv ib) * ib);
           i3 = (if (side = CoreBlasLeft \<and> trans' \<noteq> CoreBlasNoTrans) \<or>
                    (side = CoreBlasRight \<and> trans' = CoreBlasNoTrans)
                 then ib else - ib)
       in case ztsmqr_loop X side trans' m1 n1 m2 n2 k ib A1 lda1 A2 lda2 V ldv T ldt
                 work ldwork i3 i1 h of
            None \<Rightarrow> None
          | Some h' \<Rightarrow> Some (CoreBlasSuccess E, h'))"

text \<open>
  The argument list of \<open>coreblas_ztsmqr\<close> by position, with what the kernel takes to be
  an illegal value of the argument at that position (1 = \<open>side\<close>, ..., 18 = \<open>ldwork\<close>).
\<close>

definition ztsmqr_arg_checks ::
  "coreblas_enum \<Rightarrow> coreblas_enum \<Rightarrow> int \<Rightarrow> int \<Rightarrow> int \<Rightarrow> int \<Rightarrow> int \<Rightarrow> int \<Rightarrow>
   'b ptr \<Rightarrow> int \<Rightarrow> 'b ptr \<Rightarrow> int \<Rightarrow> 'b ptr \<Rightarrow> int \<Rightarrow> 'b ptr \<Rightarrow> int \<Rightarrow> 'b ptr \<Rightarrow> int \<Rightarrow>
   bool list" where
  "ztsmqr_arg_checks side trans' m1 n1 m2 n2 k ib A1 lda1 A2 lda2 V ldv T ldt work ldwork =
    [ side \<noteq> CoreBlasLeft \<and> side \<noteq> CoreBlasRight,
      trans' \<noteq> CoreBlasNoTrans \<and> trans' \<noteq> CoreBlasConjTrans,
      m1 < 0,
      n1 < 0,
      m2 < 0 \<or> (m2 \<noteq> m1 \<and> side = CoreBlasRight),
      n2 < 0 \<or> (n2 \<noteq> n1 \<and> side = CoreBlasLeft),
      k < 0 \<or> (side = CoreBlasLeft \<and> k > m1) \<or> (side = CoreBlasRight \<and> k > n1),
      ib < 0,
      A1 = NULL,
      lda1 < imax 1 m1,
      A2 = NULL,
      lda2 < imax 1 m2,
      V = NULL,
      ldv < imax 1 (if side = CoreBlasLeft then m2 else n2),
      T = NULL,
      ldt < imax 1 ib,
      work = NULL,
      ldwork < imax 1 (if side = CoreBlasLeft then ib else m1) ]"

subsection \<open>Argument positions\<close>

text \<open>
  The kernels document their error returns as "\<open>< 0\<close>: if \<open>-i\<close>, the \<open>i\<close>-th argument had an
  illegal value". A table of checks lists, for each position of the argument list from
  1 on, the test the kernel makes on the argument there, and \<open>False\<close> where it makes none.
  So "illegal" below means: rejected by a test of the source. It does not mean: outside
  the documented contract; a kernel that omits a test has \<open>False\<close> at that position.
  \<open>arg_illegal cs p\<close> reads the table at position \<open>p\<close>; \<open>first_illegal cs 1\<close> is the least
  illegal position.
\<close>

definition arg_illegal :: "bool list \<Rightarrow> nat \<Rightarrow> bool" where
  "arg_illegal cs p = (1 \<le> p \<and> p \<le> length cs \<and> cs ! (p - 1))"

fun first_illegal :: "bool list \<Rightarrow> nat \<Rightarrow> nat option" where
  "first_illegal [] p = None"
| "first_illegal (c # cs) p = (if c then Some p else first_illegal cs (Suc p))"

subsection \<open>Counted loops\<close>

text \<open>The C loop \<open>for (i = lo; i < hi; i++) body\<close> on a state \<open>s\<close>.\<close>

function for_loop :: "int \<Rightarrow> int \<Rightarrow> (int \<Rightarrow> 's \<Rightarrow> 's) \<Rightarrow> 's \<Rightarrow> 's" where
  "for_loop i hi body s = (if i < hi then for_loop (i + 1) hi body (body i s) else s)"
  by pat_completeness auto
termination
  by (relation "measure (\<lambda>(i, hi, body, s). nat (hi - i))") auto

declare for_loop.simps [simp del]

subsection \<open>\<open>coreblas_ztradd\<close>\<close>

text \<open>
  \<open>B = alpha * op(A) + beta * B\<close> on trapezoidal matrices, \<open>src/core_blas/core_ztradd.c\<close>.
  The arguments \<open>alpha\<close> (5) and \<open>beta\<close> (8) are scalars and are not checked. The \<open>switch\<close>
  on \<open>transa\<close> has \<open>CoreBlasNoTrans\<close> as its default case.
\<close>

definition ztradd_arg_checks ::
  "coreblas_enum \<Rightarrow> coreblas_enum \<Rightarrow> int \<Rightarrow> int \<Rightarrow> complex \<Rightarrow> 'b ptr \<Rightarrow> int \<Rightarrow>
   complex \<Rightarrow> 'b ptr \<Rightarrow> int \<Rightarrow> bool list" where
  "ztradd_arg_checks uplo transa m n alpha A lda beta B ldb =
    [ uplo \<noteq> CoreBlasUpper \<and> uplo \<noteq> CoreBlasLower,
      transa \<noteq> CoreBlasNoTrans \<and> transa \<noteq> CoreBlasTrans \<and> transa \<noteq> CoreBlasConjTrans,
      m < 0,
      n < 0,
      False,
      A = NULL,
      (transa = CoreBlasNoTrans \<and> lda < imax 1 m \<and> m > 0) \<or>
      (transa \<noteq> CoreBlasNoTrans \<and> lda < imax 1 n \<and> n > 0),
      False,
      B = NULL,
      ldb < imax 1 m \<and> m > 0 ]"

definition coreblas_ztradd ::
  "coreblas_codes \<Rightarrow> coreblas_enum \<Rightarrow> coreblas_enum \<Rightarrow> int \<Rightarrow> int \<Rightarrow> complex \<Rightarrow> 'b ptr \<Rightarrow>
   int \<Rightarrow> complex \<Rightarrow> 'b ptr \<Rightarrow> int \<Rightarrow> 'b heap \<Rightarrow> int \<times> 'b heap" where
  "coreblas_ztradd E uplo transa m n alpha A lda beta B ldb h =
    (if uplo \<noteq> CoreBlasUpper \<and> uplo \<noteq> CoreBlasLower then (- 1, h)
     else if transa \<noteq> CoreBlasNoTrans \<and> transa \<noteq> CoreBlasTrans \<and>
             transa \<noteq> CoreBlasConjTrans then (- 2, h)
     else if m < 0 then (- 3, h)
     else if n < 0 then (- 4, h)
     else if A = NULL then (- 6, h)
     else if (transa = CoreBlasNoTrans \<and> lda < imax 1 m \<and> m > 0) \<or>
             (transa \<noteq> CoreBlasNoTrans \<and> lda < imax 1 n \<and> n > 0) then (- 7, h)
     else if B = NULL then (- 9, h)
     else if ldb < imax 1 m \<and> m > 0 then (- 10, h)
     else if m = 0 \<or> n = 0 \<or> (alpha = 0 \<and> beta = 1) then (CoreBlasSuccess E, h)
     else
       let opA = (\<lambda>g i j.
                   if transa = CoreBlasConjTrans then cnj (load g A (lda * i + j))
                   else if transa = CoreBlasTrans then load g A (lda * i + j)
                   else load g A (lda * j + i));
           upd = (\<lambda>j i g. store g B (ldb * j + i)
                   (beta * load g B (ldb * j + i) + alpha * opA g i j))
       in if uplo = CoreBlasLower
          then (CoreBlasSuccess E, for_loop 0 n (\<lambda>j. for_loop j m (upd j)) h)
          else (CoreBlasSuccess E, for_loop 0 n (\<lambda>j. for_loop 0 (imin (j + 1) m) (upd j)) h))"

subsection \<open>\<open>coreblas_zpemv\<close>\<close>

text \<open>
  The pentagonal matrix-vector product of \<open>src/core_blas/core_zpemv.c\<close>. The argument
  list is \<open>trans, storev, m, n, l, alpha, A, lda, X, incx, beta, Y, incy, work\<close>; the
  kernel checks positions 1 to 5, 8, 10 and 13, and reports an unsupported combination
  of \<open>trans\<close> and \<open>storev\<close> at position 2. It tests none of the pointers \<open>A\<close>, \<open>X\<close>, \<open>Y\<close>,
  \<open>work\<close>, and of \<open>l\<close> only \<open>l > imin(m, n)\<close>, not \<open>l < 0\<close>. After the checks \<open>l = 1\<close> is
  replaced by \<open>0\<close>.
  The two "not implemented" branches that return \<open>-1\<close> after the checks are kept as the
  source has them.
\<close>

definition zpemv_arg_checks ::
  "coreblas_enum \<Rightarrow> coreblas_enum \<Rightarrow> int \<Rightarrow> int \<Rightarrow> int \<Rightarrow> complex \<Rightarrow> 'b ptr \<Rightarrow> int \<Rightarrow>
   'b ptr \<Rightarrow> int \<Rightarrow> complex \<Rightarrow> 'b ptr \<Rightarrow> int \<Rightarrow> 'b ptr \<Rightarrow> bool list" where
  "zpemv_arg_checks trans' storev m n l alpha A lda X incx beta Y incy work =
    [ trans' \<noteq> CoreBlasNoTrans \<and> trans' \<noteq> CoreBlasTrans \<and> trans' \<noteq> CoreBlasConjTrans,
      (storev \<noteq> CoreBlasColumnwise \<and> storev \<noteq> CoreBlasRowwise) \<or>
      \<not> ((storev = CoreBlasColumnwise \<and> trans' \<noteq> CoreBlasNoTrans) \<or>
         (storev = CoreBlasRowwise \<and> trans' = CoreBlasNoTrans)),
      m < 0,
      n < 0,
      l > imin m n,
      False,
      False,
      lda < imax 1 m,
      False,
      incx < 1,
      False,
      False,
      incy < 1,
      False ]"

text \<open>The triangular part and the rectangular rest, shared by the two storage schemes.\<close>

definition zpemv_tail ::
  "'b extern \<Rightarrow> int \<Rightarrow> complex \<Rightarrow> complex \<Rightarrow> 'b ptr \<Rightarrow> int \<Rightarrow> 'b ptr \<Rightarrow> 'b heap \<Rightarrow> 'b heap" where
  "zpemv_tail X l alpha beta Y incy work h =
    (if beta = 0 then
       X (Cblas_zcopy l work 1 Y incy) (X (Cblas_zscal l alpha work 1) h)
     else
       X (Cblas_zaxpy l alpha work 1 Y incy) (X (Cblas_zscal l beta Y incy) h))"

definition coreblas_zpemv ::
  "'b extern \<Rightarrow> coreblas_codes \<Rightarrow> coreblas_enum \<Rightarrow> coreblas_enum \<Rightarrow> int \<Rightarrow> int \<Rightarrow> int \<Rightarrow>
   complex \<Rightarrow> 'b ptr \<Rightarrow> int \<Rightarrow> 'b ptr \<Rightarrow> int \<Rightarrow> complex \<Rightarrow> 'b ptr \<Rightarrow> int \<Rightarrow> 'b ptr \<Rightarrow>
   'b heap \<Rightarrow> int \<times> 'b heap" where
  "coreblas_zpemv X E trans' storev m n l alpha A lda Xv incx beta Y incy work h =
    (if trans' \<noteq> CoreBlasNoTrans \<and> trans' \<noteq> CoreBlasTrans \<and> trans' \<noteq> CoreBlasConjTrans
       then (- 1, h)
     else if storev \<noteq> CoreBlasColumnwise \<and> storev \<noteq> CoreBlasRowwise then (- 2, h)
     else if \<not> ((storev = CoreBlasColumnwise \<and> trans' \<noteq> CoreBlasNoTrans) \<or>
                (storev = CoreBlasRowwise \<and> trans' = CoreBlasNoTrans)) then (- 2, h)
     else if m < 0 then (- 3, h)
     else if n < 0 then (- 4, h)
     else if l > imin m n then (- 5, h)
     else if lda < imax 1 m then (- 8, h)
     else if incx < 1 then (- 10, h)
     else if incy < 1 then (- 13, h)
     else if m = 0 \<or> n = 0 then (CoreBlasSuccess E, h)
     else if alpha = 0 \<and> beta = 0 then (CoreBlasSuccess E, h)
     else
       let l = (if l = 1 then 0 else l) in
       if storev = CoreBlasColumnwise then
         if trans' = CoreBlasNoTrans then (- 1, h)
         else
           let h1 =
                 (if l > 0 then
                    let g1 = X (Cblas_zcopy l (ptr_add Xv (incx * (m - l))) incx work 1) h;
                        g2 = X (Cblas_ztrmv CoreBlasUpper trans' CoreBlasNonUnit
                                  l (ptr_add A (m - l)) lda work 1) g1
                    in if m > l then
                         X (Cblas_zaxpy l alpha work 1 Y incy)
                           (X (Cblas_zgemv trans' (m - l) l alpha A lda Xv incx beta Y incy) g2)
                       else zpemv_tail X l alpha beta Y incy work g2
                  else h);
               h2 =
                 (if n > l then
                    X (Cblas_zgemv trans' m (n - l) alpha (ptr_add A (lda * l)) lda Xv incx
                         beta (ptr_add Y (incy * l)) incy) h1
                  else h1)
           in (CoreBlasSuccess E, h2)
       else
         if trans' = CoreBlasNoTrans then
           let h1 =
                 (if l > 0 then
                    let g1 = X (Cblas_zcopy l (ptr_add Xv (incx * (n - l))) incx work 1) h;
                        g2 = X (Cblas_ztrmv CoreBlasLower CoreBlasNoTrans CoreBlasNonUnit
                                  l (ptr_add A (lda * (n - l))) lda work 1) g1
                    in if n > l then
                         X (Cblas_zaxpy l alpha work 1 Y incy)
                           (X (Cblas_zgemv CoreBlasNoTrans l (n - l) alpha A lda Xv incx
                                 beta Y incy) g2)
                       else zpemv_tail X l alpha beta Y incy work g2
                  else h);
               h2 =
                 (if m > l then
                    X (Cblas_zgemv CoreBlasNoTrans (m - l) n alpha (ptr_add A l) lda Xv incx
                         beta (ptr_add Y (incy * l)) incy) h1
                  else h1)
           in (CoreBlasSuccess E, h2)
         else (- 1, h))"

subsection \<open>The other argument-checking kernels\<close>

text \<open>
  \<open>coreblas_zgelqt\<close>, \<open>coreblas_ztsqrt\<close>, \<open>coreblas_ztslqt\<close>, \<open>coreblas_zunmqr\<close> and
  \<open>coreblas_zparfb\<close> open with the same kind of argument checks and a quick return. What
  follows the quick return is a sequence of LAPACKE, CBLAS and CoreBlas calls; it is the
  parameter \<open>rest\<close>, which maps the heap to the returned value and the new heap.
\<close>

definition zgelqt_arg_checks ::
  "int \<Rightarrow> int \<Rightarrow> int \<Rightarrow> 'b ptr \<Rightarrow> int \<Rightarrow> 'b ptr \<Rightarrow> int \<Rightarrow> 'b ptr \<Rightarrow> 'b ptr \<Rightarrow> bool list" where
  "zgelqt_arg_checks m n ib A lda T ldt tau work =
    [ m < 0,
      n < 0,
      ib < 0 \<or> (ib = 0 \<and> (m > 0 \<and> n > 0)),
      A = NULL,
      lda < imax 1 m \<and> m > 0,
      T = NULL,
      ldt < imax 1 ib \<and> ib > 0,
      tau = NULL,
      work = NULL ]"

definition coreblas_zgelqt ::
  "coreblas_codes \<Rightarrow> ('b heap \<Rightarrow> int \<times> 'b heap) \<Rightarrow> int \<Rightarrow> int \<Rightarrow> int \<Rightarrow> 'b ptr \<Rightarrow> int \<Rightarrow>
   'b ptr \<Rightarrow> int \<Rightarrow> 'b ptr \<Rightarrow> 'b ptr \<Rightarrow> 'b heap \<Rightarrow> int \<times> 'b heap" where
  "coreblas_zgelqt E rest m n ib A lda T ldt tau work h =
    (if m < 0 then (- 1, h)
     else if n < 0 then (- 2, h)
     else if ib < 0 \<or> (ib = 0 \<and> (m > 0 \<and> n > 0)) then (- 3, h)
     else if A = NULL then (- 4, h)
     else if lda < imax 1 m \<and> m > 0 then (- 5, h)
     else if T = NULL then (- 6, h)
     else if ldt < imax 1 ib \<and> ib > 0 then (- 7, h)
     else if tau = NULL then (- 8, h)
     else if work = NULL then (- 9, h)
     else if m = 0 \<or> n = 0 \<or> ib = 0 then (CoreBlasSuccess E, h)
     else rest h)"

text \<open>\<open>coreblas_ztsqrt\<close> and \<open>coreblas_ztslqt\<close> have the same argument list and checks.\<close>

definition ztsqrt_arg_checks ::
  "int \<Rightarrow> int \<Rightarrow> int \<Rightarrow> 'b ptr \<Rightarrow> int \<Rightarrow> 'b ptr \<Rightarrow> int \<Rightarrow> 'b ptr \<Rightarrow> int \<Rightarrow> 'b ptr \<Rightarrow> 'b ptr \<Rightarrow>
   bool list" where
  "ztsqrt_arg_checks m n ib A1 lda1 A2 lda2 T ldt tau work =
    [ m < 0,
      n < 0,
      ib < 0,
      A1 = NULL,
      lda1 < imax 1 m \<and> m > 0,
      A2 = NULL,
      lda2 < imax 1 m \<and> m > 0,
      T = NULL,
      ldt < imax 1 ib \<and> ib > 0,
      tau = NULL,
      work = NULL ]"

definition coreblas_ztsqrt ::
  "coreblas_codes \<Rightarrow> ('b heap \<Rightarrow> int \<times> 'b heap) \<Rightarrow> int \<Rightarrow> int \<Rightarrow> int \<Rightarrow> 'b ptr \<Rightarrow> int \<Rightarrow>
   'b ptr \<Rightarrow> int \<Rightarrow> 'b ptr \<Rightarrow> int \<Rightarrow> 'b ptr \<Rightarrow> 'b ptr \<Rightarrow> 'b heap \<Rightarrow> int \<times> 'b heap" where
  "coreblas_ztsqrt E rest m n ib A1 lda1 A2 lda2 T ldt tau work h =
    (if m < 0 then (- 1, h)
     else if n < 0 then (- 2, h)
     else if ib < 0 then (- 3, h)
     else if A1 = NULL then (- 4, h)
     else if lda1 < imax 1 m \<and> m > 0 then (- 5, h)
     else if A2 = NULL then (- 6, h)
     else if lda2 < imax 1 m \<and> m > 0 then (- 7, h)
     else if T = NULL then (- 8, h)
     else if ldt < imax 1 ib \<and> ib > 0 then (- 9, h)
     else if tau = NULL then (- 10, h)
     else if work = NULL then (- 11, h)
     else if m = 0 \<or> n = 0 \<or> ib = 0 then (CoreBlasSuccess E, h)
     else rest h)"

definition coreblas_ztslqt ::
  "coreblas_codes \<Rightarrow> ('b heap \<Rightarrow> int \<times> 'b heap) \<Rightarrow> int \<Rightarrow> int \<Rightarrow> int \<Rightarrow> 'b ptr \<Rightarrow> int \<Rightarrow>
   'b ptr \<Rightarrow> int \<Rightarrow> 'b ptr \<Rightarrow> int \<Rightarrow> 'b ptr \<Rightarrow> 'b ptr \<Rightarrow> 'b heap \<Rightarrow> int \<times> 'b heap" where
  "coreblas_ztslqt E rest m n ib A1 lda1 A2 lda2 T ldt tau work h =
    (if m < 0 then (- 1, h)
     else if n < 0 then (- 2, h)
     else if ib < 0 then (- 3, h)
     else if A1 = NULL then (- 4, h)
     else if lda1 < imax 1 m \<and> m > 0 then (- 5, h)
     else if A2 = NULL then (- 6, h)
     else if lda2 < imax 1 m \<and> m > 0 then (- 7, h)
     else if T = NULL then (- 8, h)
     else if ldt < imax 1 ib \<and> ib > 0 then (- 9, h)
     else if tau = NULL then (- 10, h)
     else if work = NULL then (- 11, h)
     else if m = 0 \<or> n = 0 \<or> ib = 0 then (CoreBlasSuccess E, h)
     else rest h)"

text \<open>
  \<open>coreblas_zunmqr\<close> computes the order \<open>nq\<close> of \<open>Q\<close> and the workspace dimension \<open>nw\<close>
  from \<open>side\<close> between its first and second check.
\<close>

definition zunmqr_arg_checks ::
  "coreblas_enum \<Rightarrow> coreblas_enum \<Rightarrow> int \<Rightarrow> int \<Rightarrow> int \<Rightarrow> int \<Rightarrow> 'b ptr \<Rightarrow> int \<Rightarrow> 'b ptr \<Rightarrow> int \<Rightarrow>
   'b ptr \<Rightarrow> int \<Rightarrow> 'b ptr \<Rightarrow> int \<Rightarrow> bool list" where
  "zunmqr_arg_checks side trans' m n k ib A lda T ldt C ldc work ldwork =
    (let nq = (if side = CoreBlasLeft then m else n);
         nw = (if side = CoreBlasLeft then n else m)
     in [ side \<noteq> CoreBlasLeft \<and> side \<noteq> CoreBlasRight,
          trans' \<noteq> CoreBlasNoTrans \<and> trans' \<noteq> CoreBlasConjTrans,
          m < 0,
          n < 0,
          k < 0 \<or> k > nq,
          ib < 0,
          A = NULL,
          lda < imax 1 nq \<and> nq > 0,
          T = NULL,
          ldt < imax 1 ib,
          C = NULL,
          ldc < imax 1 m \<and> m > 0,
          work = NULL,
          ldwork < imax 1 nw \<and> nw > 0 ])"

definition coreblas_zunmqr ::
  "coreblas_codes \<Rightarrow> ('b heap \<Rightarrow> int \<times> 'b heap) \<Rightarrow> coreblas_enum \<Rightarrow> coreblas_enum \<Rightarrow>
   int \<Rightarrow> int \<Rightarrow> int \<Rightarrow> int \<Rightarrow> 'b ptr \<Rightarrow> int \<Rightarrow> 'b ptr \<Rightarrow> int \<Rightarrow> 'b ptr \<Rightarrow> int \<Rightarrow> 'b ptr \<Rightarrow> int \<Rightarrow>
   'b heap \<Rightarrow> int \<times> 'b heap" where
  "coreblas_zunmqr E rest side trans' m n k ib A lda T ldt C ldc work ldwork h =
    (if side \<noteq> CoreBlasLeft \<and> side \<noteq> CoreBlasRight then (- 1, h)
     else
       let nq = (if side = CoreBlasLeft then m else n);
           nw = (if side = CoreBlasLeft then n else m)
       in
       if trans' \<noteq> CoreBlasNoTrans \<and> trans' \<noteq> CoreBlasConjTrans then (- 2, h)
       else if m < 0 then (- 3, h)
       else if n < 0 then (- 4, h)
       else if k < 0 \<or> k > nq then (- 5, h)
       else if ib < 0 then (- 6, h)
       else if A = NULL then (- 7, h)
       else if lda < imax 1 nq \<and> nq > 0 then (- 8, h)
       else if T = NULL then (- 9, h)
       else if ldt < imax 1 ib then (- 10, h)
       else if C = NULL then (- 11, h)
       else if ldc < imax 1 m \<and> m > 0 then (- 12, h)
       else if work = NULL then (- 13, h)
       else if ldwork < imax 1 nw \<and> nw > 0 then (- 14, h)
       else if m = 0 \<or> n = 0 \<or> k = 0 then (CoreBlasSuccess E, h)
       else rest h)"

definition zparfb_arg_checks ::
  "coreblas_enum \<Rightarrow> coreblas_enum \<Rightarrow> coreblas_enum \<Rightarrow> coreblas_enum \<Rightarrow>
   int \<Rightarrow> int \<Rightarrow> int \<Rightarrow> int \<Rightarrow> int \<Rightarrow> int \<Rightarrow>
   'b ptr \<Rightarrow> int \<Rightarrow> 'b ptr \<Rightarrow> int \<Rightarrow> 'b ptr \<Rightarrow> int \<Rightarrow> 'b ptr \<Rightarrow> int \<Rightarrow> 'b ptr \<Rightarrow> int \<Rightarrow>
   bool list" where
  "zparfb_arg_checks side trans' direct storev m1 n1 m2 n2 k l
     A1 lda1 A2 lda2 V ldv T ldt work ldwork =
    [ side \<noteq> CoreBlasLeft \<and> side \<noteq> CoreBlasRight,
      trans' \<noteq> CoreBlasNoTrans \<and> trans' \<noteq> CoreBlasConjTrans,
      direct \<noteq> CoreBlasForward \<and> direct \<noteq> CoreBlasBackward,
      storev \<noteq> CoreBlasColumnwise \<and> storev \<noteq> CoreBlasRowwise,
      m1 < 0,
      n1 < 0,
      m2 < 0 \<or> (side = CoreBlasRight \<and> m1 \<noteq> m2),
      n2 < 0 \<or> (side = CoreBlasLeft \<and> n1 \<noteq> n2),
      k < 0,
      l < 0,
      A1 = NULL,
      lda1 < 0,
      A2 = NULL,
      lda2 < 0,
      V = NULL,
      ldv < 0,
      T = NULL,
      ldt < 0,
      work = NULL,
      ldwork < 0 ]"

definition coreblas_zparfb ::
  "coreblas_codes \<Rightarrow> ('b heap \<Rightarrow> int \<times> 'b heap) \<Rightarrow>
   coreblas_enum \<Rightarrow> coreblas_enum \<Rightarrow> coreblas_enum \<Rightarrow> coreblas_enum \<Rightarrow>
   int \<Rightarrow> int \<Rightarrow> int \<Rightarrow> int \<Rightarrow> int \<Rightarrow> int \<Rightarrow>
   'b ptr \<Rightarrow> int \<Rightarrow> 'b ptr \<Rightarrow> int \<Rightarrow> 'b ptr \<Rightarrow> int \<Rightarrow> 'b ptr \<Rightarrow> int \<Rightarrow> 'b ptr \<Rightarrow> int \<Rightarrow>
   'b heap \<Rightarrow> int \<times> 'b heap" where
  "coreblas_zparfb E rest side trans' direct storev m1 n1 m2 n2 k l
     A1 lda1 A2 lda2 V ldv T ldt work ldwork h =
    (if side \<noteq> CoreBlasLeft \<and> side \<noteq> CoreBlasRight then (- 1, h)
     else if trans' \<noteq> CoreBlasNoTrans \<and> trans' \<noteq> CoreBlasConjTrans then (- 2, h)
     else if direct \<noteq> CoreBlasForward \<and> direct \<noteq> CoreBlasBackward then (- 3, h)
     else if storev \<noteq> CoreBlasColumnwise \<and> storev \<noteq> CoreBlasRowwise then (- 4, h)
     else if m1 < 0 then (- 5, h)
     else if n1 < 0 then (- 6, h)
     else if m2 < 0 \<or> (side = CoreBlasRight \<and> m1 \<noteq> m2) then (- 7, h)
     else if n2 < 0 \<or> (side = CoreBlasLeft \<and> n1 \<noteq> n2) then (- 8, h)
     else if k < 0 then (- 9, h)
     else if l < 0 then (- 10, h)
     else if A1 = NULL then (- 11, h)
     else if lda1 < 0 then (- 12, h)
     else if A2 = NULL then (- 13, h)
     else if lda2 < 0 then (- 14, h)
     else if V = NULL then (- 15, h)
     else if ldv < 0 then (- 16, h)
     else if T = NULL then (- 17, h)
     else if ldt < 0 then (- 18, h)
     else if work = NULL then (- 19, h)
     else if ldwork < 0 then (- 20, h)
     else if m1 = 0 \<or> n1 = 0 \<or> m2 = 0 \<or> n2 = 0 \<or> k = 0 then (CoreBlasSuccess E, h)
     else rest h)"

text \<open>
  The error contract of a checking kernel, as a predicate on its table of checks \<open>cs\<close>,
  its result \<open>res\<close> (\<open>None\<close> when the call does not return) and the heap \<open>h\<close> it was called
  with: if some position holds an illegal value, the call returns \<open>-q\<close> for the first
  such position \<open>q\<close> and the heap is \<open>h\<close> itself, so nothing was computed or stored.
\<close>

definition rejects_first_illegal :: "bool list \<Rightarrow> (int \<times> 'h) option \<Rightarrow> 'h \<Rightarrow> bool" where
  "rejects_first_illegal cs res h \<longleftrightarrow>
     (\<forall>p. arg_illegal cs p \<longrightarrow>
        (\<exists>q. arg_illegal cs q \<and> (\<forall>r<q. \<not> arg_illegal cs r) \<and> res = Some (- int q, h)))"

subsection \<open>Band storage and the reflector store\<close>

text \<open>
  The bulge-chasing kernels work on six caller-owned arrays: the band buffer \<open>A\<close>, the
  reflector vectors \<open>VQ\<close>, \<open>VP\<close>, their scalars \<open>TAUQ\<close>, \<open>TAUP\<close>, and the scratch array
  \<open>WORK\<close>. Each array is a map from element offsets to elements; the six arrays are six
  fields of the state, so they do not overlap. The kernels check no bounds, and neither
  does the model: an offset is any integer.
\<close>

type_synonym mem = "int \<Rightarrow> complex"

record bulge_state =
  A_buf :: mem
  VQ_buf :: mem
  TAUQ_buf :: mem
  VP_buf :: mem
  TAUP_buf :: mem
  WORK_buf :: mem

text \<open>
  The macros \<open>AL(m_, n_)\<close> and \<open>AU(m_, n_)\<close>: the offset, from the pointer \<open>A\<close>, of the
  entry in row \<open>m\<close> and column \<open>n\<close> of the lower and of the upper view.
\<close>

definition AL :: "int \<Rightarrow> int \<Rightarrow> int \<Rightarrow> int \<Rightarrow> int" where
  "AL nb lda m n = nb + lda * n + (m - n)"

definition AU :: "int \<Rightarrow> int \<Rightarrow> int \<Rightarrow> int \<Rightarrow> int" where
  "AU nb lda m n = nb + lda * n + (m - n + nb)"

text \<open>
  Where a reflector lives. In values-only mode (\<open>wantz = 0\<close>) the vector and the scalar
  share the offset \<open>((sweep+1)%2)*n + p\<close>; otherwise \<open>findVTpos\<close> of \<open>bulge.h\<close> decides. That
  header is not among the sources, so \<open>findVTpos\<close> is the parameter \<open>fv\<close>, giving the pair
  \<open>(vpos, taupos)\<close> (its outputs \<open>tpos\<close> and \<open>blkid\<close> are never read by the kernels).
\<close>

type_synonym findVTpos = "int \<Rightarrow> int \<Rightarrow> int \<Rightarrow> int \<Rightarrow> int \<Rightarrow> int \<times> int"

definition bulge_vtpos ::
  "findVTpos \<Rightarrow> int \<Rightarrow> int \<Rightarrow> int \<Rightarrow> int \<Rightarrow> int \<Rightarrow> int \<Rightarrow> int \<times> int" where
  "bulge_vtpos fv wantz n nb Vblksiz sweep p =
    (if wantz = 0
     then (((sweep + 1) smod 2) * n + p, ((sweep + 1) smod 2) * n + p)
     else fv n nb Vblksiz sweep p)"

subsection \<open>The LAPACK reflector routines\<close>

text \<open>
  \<open>zlarfg\<close> and \<open>zlarfx\<close> belong to LAPACK, not to the repository; they are the fields of a
  parameter \<open>P\<close>. \<open>zlarfg P n alpha x\<close> receives the order, the scalar \<open>alpha\<close> and the
  \<open>n-1\<close> entries of \<open>x\<close>, and gives \<open>(beta, x', tau)\<close>. \<open>zlarfx P side m n v tau C\<close>
  receives the reflector and the \<open>m\<close> by \<open>n\<close> matrix and gives the matrix \<open>H * C\<close> or
  \<open>C * H\<close>; \<open>zlarfx_work\<close> is what the call leaves in its workspace. Vectors and
  matrices are indexed from 0.
\<close>

record lapack =
  zlarfg :: "int \<Rightarrow> complex \<Rightarrow> (int \<Rightarrow> complex) \<Rightarrow> complex \<times> (int \<Rightarrow> complex) \<times> complex"
  zlarfx :: "char \<Rightarrow> int \<Rightarrow> int \<Rightarrow> (int \<Rightarrow> complex) \<Rightarrow> complex \<Rightarrow> (int \<Rightarrow> int \<Rightarrow> complex)
             \<Rightarrow> (int \<Rightarrow> int \<Rightarrow> complex)"
  zlarfx_work :: "char \<Rightarrow> int \<Rightarrow> int \<Rightarrow> (int \<Rightarrow> complex) \<Rightarrow> complex \<Rightarrow> (int \<Rightarrow> int \<Rightarrow> complex)
             \<Rightarrow> mem \<Rightarrow> mem"

text \<open>
  How a routine sees an array: \<open>n\<close> consecutive elements from offset \<open>b\<close>, or an \<open>m\<close> by
  \<open>n\<close> column-major matrix with leading dimension \<open>ld\<close> from offset \<open>b\<close>. A routine reads
  and writes these elements and no others.
\<close>

definition vec_read :: "mem \<Rightarrow> int \<Rightarrow> int \<Rightarrow> (int \<Rightarrow> complex)" where
  "vec_read M b n = (\<lambda>i. if 0 \<le> i \<and> i < n then M (b + i) else 0)"

definition vec_write :: "mem \<Rightarrow> int \<Rightarrow> int \<Rightarrow> (int \<Rightarrow> complex) \<Rightarrow> mem" where
  "vec_write M b n x = for_loop 0 n (\<lambda>i M'. M'(b + i := x i)) M"

definition mat_read :: "mem \<Rightarrow> int \<Rightarrow> int \<Rightarrow> int \<Rightarrow> int \<Rightarrow> (int \<Rightarrow> int \<Rightarrow> complex)" where
  "mat_read M b ld m n =
     (\<lambda>i j. if 0 \<le> i \<and> i < m \<and> 0 \<le> j \<and> j < n then M (b + i + j * ld) else 0)"

definition mat_write :: "mem \<Rightarrow> int \<Rightarrow> int \<Rightarrow> int \<Rightarrow> int \<Rightarrow> (int \<Rightarrow> int \<Rightarrow> complex) \<Rightarrow> mem" where
  "mat_write M b ld m n C =
     for_loop 0 n (\<lambda>j. for_loop 0 m (\<lambda>i M'. M'(b + i + j * ld := C i j))) M"

text \<open>
  \<open>LAPACKE_zlarfg(n, &alpha, x, 1, &tau)\<close> with \<open>x\<close> at offset \<open>xb\<close> of the array \<open>X\<close>: the
  result is the new \<open>alpha\<close>, the array with \<open>x\<close> overwritten, and \<open>tau\<close>. The \<open>_work\<close>
  variants of the LAPACKE routines compute the same.
\<close>

definition LAPACKE_zlarfg ::
  "lapack \<Rightarrow> int \<Rightarrow> complex \<Rightarrow> mem \<Rightarrow> int \<Rightarrow> complex \<times> mem \<times> complex" where
  "LAPACKE_zlarfg P n alpha X xb =
     (case zlarfg P n alpha (vec_read X xb (n - 1)) of
        (beta, x', tau) \<Rightarrow> (beta, vec_write X xb (n - 1) x', tau))"

text \<open>
  \<open>LAPACKE_zlarfx(LAPACK_COL_MAJOR, side, m, n, v, tau, c, ldc, work)\<close> with \<open>v\<close> at
  offset \<open>vb\<close> of \<open>V\<close> and \<open>c\<close> at offset \<open>cb\<close> of \<open>C\<close>: the result is the array \<open>C\<close> with the
  matrix overwritten, and the workspace. The reflector has \<open>m\<close> entries for \<open>side = 'L'\<close>
  and \<open>n\<close> for \<open>side = 'R'\<close>.
\<close>

definition LAPACKE_zlarfx ::
  "lapack \<Rightarrow> char \<Rightarrow> int \<Rightarrow> int \<Rightarrow> mem \<Rightarrow> int \<Rightarrow> complex \<Rightarrow> mem \<Rightarrow> int \<Rightarrow> int \<Rightarrow> mem \<Rightarrow>
   mem \<times> mem" where
  "LAPACKE_zlarfx P side m n V vb tau C cb ldc W =
     (let v = vec_read V vb (if side = CHR ''L'' then m else n);
          Cin = mat_read C cb ldc m n
      in (mat_write C cb ldc m n (zlarfx P side m n v tau Cin),
          zlarfx_work P side m n v tau Cin W))"

text \<open>
  \<open>memcpy\<close> of \<open>n\<close> elements between two different arrays, and \<open>memset\<close> of \<open>n\<close> elements to
  zero, for \<open>n \<ge> 0\<close>. The C calls pass \<open>(len-1)*sizeof(coreblas_complex64_t)\<close> bytes as a
  \<open>size_t\<close>: for \<open>len < 1\<close>, that is \<open>st > ed\<close>, the count wraps around to a huge value and
  the call is undefined. The definitions below copy nothing for \<open>n < 0\<close>, so they say
  what the source does only for \<open>len \<ge> 1\<close>; statements about the kernels beyond their
  text assume \<open>st \<le> ed\<close>.
\<close>

definition memcpy :: "mem \<Rightarrow> int \<Rightarrow> mem \<Rightarrow> int \<Rightarrow> int \<Rightarrow> mem" where
  "memcpy D d S s n = for_loop 0 n (\<lambda>k D'. D'(d + k := S (s + k))) D"

definition memset0 :: "mem \<Rightarrow> int \<Rightarrow> int \<Rightarrow> mem" where
  "memset0 D d n = for_loop 0 n (\<lambda>k D'. D'(d + k := 0)) D"

subsection \<open>The four code blocks of the bulge-chasing kernels\<close>

text \<open>
  Both kernels, in both their cases, are built from four blocks of statements that
  differ only in the addresses passed. The blocks are given once, over offsets into \<open>A\<close>.

  \<open>eliminate_row\<close>: the block commented "Eliminate the row at ..." in the source,
  \<^verbatim>\<open>
    *VP(vpos) = 1.;
    for(i=1; i<len; i++){ *VP(vpos+i) = conj(*a(i)); *a(i) = 0.; }
    ctmp = conj(*a(0));
    LAPACKE_zlarfg(len, &ctmp, VP(vpos+1), 1, TAUP(taupos));
    *a(0) = ctmp;
  \<close>
  where \<open>a i\<close> is the offset of the \<open>i\<close>-th entry of the row, the pivot being \<open>a 0\<close>.
\<close>

definition eliminate_row ::
  "lapack \<Rightarrow> (int \<Rightarrow> int) \<Rightarrow> int \<Rightarrow> int \<Rightarrow> int \<Rightarrow> bulge_state \<Rightarrow> bulge_state" where
  "eliminate_row P a len vpos taupos s =
    (let s1 = s\<lparr>VP_buf := (VP_buf s)(vpos := 1)\<rparr>;
         s2 = for_loop 1 len (\<lambda>i t.
                t\<lparr>VP_buf := (VP_buf t)(vpos + i := cnj (A_buf t (a i))),
                  A_buf := (A_buf t)(a i := 0)\<rparr>) s1;
         ctmp = cnj (A_buf s2 (a 0))
     in case LAPACKE_zlarfg P len ctmp (VP_buf s2) (vpos + 1) of
          (ctmp, VP', tau) \<Rightarrow>
            s2\<lparr>VP_buf := VP', TAUP_buf := (TAUP_buf s2)(taupos := tau),
               A_buf := (A_buf s2)(a 0 := ctmp)\<rparr>)"

text \<open>
  \<open>eliminate_col\<close>: the block commented "Eliminate the col at ...",
  \<^verbatim>\<open>
    *VQ(vpos) = 1.;
    memcpy(VQ(vpos+1), a1, (len-1)*sizeof(coreblas_complex64_t));
    memset(a1, 0, (len-1)*sizeof(coreblas_complex64_t));
    LAPACKE_zlarfg(len, a0, VQ(vpos+1), 1, TAUQ(taupos));
  \<close>
  where \<open>a0\<close> is the offset of the pivot and \<open>a1\<close> that of the entry below it.
\<close>

definition eliminate_col ::
  "lapack \<Rightarrow> int \<Rightarrow> int \<Rightarrow> int \<Rightarrow> int \<Rightarrow> int \<Rightarrow> bulge_state \<Rightarrow> bulge_state" where
  "eliminate_col P a0 a1 len vpos taupos s =
    (let s1 = s\<lparr>VQ_buf := (VQ_buf s)(vpos := 1)\<rparr>;
         s2 = s1\<lparr>VQ_buf := memcpy (VQ_buf s1) (vpos + 1) (A_buf s1) a1 (len - 1)\<rparr>;
         s3 = s2\<lparr>A_buf := memset0 (A_buf s2) a1 (len - 1)\<rparr>
     in case LAPACKE_zlarfg P len (A_buf s3 a0) (VQ_buf s3) (vpos + 1) of
          (beta, VQ', tau) \<Rightarrow>
            s3\<lparr>A_buf := (A_buf s3)(a0 := beta), VQ_buf := VQ',
               TAUQ_buf := (TAUQ_buf s3)(taupos := tau)\<rparr>)"

text \<open>
  \<open>apply_right_at\<close> and \<open>apply_left_at\<close>: the blocks
  \<^verbatim>\<open>
    ctmp = *TAUP(taupos);
    LAPACKE_zlarfx(LAPACK_COL_MAJOR, 'R', m, n, VP(vpos), ctmp, c, LDX, WORK);
  \<close>
  and
  \<^verbatim>\<open>
    ctmp = conj(*TAUQ(taupos));
    LAPACKE_zlarfx(LAPACK_COL_MAJOR, 'L', m, n, VQ(vpos), ctmp, c, LDX, WORK);
  \<close>
  with \<open>c\<close> at offset \<open>cb\<close> of \<open>A\<close>.
\<close>

definition apply_right_at ::
  "lapack \<Rightarrow> int \<Rightarrow> int \<Rightarrow> int \<Rightarrow> int \<Rightarrow> int \<Rightarrow> int \<Rightarrow> bulge_state \<Rightarrow> bulge_state" where
  "apply_right_at P m n vpos taupos cb LDX s =
    (let ctmp = TAUP_buf s taupos
     in case LAPACKE_zlarfx P (CHR ''R'') m n (VP_buf s) vpos ctmp (A_buf s) cb LDX
               (WORK_buf s) of
          (A', W') \<Rightarrow> s\<lparr>A_buf := A', WORK_buf := W'\<rparr>)"

definition apply_left_at ::
  "lapack \<Rightarrow> int \<Rightarrow> int \<Rightarrow> int \<Rightarrow> int \<Rightarrow> int \<Rightarrow> int \<Rightarrow> bulge_state \<Rightarrow> bulge_state" where
  "apply_left_at P m n vpos taupos cb LDX s =
    (let ctmp = cnj (TAUQ_buf s taupos)
     in case LAPACKE_zlarfx P (CHR ''L'') m n (VQ_buf s) vpos ctmp (A_buf s) cb LDX
               (WORK_buf s) of
          (A', W') \<Rightarrow> s\<lparr>A_buf := A', WORK_buf := W'\<rparr>)"

subsection \<open>\<open>coreblas_zgbtype1cb\<close>\<close>

text \<open>
  The upper and the lower case of the type-1 kernel,
  \<open>src/core_blas/core_zgbtype1cb.c\<close>, with the reflector offsets \<open>vpos\<close>, \<open>taupos\<close> already
  computed.
\<close>

definition zgbtype1cb_upper ::
  "lapack \<Rightarrow> int \<Rightarrow> int \<Rightarrow> int \<Rightarrow> int \<Rightarrow> int \<Rightarrow> int \<Rightarrow> bulge_state \<Rightarrow> bulge_state" where
  "zgbtype1cb_upper P nb lda st ed vpos taupos s =
    (let LDX = lda - 1;
         len = ed - st + 1;
         s1 = eliminate_row P (\<lambda>i. AU nb lda (st - 1) (st + i)) len vpos taupos s;
         s2 = apply_right_at P len len vpos taupos (AU nb lda st st) LDX s1;
         s3 = eliminate_col P (AU nb lda st st) (AU nb lda (st + 1) st) len vpos taupos s2;
         lenj = len - 1
     in apply_left_at P len lenj vpos taupos (AU nb lda st (st + 1)) LDX s3)"

definition zgbtype1cb_lower ::
  "lapack \<Rightarrow> int \<Rightarrow> int \<Rightarrow> int \<Rightarrow> int \<Rightarrow> int \<Rightarrow> int \<Rightarrow> bulge_state \<Rightarrow> bulge_state" where
  "zgbtype1cb_lower P nb lda st ed vpos taupos s =
    (let LDX = lda - 1;
         len = ed - st + 1;
         s1 = eliminate_col P (AL nb lda st (st - 1)) (AL nb lda (st + 1) (st - 1)) len
                vpos taupos s;
         s2 = apply_left_at P len len vpos taupos (AL nb lda st st) LDX s1;
         s3 = eliminate_row P (\<lambda>i. AL nb lda st (st + i)) len vpos taupos s2;
         lenj = len - 1
     in apply_right_at P lenj len vpos taupos (AL nb lda (st + 1) st) LDX s3)"

text \<open>
  The kernel as called: it finds the reflector offsets for \<open>(sweep, st)\<close> and runs the
  case selected by \<open>uplo\<close>; every value of \<open>uplo\<close> other than \<open>CoreBlasUpper\<close> takes the lower
  case. The function is \<open>void\<close>: its result is the state of the six arrays.
\<close>

definition coreblas_zgbtype1cb ::
  "lapack \<Rightarrow> findVTpos \<Rightarrow> coreblas_enum \<Rightarrow> int \<Rightarrow> int \<Rightarrow> int \<Rightarrow> int \<Rightarrow> int \<Rightarrow> int \<Rightarrow> int \<Rightarrow> int \<Rightarrow>
   bulge_state \<Rightarrow> bulge_state" where
  "coreblas_zgbtype1cb P fv uplo n nb lda st ed sweep Vblksiz wantz s =
    (case bulge_vtpos fv wantz n nb Vblksiz sweep st of (vpos, taupos) \<Rightarrow>
       if uplo = CoreBlasUpper then zgbtype1cb_upper P nb lda st ed vpos taupos s
       else zgbtype1cb_lower P nb lda st ed vpos taupos s)"

subsection \<open>\<open>coreblas_zgbtype2cb\<close>\<close>

text \<open>
  The type-2 kernel, \<open>src/core_blas/core_zgbtype2cb.c\<close>, has two guarded blocks per case.
  The first (\<open>len > 0\<close>) applies the reflector stored for \<open>(sweep, st)\<close>; the second
  (\<open>len > 1\<close>) creates the reflector for \<open>(sweep, J1)\<close> and applies it, after \<open>lem = lem-1\<close>.
  Here \<open>lem = ed - st + 1\<close> and \<open>len = J2 - J1 + 1\<close> as in the source.
\<close>

definition zgbtype2cb_upper_pending ::
  "lapack \<Rightarrow> int \<Rightarrow> int \<Rightarrow> int \<Rightarrow> int \<Rightarrow> int \<Rightarrow> int \<Rightarrow> int \<Rightarrow> int \<Rightarrow> bulge_state \<Rightarrow> bulge_state" where
  "zgbtype2cb_upper_pending P nb lda st J1 lem len vpos taupos s =
     apply_left_at P lem len vpos taupos (AU nb lda st J1) (lda - 1) s"

definition zgbtype2cb_upper_chase ::
  "lapack \<Rightarrow> int \<Rightarrow> int \<Rightarrow> int \<Rightarrow> int \<Rightarrow> int \<Rightarrow> int \<Rightarrow> int \<Rightarrow> int \<Rightarrow> bulge_state \<Rightarrow> bulge_state" where
  "zgbtype2cb_upper_chase P nb lda st J1 lem len vpos taupos s =
    (let s1 = eliminate_row P (\<lambda>i. AU nb lda st (J1 + i)) len vpos taupos s;
         lem' = lem - 1
     in apply_right_at P lem' len vpos taupos (AU nb lda (st + 1) J1) (lda - 1) s1)"

definition zgbtype2cb_lower_pending ::
  "lapack \<Rightarrow> int \<Rightarrow> int \<Rightarrow> int \<Rightarrow> int \<Rightarrow> int \<Rightarrow> int \<Rightarrow> int \<Rightarrow> int \<Rightarrow> bulge_state \<Rightarrow> bulge_state" where
  "zgbtype2cb_lower_pending P nb lda st J1 lem len vpos taupos s =
     apply_right_at P len lem vpos taupos (AL nb lda J1 st) (lda - 1) s"

definition zgbtype2cb_lower_chase ::
  "lapack \<Rightarrow> int \<Rightarrow> int \<Rightarrow> int \<Rightarrow> int \<Rightarrow> int \<Rightarrow> int \<Rightarrow> int \<Rightarrow> int \<Rightarrow> bulge_state \<Rightarrow> bulge_state" where
  "zgbtype2cb_lower_chase P nb lda st J1 lem len vpos taupos s =
    (let s1 = eliminate_col P (AL nb lda J1 st) (AL nb lda (J1 + 1) st) len vpos taupos s;
         lem' = lem - 1
     in apply_left_at P len lem' vpos taupos (AL nb lda J1 (st + 1)) (lda - 1) s1)"

definition coreblas_zgbtype2cb ::
  "lapack \<Rightarrow> findVTpos \<Rightarrow> coreblas_enum \<Rightarrow> int \<Rightarrow> int \<Rightarrow> int \<Rightarrow> int \<Rightarrow> int \<Rightarrow> int \<Rightarrow> int \<Rightarrow> int \<Rightarrow>
   bulge_state \<Rightarrow> bulge_state" where
  "coreblas_zgbtype2cb P fv uplo n nb lda st ed sweep Vblksiz wantz s =
    (let J1 = ed + 1;
         J2 = imin (ed + nb) (n - 1);
         lem = ed - st + 1;
         len = J2 - J1 + 1
     in
     if uplo = CoreBlasUpper then
       let s1 = (if len > 0 then
                   case bulge_vtpos fv wantz n nb Vblksiz sweep st of (vpos, taupos) \<Rightarrow>
                     zgbtype2cb_upper_pending P nb lda st J1 lem len vpos taupos s
                 else s)
       in (if len > 1 then
             case bulge_vtpos fv wantz n nb Vblksiz sweep J1 of (vpos, taupos) \<Rightarrow>
               zgbtype2cb_upper_chase P nb lda st J1 lem len vpos taupos s1
           else s1)
     else
       let s1 = (if len > 0 then
                   case bulge_vtpos fv wantz n nb Vblksiz sweep st of (vpos, taupos) \<Rightarrow>
                     zgbtype2cb_lower_pending P nb lda st J1 lem len vpos taupos s
                 else s)
       in (if len > 1 then
             case bulge_vtpos fv wantz n nb Vblksiz sweep J1 of (vpos, taupos) \<Rightarrow>
               zgbtype2cb_lower_chase P nb lda st J1 lem len vpos taupos s1
           else s1))"

subsection \<open>The kernels with the reflector offsets given\<close>

text \<open>
  The two kernels after their offset computation: \<open>zgbtype1cb_at\<close> is the body of
  \<open>coreblas_zgbtype1cb\<close> for given \<open>vpos\<close>, \<open>taupos\<close>; \<open>zgbtype2cb_pending\<close> and
  \<open>zgbtype2cb_chase\<close> are the two guarded blocks of \<open>coreblas_zgbtype2cb\<close> with
  \<open>J1\<close>, \<open>J2\<close>, \<open>lem\<close>, \<open>len\<close> computed as at the head of that function.
\<close>

definition zgbtype1cb_at ::
  "lapack \<Rightarrow> coreblas_enum \<Rightarrow> int \<Rightarrow> int \<Rightarrow> int \<Rightarrow> int \<Rightarrow> int \<Rightarrow> int \<Rightarrow> bulge_state \<Rightarrow> bulge_state" where
  "zgbtype1cb_at P uplo nb lda st ed vpos taupos s =
    (if uplo = CoreBlasUpper then zgbtype1cb_upper P nb lda st ed vpos taupos s
     else zgbtype1cb_lower P nb lda st ed vpos taupos s)"

definition zgbtype2cb_pending ::
  "lapack \<Rightarrow> coreblas_enum \<Rightarrow> int \<Rightarrow> int \<Rightarrow> int \<Rightarrow> int \<Rightarrow> int \<Rightarrow> int \<Rightarrow> int \<Rightarrow> bulge_state \<Rightarrow> bulge_state" where
  "zgbtype2cb_pending P uplo n nb lda st ed vpos taupos s =
    (let J1 = ed + 1; J2 = imin (ed + nb) (n - 1); lem = ed - st + 1; len = J2 - J1 + 1
     in if uplo = CoreBlasUpper
        then zgbtype2cb_upper_pending P nb lda st J1 lem len vpos taupos s
        else zgbtype2cb_lower_pending P nb lda st J1 lem len vpos taupos s)"

definition zgbtype2cb_chase ::
  "lapack \<Rightarrow> coreblas_enum \<Rightarrow> int \<Rightarrow> int \<Rightarrow> int \<Rightarrow> int \<Rightarrow> int \<Rightarrow> int \<Rightarrow> int \<Rightarrow> bulge_state \<Rightarrow> bulge_state" where
  "zgbtype2cb_chase P uplo n nb lda st ed vpos taupos s =
    (let J1 = ed + 1; J2 = imin (ed + nb) (n - 1); lem = ed - st + 1; len = J2 - J1 + 1
     in if uplo = CoreBlasUpper
        then zgbtype2cb_upper_chase P nb lda st J1 lem len vpos taupos s
        else zgbtype2cb_lower_chase P nb lda st J1 lem len vpos taupos s)"

text \<open>
  The length \<open>len = J2 - J1 + 1\<close> of the next block, with \<open>J1 = ed + 1\<close> and
  \<open>J2 = imin (ed + nb) (n - 1)\<close>.
\<close>

definition next_block_len :: "int \<Rightarrow> int \<Rightarrow> int \<Rightarrow> int" where
  "next_block_len n nb ed = imin (ed + nb) (n - 1) - (ed + 1) + 1"

text \<open>
  The offset the specification gives for values-only mode, with the mathematical
  \<open>mod\<close>; the source computes it with the C operator \<open>%\<close>, see \<open>bulge_vtpos\<close>.
\<close>

definition pingpong_slot :: "int \<Rightarrow> int \<Rightarrow> int \<Rightarrow> int" where
  "pingpong_slot n sweep p = ((sweep + 1) mod 2) * n + p"

subsection \<open>Logical entries of the band buffer\<close>

text \<open>
  \<open>band_entry uplo nb lda i j\<close> is the offset of the logical entry \<open>(i, j)\<close>: the macro
  \<open>AU\<close> in the upper case and \<open>AL\<close> otherwise, which is how both kernels pick between
  them. \<open>block_read\<close> and \<open>block_write\<close> are the \<open>m\<close>-by-\<open>n\<close> block whose top left entry is
  \<open>(r, c)\<close>, read as a matrix and written back column by column.
\<close>

definition band_entry :: "coreblas_enum \<Rightarrow> int \<Rightarrow> int \<Rightarrow> int \<Rightarrow> int \<Rightarrow> int" where
  "band_entry uplo nb lda i j =
     (if uplo = CoreBlasUpper then AU nb lda i j else AL nb lda i j)"

definition block_read ::
  "coreblas_enum \<Rightarrow> int \<Rightarrow> int \<Rightarrow> mem \<Rightarrow> int \<Rightarrow> int \<Rightarrow> int \<Rightarrow> int \<Rightarrow> (int \<Rightarrow> int \<Rightarrow> complex)" where
  "block_read uplo nb lda M r c m n =
     (\<lambda>i j. if 0 \<le> i \<and> i < m \<and> 0 \<le> j \<and> j < n
            then M (band_entry uplo nb lda (r + i) (c + j)) else 0)"

definition block_write ::
  "coreblas_enum \<Rightarrow> int \<Rightarrow> int \<Rightarrow> mem \<Rightarrow> int \<Rightarrow> int \<Rightarrow> int \<Rightarrow> int \<Rightarrow> (int \<Rightarrow> int \<Rightarrow> complex) \<Rightarrow> mem" where
  "block_write uplo nb lda M r c m n C =
     for_loop 0 n (\<lambda>j. for_loop 0 m
       (\<lambda>i M'. M'(band_entry uplo nb lda (r + i) (c + j) := C i j))) M"

text \<open>
  The steps the specification names, on logical entries. Applying a stored reflector to
  a block: \<open>apply_right\<close> takes the vector from \<open>VP\<close> and the scalar \<open>TAUP[taupos]\<close>,
  \<open>apply_left\<close> takes the vector from \<open>VQ\<close> and the conjugate of \<open>TAUQ[taupos]\<close>.
\<close>

definition apply_reflector_to_block ::
  "lapack \<Rightarrow> coreblas_enum \<Rightarrow> int \<Rightarrow> int \<Rightarrow> char \<Rightarrow> int \<Rightarrow> int \<Rightarrow> int \<Rightarrow> int \<Rightarrow>
   (int \<Rightarrow> complex) \<Rightarrow> complex \<Rightarrow> bulge_state \<Rightarrow> bulge_state" where
  "apply_reflector_to_block P uplo nb lda side r c m n v tau s =
     (let Cin = block_read uplo nb lda (A_buf s) r c m n
      in s\<lparr>A_buf := block_write uplo nb lda (A_buf s) r c m n (zlarfx P side m n v tau Cin),
           WORK_buf := zlarfx_work P side m n v tau Cin (WORK_buf s)\<rparr>)"

definition apply_right ::
  "lapack \<Rightarrow> coreblas_enum \<Rightarrow> int \<Rightarrow> int \<Rightarrow> int \<Rightarrow> int \<Rightarrow> int \<Rightarrow> int \<Rightarrow> int \<Rightarrow> int \<Rightarrow>
   bulge_state \<Rightarrow> bulge_state" where
  "apply_right P uplo nb lda r c m n vpos taupos s =
     apply_reflector_to_block P uplo nb lda (CHR ''R'') r c m n
       (vec_read (VP_buf s) vpos n) (TAUP_buf s taupos) s"

definition apply_left ::
  "lapack \<Rightarrow> coreblas_enum \<Rightarrow> int \<Rightarrow> int \<Rightarrow> int \<Rightarrow> int \<Rightarrow> int \<Rightarrow> int \<Rightarrow> int \<Rightarrow> int \<Rightarrow>
   bulge_state \<Rightarrow> bulge_state" where
  "apply_left P uplo nb lda r c m n vpos taupos s =
     apply_reflector_to_block P uplo nb lda (CHR ''L'') r c m n
       (vec_read (VQ_buf s) vpos m) (cnj (TAUQ_buf s taupos)) s"

text \<open>
  Copying the entries to eliminate into the reflector vector and zeroing them:
  \<open>gather_row\<close> takes the \<open>len - 1\<close> entries right of \<open>(r, c)\<close> in row \<open>r\<close>, conjugated, into
  \<open>VP\<close>; \<open>gather_col\<close> takes the \<open>len - 1\<close> entries below \<open>(r, c)\<close> in column \<open>c\<close> into \<open>VQ\<close>.
  Both set the head of the vector to one.
\<close>

definition gather_row ::
  "coreblas_enum \<Rightarrow> int \<Rightarrow> int \<Rightarrow> int \<Rightarrow> int \<Rightarrow> int \<Rightarrow> int \<Rightarrow> bulge_state \<Rightarrow> bulge_state" where
  "gather_row uplo nb lda r c len vpos s =
     for_loop 1 len (\<lambda>i t.
        t\<lparr>VP_buf := (VP_buf t)(vpos + i := cnj (A_buf t (band_entry uplo nb lda r (c + i)))),
          A_buf := (A_buf t)(band_entry uplo nb lda r (c + i) := 0)\<rparr>)
       (s\<lparr>VP_buf := (VP_buf s)(vpos := 1)\<rparr>)"

definition gather_col ::
  "coreblas_enum \<Rightarrow> int \<Rightarrow> int \<Rightarrow> int \<Rightarrow> int \<Rightarrow> int \<Rightarrow> int \<Rightarrow> bulge_state \<Rightarrow> bulge_state" where
  "gather_col uplo nb lda r c len vpos s =
     (let s1 = s\<lparr>VQ_buf := (VQ_buf s)(vpos := 1)\<rparr>;
          s2 = s1\<lparr>VQ_buf := for_loop 0 (len - 1) (\<lambda>k D.
                   D(vpos + 1 + k := A_buf s1 (band_entry uplo nb lda (r + 1 + k) c)))
                   (VQ_buf s1)\<rparr>
      in s2\<lparr>A_buf := for_loop 0 (len - 1) (\<lambda>k D.
                   D(band_entry uplo nb lda (r + 1 + k) c := 0)) (A_buf s2)\<rparr>)"

text \<open>
  Generating the reflector with \<open>zlarfg\<close>: the pivot entry \<open>(r, c)\<close> receives \<open>beta\<close>, the
  vector its scaled entries and the scalar array \<open>tau\<close>. The right reflector works on the
  conjugate of the pivot.
\<close>

definition gen_right_reflector ::
  "lapack \<Rightarrow> coreblas_enum \<Rightarrow> int \<Rightarrow> int \<Rightarrow> int \<Rightarrow> int \<Rightarrow> int \<Rightarrow> int \<Rightarrow> int \<Rightarrow>
   bulge_state \<Rightarrow> bulge_state" where
  "gen_right_reflector P uplo nb lda r c len vpos taupos s =
     (case zlarfg P len (cnj (A_buf s (band_entry uplo nb lda r c)))
             (vec_read (VP_buf s) (vpos + 1) (len - 1)) of
        (beta, x', tau) \<Rightarrow>
          s\<lparr>VP_buf := vec_write (VP_buf s) (vpos + 1) (len - 1) x',
            TAUP_buf := (TAUP_buf s)(taupos := tau),
            A_buf := (A_buf s)(band_entry uplo nb lda r c := beta)\<rparr>)"

definition gen_left_reflector ::
  "lapack \<Rightarrow> coreblas_enum \<Rightarrow> int \<Rightarrow> int \<Rightarrow> int \<Rightarrow> int \<Rightarrow> int \<Rightarrow> int \<Rightarrow> int \<Rightarrow>
   bulge_state \<Rightarrow> bulge_state" where
  "gen_left_reflector P uplo nb lda r c len vpos taupos s =
     (case zlarfg P len (A_buf s (band_entry uplo nb lda r c))
             (vec_read (VQ_buf s) (vpos + 1) (len - 1)) of
        (beta, x', tau) \<Rightarrow>
          s\<lparr>VQ_buf := vec_write (VQ_buf s) (vpos + 1) (len - 1) x',
            TAUQ_buf := (TAUQ_buf s)(taupos := tau),
            A_buf := (A_buf s)(band_entry uplo nb lda r c := beta)\<rparr>)"

text \<open>
  The sequence of steps of the type-1 kernel, as the specification lists it for the
  upper case, and its mirror image for the lower case.
\<close>

definition type1_upper_steps ::
  "lapack \<Rightarrow> int \<Rightarrow> int \<Rightarrow> int \<Rightarrow> int \<Rightarrow> int \<Rightarrow> int \<Rightarrow> bulge_state \<Rightarrow> bulge_state" where
  "type1_upper_steps P nb lda st ed vpos taupos s =
     (let len = ed - st + 1;
          s1 = gather_row CoreBlasUpper nb lda (st - 1) st len vpos s;
          s2 = gen_right_reflector P CoreBlasUpper nb lda (st - 1) st len vpos taupos s1;
          s3 = apply_right P CoreBlasUpper nb lda st st len len vpos taupos s2;
          s4 = gen_left_reflector P CoreBlasUpper nb lda st st len vpos taupos
                 (gather_col CoreBlasUpper nb lda st st len vpos s3)
      in apply_left P CoreBlasUpper nb lda st (st + 1) len (len - 1) vpos taupos s4)"

definition type1_lower_steps ::
  "lapack \<Rightarrow> int \<Rightarrow> int \<Rightarrow> int \<Rightarrow> int \<Rightarrow> int \<Rightarrow> int \<Rightarrow> bulge_state \<Rightarrow> bulge_state" where
  "type1_lower_steps P nb lda st ed vpos taupos s =
     (let len = ed - st + 1;
          s1 = gather_col CoreBlasLower nb lda st (st - 1) len vpos s;
          s2 = gen_left_reflector P CoreBlasLower nb lda st (st - 1) len vpos taupos s1;
          s3 = apply_left P CoreBlasLower nb lda st st len len vpos taupos s2;
          s4 = gen_right_reflector P CoreBlasLower nb lda st st len vpos taupos
                 (gather_row CoreBlasLower nb lda st st len vpos s3)
      in apply_right P CoreBlasLower nb lda (st + 1) st (len - 1) len vpos taupos s4)"

text \<open>
  The first block of the type-2 kernel as the specification describes it: the stored
  reflector applied to the rectangle with rows \<open>st..ed\<close> and columns \<open>J1..J2\<close> in the
  upper case, rows \<open>J1..J2\<close> and columns \<open>st..ed\<close> in the lower case.
  \<open>rectangle_entry uplo nb lda i j\<close> is the entry of that rectangle with index \<open>i\<close> in
  \<open>st..ed\<close> and index \<open>j\<close> in \<open>J1..J2\<close>, and \<open>type2_pending_block\<close> the matrix \<open>zlarfx\<close>
  returns for it, in the same indexing.
\<close>

definition type2_pending_steps ::
  "lapack \<Rightarrow> coreblas_enum \<Rightarrow> int \<Rightarrow> int \<Rightarrow> int \<Rightarrow> int \<Rightarrow> int \<Rightarrow> int \<Rightarrow> int \<Rightarrow> bulge_state \<Rightarrow> bulge_state" where
  "type2_pending_steps P uplo n nb lda st ed vpos taupos s =
     (let J1 = ed + 1; J2 = imin (ed + nb) (n - 1)
      in if uplo = CoreBlasUpper
         then apply_left P CoreBlasUpper nb lda st J1 (ed - st + 1) (J2 - J1 + 1) vpos taupos s
         else apply_right P CoreBlasLower nb lda J1 st (J2 - J1 + 1) (ed - st + 1) vpos taupos s)"

definition rectangle_entry :: "coreblas_enum \<Rightarrow> int \<Rightarrow> int \<Rightarrow> int \<Rightarrow> int \<Rightarrow> int" where
  "rectangle_entry uplo nb lda i j =
     (if uplo = CoreBlasUpper then band_entry CoreBlasUpper nb lda i j
      else band_entry CoreBlasLower nb lda j i)"

definition type2_pending_block ::
  "lapack \<Rightarrow> coreblas_enum \<Rightarrow> int \<Rightarrow> int \<Rightarrow> int \<Rightarrow> int \<Rightarrow> int \<Rightarrow> int \<Rightarrow> int \<Rightarrow> bulge_state \<Rightarrow>
   (int \<Rightarrow> int \<Rightarrow> complex)" where
  "type2_pending_block P uplo n nb lda st ed vpos taupos s =
     (let J1 = ed + 1; lem = ed - st + 1; len = imin (ed + nb) (n - 1) - J1 + 1
      in if uplo = CoreBlasUpper
         then (\<lambda>a b. zlarfx P (CHR ''L'') lem len (vec_read (VQ_buf s) vpos lem)
                        (cnj (TAUQ_buf s taupos))
                        (block_read CoreBlasUpper nb lda (A_buf s) st J1 lem len) a b)
         else (\<lambda>a b. zlarfx P (CHR ''R'') len lem (vec_read (VP_buf s) vpos lem)
                        (TAUP_buf s taupos)
                        (block_read CoreBlasLower nb lda (A_buf s) J1 st len lem) b a))"

subsection \<open>What the type-1 kernel computes\<close>

text \<open>
  A reflector vector as \<open>zlarfx\<close> receives it, the unit head followed by the \<open>len - 1\<close>
  entries \<open>zlarfg\<close> returned; and the predicate that a slot of the reflector store holds it.
\<close>

definition unit_head :: "int \<Rightarrow> (int \<Rightarrow> complex) \<Rightarrow> (int \<Rightarrow> complex)" where
  "unit_head len x = (\<lambda>i. if i = 0 then 1 else if 1 \<le> i \<and> i < len then x (i - 1) else 0)"

definition slot_holds :: "mem \<Rightarrow> int \<Rightarrow> int \<Rightarrow> (int \<Rightarrow> complex) \<Rightarrow> bool" where
  "slot_holds M pos len x \<longleftrightarrow> M pos = 1 \<and> (\<forall>i. 1 \<le> i \<and> i < len \<longrightarrow> M (pos + i) = x (i - 1))"

text \<open>
  The values of the upper case, as functions of the band buffer \<open>A\<close> at entry:
  the result \<open>(beta, x, tau)\<close> of the first \<open>zlarfg\<close>, on the conjugated row \<open>st - 1\<close>; the
  diagonal block after the update from the right; the result of the second \<open>zlarfg\<close>, on
  the first column of that block; and columns \<open>st + 1..ed\<close> of the block after the update
  from the left.
\<close>

definition type1_upper_right ::
  "lapack \<Rightarrow> int \<Rightarrow> int \<Rightarrow> int \<Rightarrow> int \<Rightarrow> mem \<Rightarrow> complex \<times> (int \<Rightarrow> complex) \<times> complex" where
  "type1_upper_right P nb lda st ed A =
     zlarfg P (ed - st + 1) (cnj (A (AU nb lda (st - 1) st)))
       (\<lambda>i. if 0 \<le> i \<and> i < ed - st then cnj (A (AU nb lda (st - 1) (st + 1 + i))) else 0)"

definition type1_upper_mid ::
  "lapack \<Rightarrow> int \<Rightarrow> int \<Rightarrow> int \<Rightarrow> int \<Rightarrow> mem \<Rightarrow> (int \<Rightarrow> int \<Rightarrow> complex)" where
  "type1_upper_mid P nb lda st ed A =
     (let len = ed - st + 1;
          x = fst (snd (type1_upper_right P nb lda st ed A));
          tau = snd (snd (type1_upper_right P nb lda st ed A))
      in zlarfx P (CHR ''R'') len len (unit_head len x) tau
           (block_read CoreBlasUpper nb lda A st st len len))"

definition type1_upper_left ::
  "lapack \<Rightarrow> int \<Rightarrow> int \<Rightarrow> int \<Rightarrow> int \<Rightarrow> mem \<Rightarrow> complex \<times> (int \<Rightarrow> complex) \<times> complex" where
  "type1_upper_left P nb lda st ed A =
     (let B = type1_upper_mid P nb lda st ed A
      in zlarfg P (ed - st + 1) (B 0 0) (\<lambda>i. if 0 \<le> i \<and> i < ed - st then B (i + 1) 0 else 0))"

definition type1_upper_final ::
  "lapack \<Rightarrow> int \<Rightarrow> int \<Rightarrow> int \<Rightarrow> int \<Rightarrow> mem \<Rightarrow> (int \<Rightarrow> int \<Rightarrow> complex)" where
  "type1_upper_final P nb lda st ed A =
     (let len = ed - st + 1;
          B = type1_upper_mid P nb lda st ed A;
          x = fst (snd (type1_upper_left P nb lda st ed A));
          tau = snd (snd (type1_upper_left P nb lda st ed A))
      in zlarfx P (CHR ''L'') len (len - 1) (unit_head len x) (cnj tau)
           (\<lambda>i j. if 0 \<le> i \<and> i < len \<and> 0 \<le> j \<and> j < len - 1 then B i (j + 1) else 0))"

text \<open>
  The same for the lower case: the first \<open>zlarfg\<close> is on column \<open>st - 1\<close>, the first update
  from the left, the second \<open>zlarfg\<close> on the conjugated first row of the block, and the
  last update, from the right, on rows \<open>st + 1..ed\<close>.
\<close>

definition type1_lower_left ::
  "lapack \<Rightarrow> int \<Rightarrow> int \<Rightarrow> int \<Rightarrow> int \<Rightarrow> mem \<Rightarrow> complex \<times> (int \<Rightarrow> complex) \<times> complex" where
  "type1_lower_left P nb lda st ed A =
     zlarfg P (ed - st + 1) (A (AL nb lda st (st - 1)))
       (\<lambda>i. if 0 \<le> i \<and> i < ed - st then A (AL nb lda (st + 1 + i) (st - 1)) else 0)"

definition type1_lower_mid ::
  "lapack \<Rightarrow> int \<Rightarrow> int \<Rightarrow> int \<Rightarrow> int \<Rightarrow> mem \<Rightarrow> (int \<Rightarrow> int \<Rightarrow> complex)" where
  "type1_lower_mid P nb lda st ed A =
     (let len = ed - st + 1;
          x = fst (snd (type1_lower_left P nb lda st ed A));
          tau = snd (snd (type1_lower_left P nb lda st ed A))
      in zlarfx P (CHR ''L'') len len (unit_head len x) (cnj tau)
           (block_read CoreBlasLower nb lda A st st len len))"

definition type1_lower_right ::
  "lapack \<Rightarrow> int \<Rightarrow> int \<Rightarrow> int \<Rightarrow> int \<Rightarrow> mem \<Rightarrow> complex \<times> (int \<Rightarrow> complex) \<times> complex" where
  "type1_lower_right P nb lda st ed A =
     (let B = type1_lower_mid P nb lda st ed A
      in zlarfg P (ed - st + 1) (cnj (B 0 0))
           (\<lambda>i. if 0 \<le> i \<and> i < ed - st then cnj (B 0 (i + 1)) else 0))"

definition type1_lower_final ::
  "lapack \<Rightarrow> int \<Rightarrow> int \<Rightarrow> int \<Rightarrow> int \<Rightarrow> mem \<Rightarrow> (int \<Rightarrow> int \<Rightarrow> complex)" where
  "type1_lower_final P nb lda st ed A =
     (let len = ed - st + 1;
          B = type1_lower_mid P nb lda st ed A;
          x = fst (snd (type1_lower_right P nb lda st ed A));
          tau = snd (snd (type1_lower_right P nb lda st ed A))
      in zlarfx P (CHR ''R'') (len - 1) len (unit_head len x) tau
           (\<lambda>i j. if 0 \<le> i \<and> i < len - 1 \<and> 0 \<le> j \<and> j < len then B (i + 1) j else 0))"

text \<open>
  The reflector that eliminates along the row, stored in \<open>VP\<close> and \<open>TAUP\<close>, and the one
  that eliminates along the column, stored in \<open>VQ\<close> and \<open>TAUQ\<close>, for either case.
\<close>

definition type1_row_reflector ::
  "lapack \<Rightarrow> coreblas_enum \<Rightarrow> int \<Rightarrow> int \<Rightarrow> int \<Rightarrow> int \<Rightarrow> mem \<Rightarrow> complex \<times> (int \<Rightarrow> complex) \<times> complex" where
  "type1_row_reflector P uplo nb lda st ed A =
     (if uplo = CoreBlasUpper then type1_upper_right P nb lda st ed A
      else type1_lower_right P nb lda st ed A)"

definition type1_col_reflector ::
  "lapack \<Rightarrow> coreblas_enum \<Rightarrow> int \<Rightarrow> int \<Rightarrow> int \<Rightarrow> int \<Rightarrow> mem \<Rightarrow> complex \<times> (int \<Rightarrow> complex) \<times> complex" where
  "type1_col_reflector P uplo nb lda st ed A =
     (if uplo = CoreBlasUpper then type1_upper_left P nb lda st ed A
      else type1_lower_left P nb lda st ed A)"

subsection \<open>The band and the window of a type-1 call\<close>

text \<open>
  \<open>in_band\<close>: the entry \<open>(i, j)\<close> lies in the band of half-width \<open>nb\<close> of the stored
  triangle. \<open>band_clean\<close>: every entry of the \<open>n\<close>-by-\<open>n\<close> matrix outside the band is zero.
  \<open>type1_window\<close>: the entries a type-1 call addresses, the row (upper) or column (lower)
  \<open>st - 1\<close> over \<open>st..ed\<close> and the diagonal block \<open>st..ed\<close>. \<open>eliminated_entry\<close>: the
  \<open>k\<close>-th entry of that row or column past the pivot. \<open>fill_triangle\<close>: the strict
  triangle of the diagonal block on the far side of the diagonal, without its first
  column (upper) or row (lower).
\<close>

definition in_band :: "coreblas_enum \<Rightarrow> int \<Rightarrow> int \<Rightarrow> int \<Rightarrow> bool" where
  "in_band uplo nb i j =
     (if uplo = CoreBlasUpper then 0 \<le> j - i \<and> j - i \<le> nb else 0 \<le> i - j \<and> i - j \<le> nb)"

definition band_clean :: "coreblas_enum \<Rightarrow> int \<Rightarrow> int \<Rightarrow> int \<Rightarrow> mem \<Rightarrow> bool" where
  "band_clean uplo n nb lda A =
     (\<forall>i\<in>{0..<n}. \<forall>j\<in>{0..<n}. in_band uplo nb i j \<or> A (band_entry uplo nb lda i j) = 0)"

definition type1_window :: "coreblas_enum \<Rightarrow> int \<Rightarrow> int \<Rightarrow> int \<Rightarrow> int \<Rightarrow> bool" where
  "type1_window uplo st ed i j =
     (if uplo = CoreBlasUpper
      then (i = st - 1 \<or> (st \<le> i \<and> i \<le> ed)) \<and> st \<le> j \<and> j \<le> ed
      else (j = st - 1 \<or> (st \<le> j \<and> j \<le> ed)) \<and> st \<le> i \<and> i \<le> ed)"

definition eliminated_entry :: "coreblas_enum \<Rightarrow> int \<Rightarrow> int \<Rightarrow> int \<Rightarrow> int \<Rightarrow> int" where
  "eliminated_entry uplo nb lda st k =
     (if uplo = CoreBlasUpper then band_entry uplo nb lda (st - 1) (st + k)
      else band_entry uplo nb lda (st + k) (st - 1))"

definition fill_triangle :: "coreblas_enum \<Rightarrow> int \<Rightarrow> int \<Rightarrow> int \<Rightarrow> int \<Rightarrow> bool" where
  "fill_triangle uplo st ed i j =
     (if uplo = CoreBlasUpper then st + 1 \<le> j \<and> j < i \<and> i \<le> ed
      else st + 1 \<le> i \<and> i < j \<and> j \<le> ed)"

subsection \<open>A reference for LAPACK and a concrete call\<close>

text \<open>
  To run the kernels on concrete input, \<open>zlarfg\<close> and \<open>zlarfx\<close> as LAPACK documents them,
  in exact arithmetic: \<open>zlarfg\<close> returns \<open>beta = -sign(Re alpha) * norm(alpha, x)\<close>,
  \<open>tau = (beta - alpha) / beta\<close> and \<open>x / (alpha - beta)\<close>, or \<open>tau = 0\<close> when \<open>x\<close> is zero and
  \<open>alpha\<close> real; \<open>zlarfx\<close> returns \<open>H * C\<close> or \<open>C * H\<close> for \<open>H = I - tau * v * v\<^sup>H\<close>.
  \<open>isum n f\<close> is the sum of \<open>f 0, ..., f (n - 1)\<close>.
\<close>

definition isum :: "int \<Rightarrow> (int \<Rightarrow> 'a::comm_monoid_add) \<Rightarrow> 'a" where
  "isum n f = for_loop 0 n (\<lambda>k acc. acc + f k) 0"

definition zlarfg_exact ::
  "int \<Rightarrow> complex \<Rightarrow> (int \<Rightarrow> complex) \<Rightarrow> complex \<times> (int \<Rightarrow> complex) \<times> complex" where
  "zlarfg_exact n alpha x =
    (if n \<le> 0 then (alpha, x, 0)
     else
       let xnorm = sqrt (isum (n - 1) (\<lambda>i. (cmod (x i))\<^sup>2));
           alphr = Re alpha;
           alphi = Im alpha
       in if xnorm = 0 \<and> alphi = 0 then (alpha, x, 0)
          else
            let d = sqrt (alphr\<^sup>2 + alphi\<^sup>2 + xnorm\<^sup>2);
                beta = (if 0 \<le> alphr then - d else d);
                tau = Complex ((beta - alphr) / beta) (- alphi / beta);
                sc = 1 / (alpha - of_real beta)
            in (of_real beta, (\<lambda>i. sc * x i), tau))"

definition zlarfx_exact ::
  "char \<Rightarrow> int \<Rightarrow> int \<Rightarrow> (int \<Rightarrow> complex) \<Rightarrow> complex \<Rightarrow> (int \<Rightarrow> int \<Rightarrow> complex) \<Rightarrow>
   (int \<Rightarrow> int \<Rightarrow> complex)" where
  "zlarfx_exact side m n v tau C =
    (if side = CHR ''L''
     then (\<lambda>i j. C i j - tau * v i * isum m (\<lambda>k. cnj (v k) * C k j))
     else (\<lambda>i j. C i j - tau * isum n (\<lambda>k. C i k * v k) * cnj (v j)))"

definition lapack_exact :: lapack where
  "lapack_exact = \<lparr>zlarfg = zlarfg_exact, zlarfx = zlarfx_exact,
                    zlarfx_work = (\<lambda>side m n v tau C W. W)\<rparr>"

text \<open>
  A band buffer with \<open>nb = 4\<close> and \<open>lda = 13\<close> for an upper matrix of order five: ones
  on the diagonal from \<open>(1, 1)\<close> on, row zero equal to \<open>(0, 0, 1, 2, 2)\<close>, all reflector
  slots zero. \<open>no_findVTpos\<close> stands for \<open>findVTpos\<close> in calls with \<open>wantz = 0\<close>, which do not
  reach it.
\<close>

definition bulge_example :: bulge_state where
  "bulge_example =
     \<lparr>A_buf = (\<lambda>a. 0)(AU 4 13 0 2 := 1, AU 4 13 0 3 := 2, AU 4 13 0 4 := 2,
                       AU 4 13 1 1 := 1, AU 4 13 2 2 := 1, AU 4 13 3 3 := 1, AU 4 13 4 4 := 1),
      VQ_buf = (\<lambda>a. 0), TAUQ_buf = (\<lambda>a. 0), VP_buf = (\<lambda>a. 0), TAUP_buf = (\<lambda>a. 0),
      WORK_buf = (\<lambda>a. 0)\<rparr>"

definition no_findVTpos :: findVTpos where
  "no_findVTpos = (\<lambda>n nb Vblksiz sweep st. (0, 0))"






section \<open>Theorems\<close>

subsection \<open>Argument checks come first and report the position\<close>

lemma first_illegal_Some:
  "first_illegal cs p0 = Some q \<Longrightarrow>
     p0 \<le> q \<and> q < p0 + length cs \<and> cs ! (q - p0) \<and> (\<forall>r. p0 \<le> r \<and> r < q \<longrightarrow> \<not> cs ! (r - p0))"
proof (induction cs arbitrary: p0)
  case Nil
  then show ?case by simp
next
  case (Cons c cs)
  show ?case
  proof (cases c)
    case True
    with Cons.prems show ?thesis by auto
  next
    case False
    with Cons.prems have f: "first_illegal cs (Suc p0) = Some q" by simp
    from Cons.IH[OF f] have a: "Suc p0 \<le> q" "q < Suc p0 + length cs" "cs ! (q - Suc p0)"
      and b: "\<forall>r. Suc p0 \<le> r \<and> r < q \<longrightarrow> \<not> cs ! (r - Suc p0)" by auto
    have "(c # cs) ! (q - p0) = cs ! (q - Suc p0)" using a(1) by (simp add: nth_Cons')
    moreover have "\<forall>r. p0 \<le> r \<and> r < q \<longrightarrow> \<not> (c # cs) ! (r - p0)"
    proof (intro allI impI)
      fix r assume r: "p0 \<le> r \<and> r < q"
      show "\<not> (c # cs) ! (r - p0)"
      proof (cases "r = p0")
        case True then show ?thesis using False by simp
      next
        case False
        then have "Suc p0 \<le> r" using r by simp
        then show ?thesis using b r by (simp add: nth_Cons')
      qed
    qed
    ultimately show ?thesis using a by auto
  qed
qed

lemma first_illegal_None:
  "first_illegal cs p0 = None \<Longrightarrow> \<forall>c \<in> set cs. \<not> c"
  by (induction cs arbitrary: p0) (auto split: if_splits)

lemma arg_illegal_first:
  assumes "arg_illegal cs p"
  shows "\<exists>q. first_illegal cs 1 = Some q"
proof (cases "first_illegal cs 1")
  case None
  from assms have lt: "p - 1 < length cs" and il: "cs ! (p - 1)"
    by (auto simp: arg_illegal_def)
  from nth_mem[OF lt] first_illegal_None[OF None] il show ?thesis by blast
next
  case (Some q) then show ?thesis by simp
qed

lemma first_illegal_least:
  assumes "first_illegal cs 1 = Some q"
  shows "arg_illegal cs q \<and> (\<forall>r<q. \<not> arg_illegal cs r)"
  using first_illegal_Some[OF assms] by (auto simp: arg_illegal_def)



lemma case_first_if:
  "(case (if c then Some p else y) of None \<Rightarrow> g | Some q \<Rightarrow> f q) =
   (if c then f p else (case y of None \<Rightarrow> g | Some q \<Rightarrow> f q))"
  by simp

lemma ztsmqr_first:
  "(case first_illegal (ztsmqr_arg_checks side trans' m1 n1 m2 n2 k ib A1 lda1 A2 lda2 V ldv T ldt
     work ldwork) 1 of Some q \<Rightarrow> coreblas_ztsmqr X E side trans' m1 n1 m2 n2 k ib A1 lda1 A2 lda2 V ldv T ldt work ldwork h
     = Some (- int q, h) | None \<Rightarrow> True)"
  unfolding ztsmqr_arg_checks_def coreblas_ztsmqr_def
  by (simp add: case_first_if cong: if_cong)

lemma ztradd_first:
  "(case first_illegal (ztradd_arg_checks uplo transa m n alpha A lda beta B ldb) 1 of
      Some q \<Rightarrow> Some (coreblas_ztradd E uplo transa m n alpha A lda beta B ldb h) = Some (- int q, h)
    | None \<Rightarrow> True)"
  unfolding ztradd_arg_checks_def coreblas_ztradd_def
  by (simp add: case_first_if cong: if_cong)

lemma zpemv_first:
  "(case first_illegal (zpemv_arg_checks trans' storev m n l alpha A lda Xv incx beta Y incy work) 1 of
      Some q \<Rightarrow> Some (coreblas_zpemv X E trans' storev m n l alpha A lda Xv incx beta Y incy work h) = Some (- int q, h)
    | None \<Rightarrow> True)"
  unfolding zpemv_arg_checks_def coreblas_zpemv_def
  by (simp add: case_first_if cong: if_cong)

lemma zgelqt_first:
  "(case first_illegal (zgelqt_arg_checks m n ib A lda T ldt tau work) 1 of
      Some q \<Rightarrow> Some (coreblas_zgelqt E rest m n ib A lda T ldt tau work h) = Some (- int q, h)
    | None \<Rightarrow> True)"
  unfolding zgelqt_arg_checks_def coreblas_zgelqt_def
  by (simp add: case_first_if cong: if_cong)

lemma ztsqrt_first:
  "(case first_illegal (ztsqrt_arg_checks m n ib A1 lda1 A2 lda2 T ldt tau work) 1 of
      Some q \<Rightarrow> Some (coreblas_ztsqrt E rest m n ib A1 lda1 A2 lda2 T ldt tau work h) = Some (- int q, h)
    | None \<Rightarrow> True)"
  unfolding ztsqrt_arg_checks_def coreblas_ztsqrt_def
  by (simp add: case_first_if cong: if_cong)

lemma ztslqt_first:
  "(case first_illegal (ztsqrt_arg_checks m n ib A1 lda1 A2 lda2 T ldt tau work) 1 of
      Some q \<Rightarrow> Some (coreblas_ztslqt E rest m n ib A1 lda1 A2 lda2 T ldt tau work h) = Some (- int q, h)
    | None \<Rightarrow> True)"
  unfolding ztsqrt_arg_checks_def coreblas_ztslqt_def
  by (simp add: case_first_if cong: if_cong)

lemma zunmqr_first:
  "(case first_illegal (zunmqr_arg_checks side trans' m n k ib A lda T ldt C ldc work ldwork) 1 of
      Some q \<Rightarrow> Some (coreblas_zunmqr E rest side trans' m n k ib A lda T ldt C ldc work ldwork h) = Some (- int q, h)
    | None \<Rightarrow> True)"
  unfolding zunmqr_arg_checks_def coreblas_zunmqr_def
  by (simp add: case_first_if Let_def cong: if_cong)

lemma zparfb_first:
  "(case first_illegal (zparfb_arg_checks side trans' direct storev m1 n1 m2 n2 k l
     A1 lda1 A2 lda2 V ldv T ldt work ldwork) 1 of
      Some q \<Rightarrow> Some (coreblas_zparfb E rest side trans' direct storev m1 n1 m2 n2 k l
     A1 lda1 A2 lda2 V ldv T ldt work ldwork h) = Some (- int q, h)
    | None \<Rightarrow> True)"
  unfolding zparfb_arg_checks_def coreblas_zparfb_def
  by (simp add: case_first_if cong: if_cong)

lemma rejects_first_illegalI:
  assumes "case first_illegal cs 1 of Some q \<Rightarrow> res = Some (- int q, h) | None \<Rightarrow> True"
  shows "rejects_first_illegal cs res h"
  unfolding rejects_first_illegal_def
proof (intro allI impI)
  fix p assume "arg_illegal cs p"
  from arg_illegal_first[OF this] obtain q where q: "first_illegal cs 1 = Some q" by blast
  with assms have "res = Some (- int q, h)" by simp
  with first_illegal_least[OF q]
  show "\<exists>q. arg_illegal cs q \<and> (\<forall>r<q. \<not> arg_illegal cs r) \<and> res = Some (- int q, h)"
    by blast
qed


text \<open>
  Claim C8, as stated, fails: not every invalid input is rejected. \<open>coreblas_zpemv\<close>
  tests neither its pointers nor \<open>l \<ge> 0\<close>. Called with the matrix \<open>A = NULL\<close>, or with
  \<open>l = -1\<close>, and otherwise well-formed arguments, no position of its argument list is
  flagged, it returns \<open>CoreBlasSuccess\<close> (zero here), and the heap it returns is the one
  \<open>cblas_zgemv\<close> leaves when handed the null matrix, or the matrix and the vector \<open>Y\<close>
  one element before their start. The sibling kernels reject a null pointer with \<open>-i\<close>.
\<close>

theorem zpemv_accepts_invalid_arguments:
  "(\<forall>p. \<not> arg_illegal (zpemv_arg_checks CoreBlasNoTrans CoreBlasRowwise 2 2 0 0
           (NULL :: nat ptr) 2 (Ptr 1 0) 1 1 (Ptr 2 0) 1 (Ptr 3 0)) p) \<and>
   (\<forall>X h. coreblas_zpemv X \<lparr>CoreBlasSuccess = 0, CoreBlasErrorNotSupported = - 102\<rparr>
            CoreBlasNoTrans CoreBlasRowwise 2 2 0 0
            (NULL :: nat ptr) 2 (Ptr 1 0) 1 1 (Ptr 2 0) 1 (Ptr 3 0) h =
          (0, X (Cblas_zgemv CoreBlasNoTrans 2 2 0 NULL 2 (Ptr 1 0) 1 1 (Ptr 2 0) 1) h)) \<and>
   (\<forall>p. \<not> arg_illegal (zpemv_arg_checks CoreBlasNoTrans CoreBlasRowwise 2 2 (- 1) 1
           (Ptr (0::nat) 0) 3 (Ptr 1 0) 1 1 (Ptr 2 0) 1 (Ptr 3 0)) p) \<and>
   (\<forall>X h. coreblas_zpemv X \<lparr>CoreBlasSuccess = 0, CoreBlasErrorNotSupported = - 102\<rparr>
            CoreBlasNoTrans CoreBlasRowwise 2 2 (- 1) 1
            (Ptr (0::nat) 0) 3 (Ptr 1 0) 1 1 (Ptr 2 0) 1 (Ptr 3 0) h =
          (0, X (Cblas_zgemv CoreBlasNoTrans 3 2 1 (Ptr 0 (- 1)) 3 (Ptr 1 0) 1 1
                   (Ptr 2 (- 1)) 1) h))"
proof (intro conjI allI)
  fix p
  show "\<not> arg_illegal (zpemv_arg_checks CoreBlasNoTrans CoreBlasRowwise 2 2 0 0
           (NULL :: nat ptr) 2 (Ptr 1 0) 1 1 (Ptr 2 0) 1 (Ptr 3 0)) p"
    by (auto simp: zpemv_arg_checks_def arg_illegal_def imax_def imin_def nth_Cons
        split: nat.splits)
  show "\<not> arg_illegal (zpemv_arg_checks CoreBlasNoTrans CoreBlasRowwise 2 2 (- 1) 1
           (Ptr (0::nat) 0) 3 (Ptr 1 0) 1 1 (Ptr 2 0) 1 (Ptr 3 0)) p"
    by (auto simp: zpemv_arg_checks_def arg_illegal_def imax_def imin_def nth_Cons
        split: nat.splits)
next
  fix X :: "nat extern" and h :: "nat heap"
  show "coreblas_zpemv X \<lparr>CoreBlasSuccess = 0, CoreBlasErrorNotSupported = - 102\<rparr>
            CoreBlasNoTrans CoreBlasRowwise 2 2 0 0
            (NULL :: nat ptr) 2 (Ptr 1 0) 1 1 (Ptr 2 0) 1 (Ptr 3 0) h =
          (0, X (Cblas_zgemv CoreBlasNoTrans 2 2 0 NULL 2 (Ptr 1 0) 1 1 (Ptr 2 0) 1) h)"
    by (simp add: coreblas_zpemv_def imax_def imin_def Let_def)
  show "coreblas_zpemv X \<lparr>CoreBlasSuccess = 0, CoreBlasErrorNotSupported = - 102\<rparr>
            CoreBlasNoTrans CoreBlasRowwise 2 2 (- 1) 1
            (Ptr (0::nat) 0) 3 (Ptr 1 0) 1 1 (Ptr 2 0) 1 (Ptr 3 0) h =
          (0, X (Cblas_zgemv CoreBlasNoTrans 3 2 1 (Ptr 0 (- 1)) 3 (Ptr 1 0) 1 1
                   (Ptr 2 (- 1)) 1) h)"
    by (simp add: coreblas_zpemv_def imax_def imin_def Let_def)
qed

text \<open>
  Claim C8, amended. Every kernel that checks its arguments -- \<open>coreblas_ztsmqr\<close>,
  \<open>coreblas_ztradd\<close>, \<open>coreblas_zpemv\<close>, and with them \<open>coreblas_zgelqt\<close>,
  \<open>coreblas_ztsqrt\<close>, \<open>coreblas_ztslqt\<close>, \<open>coreblas_zunmqr\<close> and \<open>coreblas_zparfb\<close> --
  returns, whenever some argument fails one of the tests the kernel makes, the negative
  code \<open>-q\<close> where \<open>q\<close> is the position in the argument list of the first such argument,
  and returns the heap it was called with: the return precedes every computation and
  every store. An invalid argument that no test covers is not rejected.
\<close>

theorem checking_kernels_reject_by_position:
  "rejects_first_illegal
     (ztsmqr_arg_checks side trans' m1 n1 m2 n2 k ib A1 lda1 A2 lda2 V ldv T ldt work ldwork)
     (coreblas_ztsmqr X E side trans' m1 n1 m2 n2 k ib A1 lda1 A2 lda2 V ldv T ldt work ldwork h)
     h \<and>
   rejects_first_illegal
     (ztradd_arg_checks uplo transa m n alpha A lda beta B ldb)
     (Some (coreblas_ztradd E uplo transa m n alpha A lda beta B ldb h)) h \<and>
   rejects_first_illegal
     (zpemv_arg_checks trans' storev m n l alpha A lda Xv incx beta Y incy work)
     (Some (coreblas_zpemv X E trans' storev m n l alpha A lda Xv incx beta Y incy work h)) h \<and>
   rejects_first_illegal
     (zgelqt_arg_checks m n ib A lda T ldt tau work)
     (Some (coreblas_zgelqt E rest m n ib A lda T ldt tau work h)) h \<and>
   rejects_first_illegal
     (ztsqrt_arg_checks m n ib A1 lda1 A2 lda2 T ldt tau work)
     (Some (coreblas_ztsqrt E rest m n ib A1 lda1 A2 lda2 T ldt tau work h)) h \<and>
   rejects_first_illegal
     (ztsqrt_arg_checks m n ib A1 lda1 A2 lda2 T ldt tau work)
     (Some (coreblas_ztslqt E rest m n ib A1 lda1 A2 lda2 T ldt tau work h)) h \<and>
   rejects_first_illegal
     (zunmqr_arg_checks side trans' m n k ib A lda T ldt C ldc work ldwork)
     (Some (coreblas_zunmqr E rest side trans' m n k ib A lda T ldt C ldc work ldwork h)) h \<and>
   rejects_first_illegal
     (zparfb_arg_checks side trans' direct storev m1 n1 m2 n2 k l
        A1 lda1 A2 lda2 V ldv T ldt work ldwork)
     (Some (coreblas_zparfb E rest side trans' direct storev m1 n1 m2 n2 k l
        A1 lda1 A2 lda2 V ldv T ldt work ldwork h)) h"
  by (intro conjI rejects_first_illegalI ztsmqr_first ztradd_first zpemv_first zgelqt_first
      ztsqrt_first ztslqt_first zunmqr_first zparfb_first)

theorem checking_kernels_reject_by_position_witness:
  "arg_illegal (ztsmqr_arg_checks CoreBlasLeft CoreBlasNoTrans 4 4 3 4 5 2
      (Ptr (0::nat) 0) 4 (Ptr 1 0) 3 (Ptr 2 0) 3 (Ptr 3 0) 2 (Ptr 4 0) 2) 7 \<and>
   coreblas_ztsmqr (\<lambda>c h b i. h b i + 1)
     \<lparr>CoreBlasSuccess = 0, CoreBlasErrorNotSupported = - 102\<rparr>
     CoreBlasLeft CoreBlasNoTrans 4 4 3 4 5 2
     (Ptr (0::nat) 0) 4 (Ptr 1 0) 3 (Ptr 2 0) 3 (Ptr 3 0) 2 (Ptr 4 0) 2 (\<lambda>b i. of_int i)
     = Some (- 7, (\<lambda>b i. of_int i)) \<and>
   arg_illegal (ztradd_arg_checks CoreBlasUpper CoreBlasNoTrans 3 3 1 (Ptr (0::nat) 0) 1
      1 (Ptr 1 0) 3) 7 \<and>
   coreblas_ztradd \<lparr>CoreBlasSuccess = 0, CoreBlasErrorNotSupported = - 102\<rparr>
     CoreBlasUpper CoreBlasNoTrans 3 3 1 (Ptr (0::nat) 0) 1 1 (Ptr 1 0) 3 (\<lambda>b i. of_int i)
     = (- 7, (\<lambda>b i. of_int i)) \<and>
   arg_illegal (zpemv_arg_checks CoreBlasNoTrans CoreBlasColumnwise 3 3 2 1 (Ptr (0::nat) 0) 3
      (Ptr 1 0) 1 1 (Ptr 2 0) 1 (Ptr 3 0)) 2 \<and>
   coreblas_zpemv (\<lambda>c h b i. h b i + 1)
     \<lparr>CoreBlasSuccess = 0, CoreBlasErrorNotSupported = - 102\<rparr>
     CoreBlasNoTrans CoreBlasColumnwise 3 3 2 1 (Ptr (0::nat) 0) 3
      (Ptr 1 0) 1 1 (Ptr 2 0) 1 (Ptr 3 0) (\<lambda>b i. of_int i)
     = (- 2, (\<lambda>b i. of_int i))"
proof -
  let ?E = "\<lparr>CoreBlasSuccess = 0, CoreBlasErrorNotSupported = - 102\<rparr>"
  let ?X = "\<lambda>(c::nat extcall) (h::nat heap) b i. h b i + 1"
  let ?h = "\<lambda>(b::nat) (i::int). (of_int i :: complex)"
  note rej = checking_kernels_reject_by_position[unfolded rejects_first_illegal_def]
  have a: "arg_illegal (ztsmqr_arg_checks CoreBlasLeft CoreBlasNoTrans 4 4 3 4 5 2
      (Ptr (0::nat) 0) 4 (Ptr 1 0) 3 (Ptr 2 0) 3 (Ptr 3 0) 2 (Ptr 4 0) 2) 7"
    by (simp add: arg_illegal_def ztsmqr_arg_checks_def)
  have b: "arg_illegal (ztradd_arg_checks CoreBlasUpper CoreBlasNoTrans 3 3 1 (Ptr (0::nat) 0) 1
      1 (Ptr 1 0) 3) 7"
    by (simp add: arg_illegal_def ztradd_arg_checks_def imax_def)
  have c: "arg_illegal (zpemv_arg_checks CoreBlasNoTrans CoreBlasColumnwise 3 3 2 1
      (Ptr (0::nat) 0) 3 (Ptr 1 0) 1 1 (Ptr 2 0) 1 (Ptr 3 0)) 2"
    by (simp add: arg_illegal_def zpemv_arg_checks_def)
  from rej[THEN conjunct1, rule_format, OF a, of ?X ?E ?h]
  obtain q1 where q1: "coreblas_ztsmqr ?X ?E CoreBlasLeft CoreBlasNoTrans 4 4 3 4 5 2
     (Ptr (0::nat) 0) 4 (Ptr 1 0) 3 (Ptr 2 0) 3 (Ptr 3 0) 2 (Ptr 4 0) 2 ?h = Some (- int q1, ?h)"
    by blast
  from rej[THEN conjunct2, THEN conjunct1, rule_format, OF b, of ?E ?h]
  obtain q2 where q2: "coreblas_ztradd ?E
     CoreBlasUpper CoreBlasNoTrans 3 3 1 (Ptr (0::nat) 0) 1 1 (Ptr 1 0) 3 ?h = (- int q2, ?h)"
    by blast
  from rej[THEN conjunct2, THEN conjunct2, THEN conjunct1, rule_format, OF c, of ?X ?E ?h]
  obtain q3 where q3: "coreblas_zpemv ?X ?E
     CoreBlasNoTrans CoreBlasColumnwise 3 3 2 1 (Ptr (0::nat) 0) 3
      (Ptr 1 0) 1 1 (Ptr 2 0) 1 (Ptr 3 0) ?h = (- int q3, ?h)"
    by blast
  have "- int q1 = - 7" using q1 by (simp add: coreblas_ztsmqr_def imax_def)
  moreover have "- int q2 = - 7" using q2 by (simp add: coreblas_ztradd_def imax_def)
  moreover have "- int q3 = - 2" using q3 by (simp add: coreblas_zpemv_def imax_def imin_def)
  ultimately show ?thesis using a b c q1 q2 q3 by simp
qed

subsection \<open>The unsupported cases of \<open>coreblas_zlarfb_gemm\<close>\<close>

text \<open>
  Claim C9. For every call of \<open>coreblas_zlarfb_gemm\<close> with \<open>M > 0\<close>, \<open>N > 0\<close>, \<open>K > 0\<close> and
  \<open>direct = CoreBlasBackward\<close> or \<open>storev = CoreBlasRowwise\<close>, the function returns
  \<open>CoreBlasErrorNotSupported\<close> and the heap, so in particular the matrix \<open>C\<close> and the
  workspace \<open>WORK\<close>, is the heap it was called with, whatever the BLAS routines do.
\<close>

theorem zlarfb_gemm_not_supported:
  assumes "0 < M" and "0 < N" and "0 < K"
    and "direct = CoreBlasBackward \<or> storev = CoreBlasRowwise"
  shows "coreblas_zlarfb_gemm X E side trans' direct storev M N K V LDV T LDT C LDC WORK LDWORK h
         = (CoreBlasErrorNotSupported E, h)"
  using assms by (auto simp: coreblas_zlarfb_gemm_def Let_def)

theorem zlarfb_gemm_not_supported_witness:
  "(0::int) < 3 \<and> (0::int) < 2 \<and> (0::int) < 1 \<and>
   coreblas_zlarfb_gemm (\<lambda>c h b i. h b i + 1)
     \<lparr>CoreBlasSuccess = 0, CoreBlasErrorNotSupported = - 102\<rparr>
     CoreBlasLeft CoreBlasNoTrans CoreBlasBackward CoreBlasColumnwise 3 2 1
     (Ptr (0::nat) 0) 3 (Ptr 1 0) 1 (Ptr 2 0) 3 (Ptr 3 0) 2 (\<lambda>b i. of_int i)
   = (- 102, (\<lambda>b i. of_int i))"
  using zlarfb_gemm_not_supported
    [of 3 2 1 CoreBlasBackward CoreBlasColumnwise "\<lambda>c h b i. h b i + 1"
        "\<lparr>CoreBlasSuccess = 0, CoreBlasErrorNotSupported = - 102\<rparr>"
        CoreBlasLeft CoreBlasNoTrans "Ptr (0::nat) 0" 3 "Ptr 1 0" 1 "Ptr 2 0" 3 "Ptr 3 0" 2
        "\<lambda>b i. of_int i"]
  by simp

subsection \<open>The quick return of \<open>coreblas_ztsmqr\<close>\<close>

text \<open>
  Claim C10. For every call of \<open>coreblas_ztsmqr\<close> whose arguments pass the checks (no
  position has an illegal value) and where one of \<open>m1\<close>, \<open>n1\<close>, \<open>m2\<close>, \<open>n2\<close>, \<open>k\<close>, \<open>ib\<close> is
  zero, the function returns \<open>CoreBlasSuccess\<close> and the heap, so the tiles \<open>A1\<close>, \<open>A2\<close> and
  the workspace, is unchanged.
\<close>

theorem ztsmqr_quick_return:
  assumes "\<forall>p. \<not> arg_illegal (ztsmqr_arg_checks side trans' m1 n1 m2 n2 k ib A1 lda1 A2 lda2
                      V ldv T ldt work ldwork) p"
    and "m1 = 0 \<or> n1 = 0 \<or> m2 = 0 \<or> n2 = 0 \<or> k = 0 \<or> ib = 0"
  shows "coreblas_ztsmqr X E side trans' m1 n1 m2 n2 k ib A1 lda1 A2 lda2 V ldv T ldt
           work ldwork h = Some (CoreBlasSuccess E, h)"
proof -
  note ill = assms(1)[rule_format, unfolded ztsmqr_arg_checks_def arg_illegal_def]
  have c: "\<not> (side \<noteq> CoreBlasLeft \<and> side \<noteq> CoreBlasRight)"
    "\<not> (trans' \<noteq> CoreBlasNoTrans \<and> trans' \<noteq> CoreBlasConjTrans)"
    "\<not> m1 < 0" "\<not> n1 < 0"
    "\<not> (m2 < 0 \<or> (m2 \<noteq> m1 \<and> side = CoreBlasRight))"
    "\<not> (n2 < 0 \<or> (n2 \<noteq> n1 \<and> side = CoreBlasLeft))"
    "\<not> (k < 0 \<or> (side = CoreBlasLeft \<and> k > m1) \<or> (side = CoreBlasRight \<and> k > n1))"
    "\<not> ib < 0" "A1 \<noteq> NULL" "\<not> lda1 < imax 1 m1" "A2 \<noteq> NULL" "\<not> lda2 < imax 1 m2"
    "V \<noteq> NULL" "\<not> ldv < imax 1 (if side = CoreBlasLeft then m2 else n2)"
    "T \<noteq> NULL" "\<not> ldt < imax 1 ib" "work \<noteq> NULL"
    "\<not> ldwork < imax 1 (if side = CoreBlasLeft then ib else m1)"
    using ill[of 1] ill[of 2] ill[of 3] ill[of 4] ill[of 5] ill[of 6] ill[of 7] ill[of 8]
      ill[of 9] ill[of 10] ill[of 11] ill[of 12] ill[of 13] ill[of 14] ill[of 15]
      ill[of 16] ill[of 17] ill[of 18]
    by simp_all
  show ?thesis
    unfolding coreblas_ztsmqr_def by (simp only: c assms(2) if_False if_True)
qed

theorem ztsmqr_quick_return_witness:
  "(\<forall>p. \<not> arg_illegal (ztsmqr_arg_checks CoreBlasLeft CoreBlasConjTrans 4 4 3 4 0 2
          (Ptr (0::nat) 0) 4 (Ptr 1 0) 3 (Ptr 2 0) 3 (Ptr 3 0) 2 (Ptr 4 0) 2) p) \<and>
   coreblas_ztsmqr (\<lambda>c h b i. h b i + 1)
     \<lparr>CoreBlasSuccess = 0, CoreBlasErrorNotSupported = - 102\<rparr>
     CoreBlasLeft CoreBlasConjTrans 4 4 3 4 0 2
     (Ptr (0::nat) 0) 4 (Ptr 1 0) 3 (Ptr 2 0) 3 (Ptr 3 0) 2 (Ptr 4 0) 2 (\<lambda>b i. of_int i)
   = Some (0, (\<lambda>b i. of_int i))"
proof -
  have ok: "\<forall>p. \<not> arg_illegal (ztsmqr_arg_checks CoreBlasLeft CoreBlasConjTrans 4 4 3 4 0 2
          (Ptr (0::nat) 0) 4 (Ptr 1 0) 3 (Ptr 2 0) 3 (Ptr 3 0) 2 (Ptr 4 0) 2) p"
    by (auto simp: ztsmqr_arg_checks_def arg_illegal_def imax_def nth_Cons split: nat.splits)
  show ?thesis
    using ok ztsmqr_quick_return [OF ok, of "\<lambda>c h b i. h b i + 1"
        "\<lparr>CoreBlasSuccess = 0, CoreBlasErrorNotSupported = - 102\<rparr>" "\<lambda>b i. of_int i"]
    by simp
qed

subsection \<open>The offsets of the reflector store\<close>

lemma zgbtype1cb_eq_at:
  "coreblas_zgbtype1cb P fv uplo n nb lda st ed sweep Vblksiz wantz s =
     zgbtype1cb_at P uplo nb lda st ed
       (fst (bulge_vtpos fv wantz n nb Vblksiz sweep st))
       (snd (bulge_vtpos fv wantz n nb Vblksiz sweep st)) s"
  by (simp add: coreblas_zgbtype1cb_def zgbtype1cb_at_def split: prod.splits)

lemma zgbtype2cb_eq_phases:
  "coreblas_zgbtype2cb P fv uplo n nb lda st ed sweep Vblksiz wantz s =
     (let s1 = (if next_block_len n nb ed > 0
                then zgbtype2cb_pending P uplo n nb lda st ed
                       (fst (bulge_vtpos fv wantz n nb Vblksiz sweep st))
                       (snd (bulge_vtpos fv wantz n nb Vblksiz sweep st)) s
                else s)
      in if next_block_len n nb ed > 1
         then zgbtype2cb_chase P uplo n nb lda st ed
                (fst (bulge_vtpos fv wantz n nb Vblksiz sweep (ed + 1)))
                (snd (bulge_vtpos fv wantz n nb Vblksiz sweep (ed + 1))) s1
         else s1)"
  by (simp add: coreblas_zgbtype2cb_def zgbtype2cb_pending_def zgbtype2cb_chase_def
      next_block_len_def Let_def split: prod.splits)

lemma smod2_nonneg: "0 \<le> (k::int) \<Longrightarrow> k smod 2 = k mod 2"
  by (simp add: smod_int_alt_def sgn_if)

lemma vtpos_values_only:
  "0 \<le> sweep \<Longrightarrow> bulge_vtpos fv 0 n nb Vblksiz sweep p = (pingpong_slot n sweep p, pingpong_slot n sweep p)"
  by (simp add: bulge_vtpos_def pingpong_slot_def smod2_nonneg)

lemma pingpong_slot_range:
  assumes "0 \<le> p" "p < n"
  shows "0 \<le> pingpong_slot n sweep p \<and> pingpong_slot n sweep p < 2 * n"
proof -
  have "(sweep + 1) mod 2 = 0 \<or> (sweep + 1) mod 2 = 1" by presburger
  then show ?thesis using assms by (auto simp: pingpong_slot_def)
qed

lemma pending_keeps_reflectors:
  "VQ_buf (zgbtype2cb_pending P uplo n nb lda st ed vpos taupos s) = VQ_buf s \<and>
   TAUQ_buf (zgbtype2cb_pending P uplo n nb lda st ed vpos taupos s) = TAUQ_buf s \<and>
   VP_buf (zgbtype2cb_pending P uplo n nb lda st ed vpos taupos s) = VP_buf s \<and>
   TAUP_buf (zgbtype2cb_pending P uplo n nb lda st ed vpos taupos s) = TAUP_buf s"
  by (simp add: zgbtype2cb_pending_def zgbtype2cb_upper_pending_def
      zgbtype2cb_lower_pending_def apply_left_at_def apply_right_at_def Let_def
      split: prod.splits)

subsection \<open>From offsets to logical entries\<close>

lemma AU_band: "AU nb lda r c = band_entry CoreBlasUpper nb lda r c"
  by (simp add: band_entry_def)

lemma AL_band: "AL nb lda r c = band_entry CoreBlasLower nb lda r c"
  by (simp add: band_entry_def)

lemma band_entry_stride:
  "band_entry uplo nb lda r c + i + j * (lda - 1) = band_entry uplo nb lda (r + i) (c + j)"
  by (simp add: band_entry_def AU_def AL_def algebra_simps)

lemma band_entry_next_row:
  "band_entry uplo nb lda r c + k = band_entry uplo nb lda (r + k) c"
  by (simp add: band_entry_def AU_def AL_def)

lemma mat_read_band:
  "mat_read M (band_entry uplo nb lda r c) (lda - 1) m n = block_read uplo nb lda M r c m n"
  by (intro ext) (simp add: mat_read_def block_read_def band_entry_stride)

lemma mat_write_band:
  "mat_write M (band_entry uplo nb lda r c) (lda - 1) m n C = block_write uplo nb lda M r c m n C"
  by (simp add: mat_write_def block_write_def band_entry_stride)

lemma apply_right_at_band:
  "apply_right_at P m n vpos taupos (band_entry uplo nb lda r c) (lda - 1) s =
     apply_right P uplo nb lda r c m n vpos taupos s"
  by (simp add: apply_right_at_def LAPACKE_zlarfx_def apply_right_def
      apply_reflector_to_block_def Let_def mat_read_band mat_write_band)

lemma apply_left_at_band:
  "apply_left_at P m n vpos taupos (band_entry uplo nb lda r c) (lda - 1) s =
     apply_left P uplo nb lda r c m n vpos taupos s"
  by (simp add: apply_left_at_def LAPACKE_zlarfx_def apply_left_def
      apply_reflector_to_block_def Let_def mat_read_band mat_write_band)

lemma eliminate_row_band:
  "eliminate_row P (\<lambda>i. band_entry uplo nb lda r (c + i)) len vpos taupos s =
     gen_right_reflector P uplo nb lda r c len vpos taupos
       (gather_row uplo nb lda r c len vpos s)"
  by (simp add: eliminate_row_def gen_right_reflector_def gather_row_def LAPACKE_zlarfg_def
      Let_def split: prod.splits)

lemma eliminate_col_band:
  "eliminate_col P (band_entry uplo nb lda r c) (band_entry uplo nb lda (r + 1) c) len vpos
     taupos s =
     gen_left_reflector P uplo nb lda r c len vpos taupos
       (gather_col uplo nb lda r c len vpos s)"
  by (simp add: eliminate_col_def gen_left_reflector_def gather_col_def LAPACKE_zlarfg_def
      memcpy_def memset0_def band_entry_next_row add.assoc Let_def split: prod.splits)

lemma type1_upper_refines:
  "zgbtype1cb_upper P nb lda st ed vpos taupos s = type1_upper_steps P nb lda st ed vpos taupos s"
  by (simp add: zgbtype1cb_upper_def type1_upper_steps_def Let_def AU_band
      apply_right_at_band apply_left_at_band eliminate_row_band eliminate_col_band)

subsection \<open>Loops of writes\<close>

lemma for_loop_empty: "hi \<le> lo \<Longrightarrow> for_loop lo hi body s = s"
  by (simp add: for_loop.simps)

lemma for_loop_inv:
  assumes "I lo s"
    and "\<And>i t. lo \<le> i \<Longrightarrow> i < hi \<Longrightarrow> I i t \<Longrightarrow> I (i + 1) (body i t)"
    and "lo \<le> hi"
  shows "I hi (for_loop lo hi body s)"
  using assms
proof (induction lo hi body s rule: for_loop.induct)
  case (1 i hi body s)
  show ?case
  proof (cases "i < hi")
    case True
    have "I hi (for_loop (i + 1) hi body (body i s))"
    proof (rule "1.IH"[OF True])
      show "I (i + 1) (body i s)" using "1.prems"(1,2) True by simp
      show "\<And>k t. i + 1 \<le> k \<Longrightarrow> k < hi \<Longrightarrow> I k t \<Longrightarrow> I (k + 1) (body k t)"
        using "1.prems"(2) by simp
      show "i + 1 \<le> hi" using True by simp
    qed
    then show ?thesis using True by (simp add: for_loop.simps[of i hi])
  next
    case False
    with "1.prems"(3) have "i = hi" by simp
    with "1.prems"(1) show ?thesis by (simp add: for_loop.simps[of hi hi])
  qed
qed

text \<open>A loop of point writes at offsets \<open>g k\<close>.\<close>

lemma write_loop_frame:
  assumes "\<forall>k. lo \<le> k \<and> k < hi \<longrightarrow> a \<noteq> g k"
  shows "for_loop lo hi (\<lambda>k D. D(g k := f k)) M a = M a"
proof (cases "lo \<le> hi")
  case True
  have "(\<lambda>i D. D a = M a) hi (for_loop lo hi (\<lambda>k D. D(g k := f k)) M)"
    by (rule for_loop_inv[where I="\<lambda>i D. D a = M a"]) (use assms True in auto)
  then show ?thesis by simp
next
  case False
  then show ?thesis by (simp add: for_loop_empty)
qed

lemma write_loop_value:
  assumes "lo \<le> k" "k < hi" "\<forall>k'. lo \<le> k' \<and> k' < hi \<and> g k' = g k \<longrightarrow> f k' = f k"
  shows "for_loop lo hi (\<lambda>k D. D(g k := f k)) M (g k) = f k"
proof -
  have "(\<lambda>i D. k < i \<longrightarrow> D (g k) = f k) hi (for_loop lo hi (\<lambda>k D. D(g k := f k)) M)"
  proof (rule for_loop_inv[where I="\<lambda>i D. k < i \<longrightarrow> D (g k) = f k"])
    show "k < lo \<longrightarrow> M (g k) = f k" using assms(1) by simp
    show "\<And>i t. lo \<le> i \<Longrightarrow> i < hi \<Longrightarrow> k < i \<longrightarrow> t (g k) = f k \<Longrightarrow>
            k < i + 1 \<longrightarrow> (t(g i := f i)) (g k) = f k"
      using assms(3) by (auto simp: less_le)
    show "lo \<le> hi" using assms by simp
  qed
  then show ?thesis using assms(2) by simp
qed

lemma vec_write_eq:
  "vec_write M b n x a = (if b \<le> a \<and> a < b + n then x (a - b) else M a)"
proof (cases "b \<le> a \<and> a < b + n")
  case True
  have "for_loop 0 n (\<lambda>k D. D(b + k := x k)) M (b + (a - b)) = x (a - b)"
    by (rule write_loop_value) (use True in auto)
  then show ?thesis using True by (simp add: vec_write_def)
next
  case False
  have "for_loop 0 n (\<lambda>k D. D(b + k := x k)) M a = M a"
    by (rule write_loop_frame) (use False in auto)
  then show ?thesis using False by (auto simp: vec_write_def)
qed

lemma write2_loop_frame:
  assumes "\<forall>i j. 0 \<le> i \<and> i < m \<and> 0 \<le> j \<and> j < n \<longrightarrow> a \<noteq> g i j"
  shows "for_loop 0 n (\<lambda>j. for_loop 0 m (\<lambda>i D. D(g i j := C i j))) M a = M a"
proof (cases "0 \<le> n")
  case True
  have "(\<lambda>j D. D a = M a) n (for_loop 0 n (\<lambda>j. for_loop 0 m (\<lambda>i D. D(g i j := C i j))) M)"
  proof (rule for_loop_inv[where I="\<lambda>j D. D a = M a"])
    show "M a = M a" by simp
    show "\<And>j t. 0 \<le> j \<Longrightarrow> j < n \<Longrightarrow> t a = M a \<Longrightarrow>
            for_loop 0 m (\<lambda>i D. D(g i j := C i j)) t a = M a"
      using write_loop_frame[where g="\<lambda>i. g i _" and f="\<lambda>i. C i _" and lo=0 and hi=m and a=a]
        assms by auto
    show "0 \<le> n" by (rule True)
  qed
  then show ?thesis by simp
next
  case False
  then show ?thesis by (simp add: for_loop_empty)
qed

lemma write2_loop_value:
  assumes "0 \<le> i" "i < m" "0 \<le> j" "j < n"
    and inj: "\<forall>i' j'. 0 \<le> i' \<and> i' < m \<and> 0 \<le> j' \<and> j' < n \<and> g i' j' = g i j \<longrightarrow> i' = i \<and> j' = j"
  shows "for_loop 0 n (\<lambda>j. for_loop 0 m (\<lambda>i D. D(g i j := C i j))) M (g i j) = C i j"
proof -
  have "(\<lambda>q D. j < q \<longrightarrow> D (g i j) = C i j) n
          (for_loop 0 n (\<lambda>j. for_loop 0 m (\<lambda>i D. D(g i j := C i j))) M)"
  proof (rule for_loop_inv[where I="\<lambda>q D. j < q \<longrightarrow> D (g i j) = C i j"])
    show "j < 0 \<longrightarrow> M (g i j) = C i j" using assms(3) by simp
    show "0 \<le> n" using assms by simp
    fix q t
    assume q: "0 \<le> q" "q < n" and IH: "j < q \<longrightarrow> t (g i j) = C i j"
    show "j < q + 1 \<longrightarrow> for_loop 0 m (\<lambda>i D. D(g i q := C i q)) t (g i j) = C i j"
    proof (cases "q = j")
      case True
      have "for_loop 0 m (\<lambda>i D. D(g i j := C i j)) t (g i j) = C i j"
        by (rule write_loop_value[where g="\<lambda>i. g i j" and f="\<lambda>i. C i j"])
           (use assms inj in auto)
      then show ?thesis using True by simp
    next
      case False
      have "for_loop 0 m (\<lambda>i D. D(g i q := C i q)) t (g i j) = t (g i j)"
        by (rule write_loop_frame[where g="\<lambda>i. g i q" and f="\<lambda>i. C i q"])
           (use False q inj in auto)
      then show ?thesis using IH False by auto
    qed
  qed
  then show ?thesis using assms(4) by simp
qed

lemma lin_inj:
  fixes d :: int
  assumes "\<bar>x - x'\<bar> < d" and "d * c + x = d * c' + x'"
  shows "c = c' \<and> x = x'"
proof -
  have e: "d * (c - c') = x' - x" using assms(2) by (simp add: algebra_simps)
  have "c = c'"
  proof (rule ccontr)
    assume "c \<noteq> c'"
    then have "1 \<le> \<bar>c - c'\<bar>" by simp
    moreover have "0 \<le> \<bar>d\<bar>" by simp
    ultimately have "\<bar>d\<bar> * 1 \<le> \<bar>d\<bar> * \<bar>c - c'\<bar>" by (rule mult_left_mono)
    then have "\<bar>d\<bar> \<le> \<bar>d * (c - c')\<bar>" by (simp add: abs_mult)
    with e assms(1) show False by simp
  qed
  with assms(2) show ?thesis by simp
qed

lemma band_entry_rows_inj:
  assumes "\<bar>r - r'\<bar> < lda - 1"
    and "band_entry uplo nb lda r c = band_entry uplo nb lda r' c'"
  shows "r = r' \<and> c = c'"
proof -
  have "(lda - 1) * c + r = (lda - 1) * c' + r'"
    using assms(2) by (simp add: band_entry_def AU_def AL_def algebra_simps split: if_splits)
  from lin_inj[OF assms(1) this] show ?thesis by simp
qed

lemma band_entry_eq_iff:
  "\<bar>r - r'\<bar> < lda - 1 \<Longrightarrow>
   (band_entry uplo nb lda r c = band_entry uplo nb lda r' c') = (r = r' \<and> c = c')"
  using band_entry_rows_inj by blast

lemma block_write_frame:
  assumes "\<forall>i j. 0 \<le> i \<and> i < m \<and> 0 \<le> j \<and> j < n \<longrightarrow>
             a \<noteq> band_entry uplo nb lda (r + i) (c + j)"
  shows "block_write uplo nb lda M r c m n C a = M a"
  unfolding block_write_def
  by (rule write2_loop_frame[where g="\<lambda>i j. band_entry uplo nb lda (r + i) (c + j)"])
     (use assms in auto)

lemma block_write_value:
  assumes "0 \<le> i" "i < m" "0 \<le> j" "j < n" "m \<le> lda - 1"
  shows "block_write uplo nb lda M r c m n C (band_entry uplo nb lda (r + i) (c + j)) = C i j"
  unfolding block_write_def
proof (rule write2_loop_value[where g="\<lambda>i j. band_entry uplo nb lda (r + i) (c + j)"])
  show "\<forall>i' j'. 0 \<le> i' \<and> i' < m \<and> 0 \<le> j' \<and> j' < n \<and>
          band_entry uplo nb lda (r + i') (c + j') = band_entry uplo nb lda (r + i) (c + j)
          \<longrightarrow> i' = i \<and> j' = j"
  proof (intro allI impI)
    fix i' j'
    assume h: "0 \<le> i' \<and> i' < m \<and> 0 \<le> j' \<and> j' < n \<and>
          band_entry uplo nb lda (r + i') (c + j') = band_entry uplo nb lda (r + i) (c + j)"
    then have d: "\<bar>(r + i') - (r + i)\<bar> < lda - 1" using assms by auto
    from h have e: "band_entry uplo nb lda (r + i') (c + j') =
                    band_entry uplo nb lda (r + i) (c + j)" by simp
    from band_entry_rows_inj[OF d e] show "i' = i \<and> j' = j" by simp
  qed
qed (use assms in auto)

text \<open>The loop of \<open>gather_row\<close>, over any injective family of offsets \<open>g\<close>.\<close>

lemma gather_row_state:
  fixes g :: "int \<Rightarrow> int"
  assumes inj: "\<forall>k k'. 1 \<le> k \<and> k < len \<and> 1 \<le> k' \<and> k' < len \<and> g k = g k' \<longrightarrow> k = k'"
  shows "for_loop 1 len (\<lambda>i t.
            t\<lparr>VP_buf := (VP_buf t)(vpos + i := cnj (A_buf t (g i))),
              A_buf := (A_buf t)(g i := 0)\<rparr>) s0
         = s0\<lparr>VP_buf := (\<lambda>a. if vpos + 1 \<le> a \<and> a < vpos + len
                              then cnj (A_buf s0 (g (a - vpos))) else VP_buf s0 a),
               A_buf := (\<lambda>a. if \<exists>k. 1 \<le> k \<and> k < len \<and> a = g k then 0 else A_buf s0 a)\<rparr>"
    (is "?L = ?R len")
proof (cases "1 \<le> len")
  case False
  then have "?L = s0" by (simp add: for_loop_empty)
  moreover have "(\<lambda>a. if vpos + 1 \<le> a \<and> a < vpos + len
                              then cnj (A_buf s0 (g (a - vpos))) else VP_buf s0 a) = VP_buf s0"
    by (intro ext) (use False in auto)
  moreover have "(\<lambda>a. if \<exists>k. 1 \<le> k \<and> k < len \<and> a = g k then 0 else A_buf s0 a) = A_buf s0"
    by (intro ext) (use False in auto)
  ultimately show ?thesis by simp
next
  case True
  let ?F = "\<lambda>i. (\<lambda>a. if vpos + 1 \<le> a \<and> a < vpos + i
                              then cnj (A_buf s0 (g (a - vpos))) else VP_buf s0 a)"
  let ?G = "\<lambda>i. (\<lambda>a. if \<exists>k. 1 \<le> k \<and> k < i \<and> a = g k then 0 else A_buf s0 a)"
  let ?I = "\<lambda>i t. t = s0\<lparr>VP_buf := ?F i, A_buf := ?G i\<rparr>"
  have "?I len ?L"
  proof (rule for_loop_inv[where I="?I"])
    have "?F 1 = VP_buf s0" by (intro ext) auto
    moreover have "?G 1 = A_buf s0" by (intro ext) auto
    ultimately show "?I 1 s0" by simp
    show "1 \<le> len" by (rule True)
    fix i t assume i: "1 \<le> i" "i < len" and t: "?I i t"
    have "\<not> (\<exists>k. 1 \<le> k \<and> k < i \<and> g i = g k)"
    proof
      assume "\<exists>k. 1 \<le> k \<and> k < i \<and> g i = g k"
      then obtain k where k: "1 \<le> k" "k < i" "g i = g k" by blast
      with inj i have "i = k" by (metis less_trans)
      with k show False by simp
    qed
    then have G_at: "?G i (g i) = A_buf s0 (g i)" by auto
    have F': "(?F i)(vpos + i := cnj (A_buf s0 (g i))) = ?F (i + 1)"
      by (intro ext) (use i in auto)
    have G': "(?G i)(g i := 0) = ?G (i + 1)"
    proof (intro ext)
      fix a
      show "((?G i)(g i := 0)) a = ?G (i + 1) a"
      proof (cases "a = g i")
        case True
        then show ?thesis using i by auto
      next
        case False
        have "(\<exists>k. 1 \<le> k \<and> k < i + 1 \<and> a = g k) = (\<exists>k. 1 \<le> k \<and> k < i \<and> a = g k)"
          using False by (metis zless_add1_eq)
        then show ?thesis using False by simp
      qed
    qed
    show "?I (i + 1) (t\<lparr>VP_buf := (VP_buf t)(vpos + i := cnj (A_buf t (g i))),
              A_buf := (A_buf t)(g i := 0)\<rparr>)"
      using t G_at F' G' by simp
  qed
  then show ?thesis by simp
qed

lemma gather_row_eq:
  assumes "1 < lda"
  shows "gather_row uplo nb lda r c len vpos s =
     s\<lparr>VP_buf := (\<lambda>a. if a = vpos then 1
                    else if vpos + 1 \<le> a \<and> a < vpos + len
                    then cnj (A_buf s (band_entry uplo nb lda r (c + (a - vpos))))
                    else VP_buf s a),
       A_buf := (\<lambda>a. if \<exists>k. 1 \<le> k \<and> k < len \<and> a = band_entry uplo nb lda r (c + k)
                    then 0 else A_buf s a)\<rparr>"
proof -
  have inj: "\<forall>k k'. 1 \<le> k \<and> k < len \<and> 1 \<le> k' \<and> k' < len \<and>
        band_entry uplo nb lda r (c + k) = band_entry uplo nb lda r (c + k') \<longrightarrow> k = k'"
  proof (intro allI impI)
    fix k k'
    assume h: "1 \<le> k \<and> k < len \<and> 1 \<le> k' \<and> k' < len \<and>
        band_entry uplo nb lda r (c + k) = band_entry uplo nb lda r (c + k')"
    have d: "\<bar>r - r\<bar> < lda - 1" using assms by simp
    from h have e: "band_entry uplo nb lda r (c + k) = band_entry uplo nb lda r (c + k')"
      by simp
    from band_entry_rows_inj[OF d e] show "k = k'" by simp
  qed
  have "(\<lambda>a. if vpos + 1 \<le> a \<and> a < vpos + len
            then cnj (A_buf s (band_entry uplo nb lda r (c + (a - vpos))))
            else ((VP_buf s)(vpos := 1)) a)
      = (\<lambda>a. if a = vpos then 1
                    else if vpos + 1 \<le> a \<and> a < vpos + len
                    then cnj (A_buf s (band_entry uplo nb lda r (c + (a - vpos))))
                    else VP_buf s a)"
    by (intro ext) auto
  then show ?thesis
    unfolding gather_row_def
    by (simp add: gather_row_state[where g="\<lambda>i. band_entry uplo nb lda r (c + i)", OF inj]
        cong: if_cong)
qed

lemma write_loop_const:
  "for_loop lo hi (\<lambda>k D. D(g k := v)) M a =
     (if \<exists>k. lo \<le> k \<and> k < hi \<and> a = g k then v else M a)"
proof (cases "\<exists>k. lo \<le> k \<and> k < hi \<and> a = g k")
  case True
  then obtain k where k: "lo \<le> k" "k < hi" "a = g k" by blast
  have "for_loop lo hi (\<lambda>k D. D(g k := v)) M (g k) = v"
    by (rule write_loop_value[where f="\<lambda>k. v"]) (use k in auto)
  then show ?thesis using True k by simp
next
  case False
  have "for_loop lo hi (\<lambda>k D. D(g k := v)) M a = M a"
    by (rule write_loop_frame[where f="\<lambda>k. v"]) (use False in auto)
  then show ?thesis using False by auto
qed

lemma write_loop_affine:
  "for_loop 0 n (\<lambda>k D. D(b + k := f k)) M a =
     (if b \<le> a \<and> a < b + n then f (a - b) else M a)"
proof (cases "b \<le> a \<and> a < b + n")
  case True
  have "for_loop 0 n (\<lambda>k D. D(b + k := f k)) M (b + (a - b)) = f (a - b)"
    by (rule write_loop_value[where g="\<lambda>k. b + k"]) (use True in auto)
  then show ?thesis using True by simp
next
  case False
  have "for_loop 0 n (\<lambda>k D. D(b + k := f k)) M a = M a"
    by (rule write_loop_frame[where g="\<lambda>k. b + k"]) (use False in auto)
  then show ?thesis using False by auto
qed

lemma gather_col_eq:
  "gather_col uplo nb lda r c len vpos s =
     s\<lparr>VQ_buf := (\<lambda>a. if a = vpos then 1
                    else if vpos + 1 \<le> a \<and> a < vpos + len
                    then A_buf s (band_entry uplo nb lda (r + (a - vpos)) c)
                    else VQ_buf s a),
       A_buf := (\<lambda>a. if \<exists>k. 1 \<le> k \<and> k < len \<and> a = band_entry uplo nb lda (r + k) c
                    then 0 else A_buf s a)\<rparr>"
proof -
  have V: "for_loop 0 (len - 1) (\<lambda>k D.
              D(vpos + 1 + k := A_buf s (band_entry uplo nb lda (r + 1 + k) c)))
              ((VQ_buf s)(vpos := 1))
         = (\<lambda>a. if a = vpos then 1
                    else if vpos + 1 \<le> a \<and> a < vpos + len
                    then A_buf s (band_entry uplo nb lda (r + (a - vpos)) c)
                    else VQ_buf s a)"
  proof (intro ext)
    fix a
    have e: "r + 1 + (a - (vpos + 1)) = r + (a - vpos)" by simp
    show "for_loop 0 (len - 1) (\<lambda>k D.
              D(vpos + 1 + k := A_buf s (band_entry uplo nb lda (r + 1 + k) c)))
              ((VQ_buf s)(vpos := 1)) a
         = (if a = vpos then 1
                    else if vpos + 1 \<le> a \<and> a < vpos + len
                    then A_buf s (band_entry uplo nb lda (r + (a - vpos)) c)
                    else VQ_buf s a)"
      unfolding write_loop_affine[where b="vpos + 1"] e by auto
  qed
  have A: "for_loop 0 (len - 1) (\<lambda>k D. D(band_entry uplo nb lda (r + 1 + k) c := 0)) (A_buf s)
         = (\<lambda>a. if \<exists>k. 1 \<le> k \<and> k < len \<and> a = band_entry uplo nb lda (r + k) c
                    then 0 else A_buf s a)"
  proof (intro ext)
    fix a
    have "(\<exists>k. 0 \<le> k \<and> k < len - 1 \<and> a = band_entry uplo nb lda (r + 1 + k) c)
        = (\<exists>k. 1 \<le> k \<and> k < len \<and> a = band_entry uplo nb lda (r + k) c)"
    proof
      assume "\<exists>k. 0 \<le> k \<and> k < len - 1 \<and> a = band_entry uplo nb lda (r + 1 + k) c"
      then obtain k where "0 \<le> k" "k < len - 1" "a = band_entry uplo nb lda (r + 1 + k) c"
        by blast
      then have "1 \<le> k + 1 \<and> k + 1 < len \<and> a = band_entry uplo nb lda (r + (k + 1)) c"
        by (simp add: algebra_simps)
      then show "\<exists>k. 1 \<le> k \<and> k < len \<and> a = band_entry uplo nb lda (r + k) c" by blast
    next
      assume "\<exists>k. 1 \<le> k \<and> k < len \<and> a = band_entry uplo nb lda (r + k) c"
      then obtain k where "1 \<le> k" "k < len" "a = band_entry uplo nb lda (r + k) c" by blast
      then have "0 \<le> k - 1 \<and> k - 1 < len - 1 \<and>
                 a = band_entry uplo nb lda (r + 1 + (k - 1)) c"
        by simp
      then show "\<exists>k. 0 \<le> k \<and> k < len - 1 \<and> a = band_entry uplo nb lda (r + 1 + k) c"
        by blast
    qed
    then show "for_loop 0 (len - 1) (\<lambda>k D. D(band_entry uplo nb lda (r + 1 + k) c := 0))
                 (A_buf s) a
             = (if \<exists>k. 1 \<le> k \<and> k < len \<and> a = band_entry uplo nb lda (r + k) c
                    then 0 else A_buf s a)"
      by (simp add: write_loop_const)
  qed
  show ?thesis
    unfolding gather_col_def Let_def by (simp add: V A)
qed

lemma gen_right_reflector_eq:
  "gen_right_reflector P uplo nb lda r c len vpos taupos s =
     (let rr = zlarfg P len (cnj (A_buf s (band_entry uplo nb lda r c)))
                 (vec_read (VP_buf s) (vpos + 1) (len - 1))
      in s\<lparr>VP_buf := vec_write (VP_buf s) (vpos + 1) (len - 1) (fst (snd rr)),
           TAUP_buf := (TAUP_buf s)(taupos := snd (snd rr)),
           A_buf := (A_buf s)(band_entry uplo nb lda r c := fst rr)\<rparr>)"
  by (simp add: gen_right_reflector_def Let_def split: prod.splits)

lemma gen_left_reflector_eq:
  "gen_left_reflector P uplo nb lda r c len vpos taupos s =
     (let rr = zlarfg P len (A_buf s (band_entry uplo nb lda r c))
                 (vec_read (VQ_buf s) (vpos + 1) (len - 1))
      in s\<lparr>VQ_buf := vec_write (VQ_buf s) (vpos + 1) (len - 1) (fst (snd rr)),
           TAUQ_buf := (TAUQ_buf s)(taupos := snd (snd rr)),
           A_buf := (A_buf s)(band_entry uplo nb lda r c := fst rr)\<rparr>)"
  by (simp add: gen_left_reflector_def Let_def split: prod.splits)

subsection \<open>The type-1 kernel, upper case\<close>

lemma apply_right_eq:
  "apply_right P uplo nb lda r c m n vpos taupos s =
     s\<lparr>A_buf := block_write uplo nb lda (A_buf s) r c m n
                   (zlarfx P (CHR ''R'') m n (vec_read (VP_buf s) vpos n) (TAUP_buf s taupos)
                      (block_read uplo nb lda (A_buf s) r c m n)),
       WORK_buf := zlarfx_work P (CHR ''R'') m n (vec_read (VP_buf s) vpos n)
                     (TAUP_buf s taupos) (block_read uplo nb lda (A_buf s) r c m n)
                     (WORK_buf s)\<rparr>"
  by (simp add: apply_right_def apply_reflector_to_block_def Let_def)

lemma apply_left_eq:
  "apply_left P uplo nb lda r c m n vpos taupos s =
     s\<lparr>A_buf := block_write uplo nb lda (A_buf s) r c m n
                   (zlarfx P (CHR ''L'') m n (vec_read (VQ_buf s) vpos m)
                      (cnj (TAUQ_buf s taupos))
                      (block_read uplo nb lda (A_buf s) r c m n)),
       WORK_buf := zlarfx_work P (CHR ''L'') m n (vec_read (VQ_buf s) vpos m)
                     (cnj (TAUQ_buf s taupos)) (block_read uplo nb lda (A_buf s) r c m n)
                     (WORK_buf s)\<rparr>"
  by (simp add: apply_left_def apply_reflector_to_block_def Let_def)

lemma vec_read_unit_head:
  assumes "1 \<le> len" "M vpos = 1" "\<forall>i. 1 \<le> i \<and> i < len \<longrightarrow> M (vpos + i) = x (i - 1)"
  shows "vec_read M vpos len = unit_head len x"
  by (intro ext) (use assms in \<open>auto simp: vec_read_def unit_head_def\<close>)

lemma type1_upper_sem:
  fixes P :: lapack and nb lda st ed vpos taupos :: int and s :: bulge_state
  assumes len1: "st \<le> ed" and lda: "ed - st + 1 < lda - 1"
  defines "s' \<equiv> type1_upper_steps P nb lda st ed vpos taupos s"
  defines "A0 \<equiv> A_buf s"
  defines "be \<equiv> band_entry CoreBlasUpper nb lda"
  shows "A_buf s' (be (st - 1) st) = fst (type1_upper_right P nb lda st ed A0)"
    and "\<forall>i. 1 \<le> i \<and> i \<le> ed - st \<longrightarrow> A_buf s' (be (st - 1) (st + i)) = 0"
    and "A_buf s' (be st st) = fst (type1_upper_left P nb lda st ed A0)"
    and "\<forall>i. 1 \<le> i \<and> i \<le> ed - st \<longrightarrow> A_buf s' (be (st + i) st) = 0"
    and "\<forall>i j. 0 \<le> i \<and> i \<le> ed - st \<and> 1 \<le> j \<and> j \<le> ed - st \<longrightarrow>
           A_buf s' (be (st + i) (st + j)) = type1_upper_final P nb lda st ed A0 i (j - 1)"
    and "\<forall>a. (\<forall>i. 0 \<le> i \<and> i \<le> ed - st \<longrightarrow> a \<noteq> be (st - 1) (st + i)) \<and>
             (\<forall>i j. 0 \<le> i \<and> i \<le> ed - st \<and> 0 \<le> j \<and> j \<le> ed - st \<longrightarrow>
                 a \<noteq> be (st + i) (st + j)) \<longrightarrow> A_buf s' a = A0 a"
    and "slot_holds (VP_buf s') vpos (ed - st + 1) (fst (snd (type1_upper_right P nb lda st ed A0)))"
    and "TAUP_buf s' = (TAUP_buf s)(taupos := snd (snd (type1_upper_right P nb lda st ed A0)))"
    and "slot_holds (VQ_buf s') vpos (ed - st + 1) (fst (snd (type1_upper_left P nb lda st ed A0)))"
    and "TAUQ_buf s' = (TAUQ_buf s)(taupos := snd (snd (type1_upper_left P nb lda st ed A0)))"
    and "\<forall>a. a < vpos \<or> vpos + (ed - st + 1) \<le> a \<longrightarrow>
           VP_buf s' a = VP_buf s a \<and> VQ_buf s' a = VQ_buf s a"
proof -
  define len where "len = ed - st + 1"
  have len: "1 \<le> len" "len < lda - 1" "1 < lda" "ed - st = len - 1"
    using len1 lda by (auto simp: len_def)
  have be_iff: "\<And>r c r' c'. \<bar>r - r'\<bar> < lda - 1 \<Longrightarrow> (be r c = be r' c') = (r = r' \<and> c = c')"
    unfolding be_def by (rule band_entry_eq_iff)
  \<comment> \<open>step 1: the row\<close>
  define s1 where "s1 = gather_row CoreBlasUpper nb lda (st - 1) st len vpos s"
  have A1: "A_buf s1 = (\<lambda>a. if \<exists>k. 1 \<le> k \<and> k < len \<and> a = be (st - 1) (st + k)
                              then 0 else A0 a)"
    and VP1: "VP_buf s1 = (\<lambda>a. if a = vpos then 1
                    else if vpos + 1 \<le> a \<and> a < vpos + len
                    then cnj (A0 (be (st - 1) (st + (a - vpos)))) else VP_buf s a)"
    and o1: "VQ_buf s1 = VQ_buf s" "TAUQ_buf s1 = TAUQ_buf s" "TAUP_buf s1 = TAUP_buf s"
    unfolding A0_def be_def by (simp_all add: s1_def gather_row_eq[OF len(3)])
  \<comment> \<open>step 2: the right reflector\<close>
  define rr1 where "rr1 = type1_upper_right P nb lda st ed A0"
  have piv1: "A_buf s1 (be (st - 1) st) = A0 (be (st - 1) st)"
    using len by (auto simp: A1 be_iff)
  have x1: "vec_read (VP_buf s1) (vpos + 1) (len - 1) =
        (\<lambda>i. if 0 \<le> i \<and> i < ed - st then cnj (A0 (AU nb lda (st - 1) (st + 1 + i))) else 0)"
    by (intro ext) (auto simp: vec_read_def VP1 len(4) be_def band_entry_def add.assoc)
  have rr1: "zlarfg P len (cnj (A_buf s1 (band_entry CoreBlasUpper nb lda (st - 1) st)))
               (vec_read (VP_buf s1) (vpos + 1) (len - 1)) = rr1"
    unfolding rr1_def type1_upper_right_def x1 using piv1
    by (simp add: be_def band_entry_def len_def)
  define s2 where "s2 = gen_right_reflector P CoreBlasUpper nb lda (st - 1) st len vpos taupos s1"
  have A2: "A_buf s2 = (A_buf s1)(be (st - 1) st := fst rr1)"
    and VP2: "VP_buf s2 = vec_write (VP_buf s1) (vpos + 1) (len - 1) (fst (snd rr1))"
    and TAUP2: "TAUP_buf s2 = (TAUP_buf s)(taupos := snd (snd rr1))"
    and o2: "VQ_buf s2 = VQ_buf s" "TAUQ_buf s2 = TAUQ_buf s"
    by (simp_all add: s2_def gen_right_reflector_eq rr1 Let_def o1 be_def)
  have VP2slot: "slot_holds (VP_buf s2) vpos len (fst (snd rr1))"
    using len by (auto simp: slot_holds_def VP2 vec_write_eq VP1)
  have VP2out: "\<forall>a. a < vpos \<or> vpos + len \<le> a \<longrightarrow> VP_buf s2 a = VP_buf s a"
    using len by (auto simp: VP2 vec_write_eq VP1)
  \<comment> \<open>step 3: the right update of the block\<close>
  define B where "B = type1_upper_mid P nb lda st ed A0"
  have v1: "vec_read (VP_buf s2) vpos len = unit_head len (fst (snd rr1))"
    using VP2slot len(1) unfolding slot_holds_def by (intro vec_read_unit_head) auto
  have blk2: "A_buf s2 (be (st + i) (st + j)) = A0 (be (st + i) (st + j))"
    if "0 \<le> i" "i < len" for i j
    using that len by (auto simp: A2 A1 be_iff)
  have C0: "block_read CoreBlasUpper nb lda (A_buf s2) st st len len =
            block_read CoreBlasUpper nb lda A0 st st len len"
    by (intro ext) (simp add: block_read_def blk2[unfolded be_def])
  define s3 where "s3 = apply_right P CoreBlasUpper nb lda st st len len vpos taupos s2"
  have A3: "A_buf s3 = block_write CoreBlasUpper nb lda (A_buf s2) st st len len B"
    and o3: "VP_buf s3 = VP_buf s2" "TAUP_buf s3 = TAUP_buf s2"
            "VQ_buf s3 = VQ_buf s" "TAUQ_buf s3 = TAUQ_buf s"
    by (simp_all add: s3_def apply_right_eq v1 C0 TAUP2 o2 B_def type1_upper_mid_def Let_def
        rr1_def len_def[symmetric])
  have A3in: "A_buf s3 (be (st + i) (st + j)) = B i j"
    if "0 \<le> i" "i < len" "0 \<le> j" "j < len" for i j
    unfolding A3 be_def by (rule block_write_value) (use that len in auto)
  have A3out: "A_buf s3 a = A_buf s2 a"
    if "\<forall>i j. 0 \<le> i \<and> i < len \<and> 0 \<le> j \<and> j < len \<longrightarrow> a \<noteq> be (st + i) (st + j)" for a
    unfolding A3 by (rule block_write_frame) (use that in \<open>simp add: be_def\<close>)
  \<comment> \<open>step 4: the column\<close>
  define s4 where "s4 = gather_col CoreBlasUpper nb lda st st len vpos s3"
  have A4: "A_buf s4 = (\<lambda>a. if \<exists>k. 1 \<le> k \<and> k < len \<and> a = be (st + k) st
                              then 0 else A_buf s3 a)"
    and VQ4: "VQ_buf s4 = (\<lambda>a. if a = vpos then 1
                    else if vpos + 1 \<le> a \<and> a < vpos + len
                    then A_buf s3 (be (st + (a - vpos)) st) else VQ_buf s a)"
    and o4: "VP_buf s4 = VP_buf s2" "TAUP_buf s4 = TAUP_buf s2" "TAUQ_buf s4 = TAUQ_buf s"
    unfolding be_def by (simp_all add: s4_def gather_col_eq o3 cong: if_cong)
  \<comment> \<open>step 5: the left reflector\<close>
  define rr2 where "rr2 = type1_upper_left P nb lda st ed A0"
  have piv2: "A_buf s4 (be st st) = B 0 0"
    using len A3in[of 0 0] by (auto simp: A4 be_iff)
  have x2: "vec_read (VQ_buf s4) (vpos + 1) (len - 1) =
        (\<lambda>i. if 0 \<le> i \<and> i < ed - st then B (i + 1) 0 else 0)"
  proof (intro ext)
    fix i
    show "vec_read (VQ_buf s4) (vpos + 1) (len - 1) i =
          (if 0 \<le> i \<and> i < ed - st then B (i + 1) 0 else 0)"
      using A3in[of "i + 1" 0] len by (auto simp: vec_read_def VQ4 add.commute)
  qed
  have rr2: "zlarfg P len (A_buf s4 (band_entry CoreBlasUpper nb lda st st))
               (vec_read (VQ_buf s4) (vpos + 1) (len - 1)) = rr2"
    using piv2 unfolding rr2_def type1_upper_left_def x2 Let_def be_def
    by (simp add: len_def B_def cong: if_cong)
  define s5 where "s5 = gen_left_reflector P CoreBlasUpper nb lda st st len vpos taupos s4"
  have A5: "A_buf s5 = (A_buf s4)(be st st := fst rr2)"
    and VQ5: "VQ_buf s5 = vec_write (VQ_buf s4) (vpos + 1) (len - 1) (fst (snd rr2))"
    and TAUQ5: "TAUQ_buf s5 = (TAUQ_buf s)(taupos := snd (snd rr2))"
    and o5: "VP_buf s5 = VP_buf s2" "TAUP_buf s5 = TAUP_buf s2"
    by (simp_all add: s5_def gen_left_reflector_eq rr2 Let_def o4 be_def)
  have VQ5slot: "slot_holds (VQ_buf s5) vpos len (fst (snd rr2))"
    using len by (auto simp: slot_holds_def VQ5 vec_write_eq VQ4)
  have VQ5out: "\<forall>a. a < vpos \<or> vpos + len \<le> a \<longrightarrow> VQ_buf s5 a = VQ_buf s a"
    using len by (auto simp: VQ5 vec_write_eq VQ4)
  \<comment> \<open>step 6: the left update of the remaining columns\<close>
  define D where "D = type1_upper_final P nb lda st ed A0"
  have v2: "vec_read (VQ_buf s5) vpos len = unit_head len (fst (snd rr2))"
    using VQ5slot len(1) unfolding slot_holds_def by (intro vec_read_unit_head) auto
  have blk5: "A_buf s5 (be (st + i) (st + 1 + j)) = B i (j + 1)"
    if "0 \<le> i" "i < len" "0 \<le> j" "j < len - 1" for i j
  proof -
    have e: "st + 1 + j = st + (j + 1)" by simp
    show ?thesis unfolding e using that len A3in[of i "j + 1"] by (auto simp: A5 A4 be_iff)
  qed
  have C4: "block_read CoreBlasUpper nb lda (A_buf s5) st (st + 1) len (len - 1) =
            (\<lambda>i j. if 0 \<le> i \<and> i < len \<and> 0 \<le> j \<and> j < len - 1 then B i (j + 1) else 0)"
    by (intro ext) (simp add: block_read_def blk5[unfolded be_def])
  define s6 where "s6 = apply_left P CoreBlasUpper nb lda st (st + 1) len (len - 1) vpos taupos s5"
  have A6: "A_buf s6 = block_write CoreBlasUpper nb lda (A_buf s5) st (st + 1) len (len - 1) D"
    and o6: "VP_buf s6 = VP_buf s2" "TAUP_buf s6 = TAUP_buf s2"
            "VQ_buf s6 = VQ_buf s5" "TAUQ_buf s6 = TAUQ_buf s5"
    by (simp_all add: s6_def apply_left_eq v2 C4 TAUQ5 o5 D_def type1_upper_final_def Let_def
        rr2_def len_def[symmetric] B_def cong: if_cong)
  have A6in: "A_buf s6 (be (st + i) (st + 1 + j)) = D i j"
    if "0 \<le> i" "i < len" "0 \<le> j" "j < len - 1" for i j
    unfolding A6 be_def by (rule block_write_value) (use that len in auto)
  have A6out: "A_buf s6 a = A_buf s5 a"
    if "\<forall>i j. 0 \<le> i \<and> i < len \<and> 0 \<le> j \<and> j < len - 1 \<longrightarrow> a \<noteq> be (st + i) (st + 1 + j)" for a
    unfolding A6 by (rule block_write_frame) (use that in \<open>simp add: be_def\<close>)
  have s': "s' = s6"
    by (simp add: s'_def type1_upper_steps_def Let_def s6_def s5_def s4_def s3_def s2_def s1_def
        len_def)
  \<comment> \<open>reading the final buffer\<close>
  show "A_buf s' (be (st - 1) st) = fst (type1_upper_right P nb lda st ed A0)"
  proof -
    have "A_buf s6 (be (st - 1) st) = A_buf s5 (be (st - 1) st)"
    proof (rule A6out, intro allI impI)
      fix i j assume h: "0 \<le> i \<and> i < len \<and> 0 \<le> j \<and> j < len - 1"
      have "\<bar>(st - 1) - (st + i)\<bar> < lda - 1" using h len by auto
      from be_iff[OF this] show "be (st - 1) st \<noteq> be (st + i) (st + 1 + j)" using h by auto
    qed
    also have "\<dots> = A_buf s3 (be (st - 1) st)" using len by (auto simp: A5 A4 be_iff)
    also have "\<dots> = A_buf s2 (be (st - 1) st)"
    proof (rule A3out, intro allI impI)
      fix i j assume h: "0 \<le> i \<and> i < len \<and> 0 \<le> j \<and> j < len"
      have "\<bar>(st - 1) - (st + i)\<bar> < lda - 1" using h len by auto
      from be_iff[OF this] show "be (st - 1) st \<noteq> be (st + i) (st + j)" using h by auto
    qed
    finally show ?thesis by (simp add: s' A2 rr1_def)
  qed
  show "\<forall>i. 1 \<le> i \<and> i \<le> ed - st \<longrightarrow> A_buf s' (be (st - 1) (st + i)) = 0"
  proof (intro allI impI)
    fix i assume i: "1 \<le> i \<and> i \<le> ed - st"
    have "A_buf s6 (be (st - 1) (st + i)) = A_buf s5 (be (st - 1) (st + i))"
    proof (rule A6out, intro allI impI)
      fix i' j assume h: "0 \<le> i' \<and> i' < len \<and> 0 \<le> j \<and> j < len - 1"
      have "\<bar>(st - 1) - (st + i')\<bar> < lda - 1" using h len by auto
      from be_iff[OF this] show "be (st - 1) (st + i) \<noteq> be (st + i') (st + 1 + j)"
        using h by auto
    qed
    also have "\<dots> = A_buf s3 (be (st - 1) (st + i))" using len i by (auto simp: A5 A4 be_iff)
    also have "\<dots> = A_buf s2 (be (st - 1) (st + i))"
    proof (rule A3out, intro allI impI)
      fix i' j assume h: "0 \<le> i' \<and> i' < len \<and> 0 \<le> j \<and> j < len"
      have "\<bar>(st - 1) - (st + i')\<bar> < lda - 1" using h len by auto
      from be_iff[OF this] show "be (st - 1) (st + i) \<noteq> be (st + i') (st + j)" using h by auto
    qed
    also have "\<dots> = 0" using len i by (auto simp: A2 A1 be_iff)
    finally show "A_buf s' (be (st - 1) (st + i)) = 0" by (simp add: s')
  qed
  show "A_buf s' (be st st) = fst (type1_upper_left P nb lda st ed A0)"
  proof -
    have "A_buf s6 (be st st) = A_buf s5 (be st st)"
    proof (rule A6out, intro allI impI)
      fix i j assume h: "0 \<le> i \<and> i < len \<and> 0 \<le> j \<and> j < len - 1"
      have "\<bar>st - (st + i)\<bar> < lda - 1" using h len by auto
      from be_iff[OF this] show "be st st \<noteq> be (st + i) (st + 1 + j)" using h by auto
    qed
    then show ?thesis by (simp add: s' A5 rr2_def)
  qed
  show "\<forall>i. 1 \<le> i \<and> i \<le> ed - st \<longrightarrow> A_buf s' (be (st + i) st) = 0"
  proof (intro allI impI)
    fix i assume i: "1 \<le> i \<and> i \<le> ed - st"
    have "A_buf s6 (be (st + i) st) = A_buf s5 (be (st + i) st)"
    proof (rule A6out, intro allI impI)
      fix i' j assume h: "0 \<le> i' \<and> i' < len \<and> 0 \<le> j \<and> j < len - 1"
      have "\<bar>(st + i) - (st + i')\<bar> < lda - 1" using h i len by auto
      from be_iff[OF this] show "be (st + i) st \<noteq> be (st + i') (st + 1 + j)" using h by auto
    qed
    also have "\<dots> = 0" using len i by (auto simp: A5 A4 be_iff)
    finally show "A_buf s' (be (st + i) st) = 0" by (simp add: s')
  qed
  show "\<forall>i j. 0 \<le> i \<and> i \<le> ed - st \<and> 1 \<le> j \<and> j \<le> ed - st \<longrightarrow>
           A_buf s' (be (st + i) (st + j)) = type1_upper_final P nb lda st ed A0 i (j - 1)"
  proof (intro allI impI)
    fix i j assume h: "0 \<le> i \<and> i \<le> ed - st \<and> 1 \<le> j \<and> j \<le> ed - st"
    have "A_buf s6 (be (st + i) (st + 1 + (j - 1))) = D i (j - 1)"
      by (rule A6in) (use h len in auto)
    then show "A_buf s' (be (st + i) (st + j)) = type1_upper_final P nb lda st ed A0 i (j - 1)"
      by (simp add: s' D_def)
  qed
  show "\<forall>a. (\<forall>i. 0 \<le> i \<and> i \<le> ed - st \<longrightarrow> a \<noteq> be (st - 1) (st + i)) \<and>
             (\<forall>i j. 0 \<le> i \<and> i \<le> ed - st \<and> 0 \<le> j \<and> j \<le> ed - st \<longrightarrow>
                 a \<noteq> be (st + i) (st + j)) \<longrightarrow> A_buf s' a = A0 a"
  proof (intro allI impI)
    fix a
    assume h: "(\<forall>i. 0 \<le> i \<and> i \<le> ed - st \<longrightarrow> a \<noteq> be (st - 1) (st + i)) \<and>
             (\<forall>i j. 0 \<le> i \<and> i \<le> ed - st \<and> 0 \<le> j \<and> j \<le> ed - st \<longrightarrow>
                 a \<noteq> be (st + i) (st + j))"
    then have row: "\<And>i. 0 \<le> i \<Longrightarrow> i < len \<Longrightarrow> a \<noteq> be (st - 1) (st + i)"
      and blk: "\<And>i j. 0 \<le> i \<Longrightarrow> i < len \<Longrightarrow> 0 \<le> j \<Longrightarrow> j < len \<Longrightarrow> a \<noteq> be (st + i) (st + j)"
      using len(4) by auto
    have "A_buf s6 a = A_buf s5 a"
    proof (rule A6out, intro allI impI)
      fix i j assume "0 \<le> i \<and> i < len \<and> 0 \<le> j \<and> j < len - 1"
      then show "a \<noteq> be (st + i) (st + 1 + j)" using blk[of i "1 + j"] by (simp add: add.assoc)
    qed
    also have "\<dots> = A_buf s3 a"
    proof -
      have n4: "\<not> (\<exists>k. 1 \<le> k \<and> k < len \<and> a = be (st + k) st)"
        using blk[of _ 0] len by auto
      have n5: "a \<noteq> be st st" using blk[of 0 0] len by simp
      show ?thesis by (simp add: A5 A4 n4 n5)
    qed
    also have "\<dots> = A_buf s2 a" by (rule A3out) (use blk in auto)
    also have "\<dots> = A0 a"
    proof -
      have n1: "\<not> (\<exists>k. 1 \<le> k \<and> k < len \<and> a = be (st - 1) (st + k))"
        using row by auto
      have n2: "a \<noteq> be (st - 1) st" using row[of 0] len by simp
      show ?thesis by (simp add: A2 A1 n1 n2)
    qed
    finally show "A_buf s' a = A0 a" by (simp add: s')
  qed
  show "slot_holds (VP_buf s') vpos (ed - st + 1) (fst (snd (type1_upper_right P nb lda st ed A0)))"
    using VP2slot by (simp add: s' o6 rr1_def len_def)
  show "TAUP_buf s' = (TAUP_buf s)(taupos := snd (snd (type1_upper_right P nb lda st ed A0)))"
    by (simp add: s' o6 TAUP2 rr1_def)
  show "slot_holds (VQ_buf s') vpos (ed - st + 1) (fst (snd (type1_upper_left P nb lda st ed A0)))"
    using VQ5slot by (simp add: s' o6 rr2_def len_def)
  show "TAUQ_buf s' = (TAUQ_buf s)(taupos := snd (snd (type1_upper_left P nb lda st ed A0)))"
    by (simp add: s' o6 TAUQ5 rr2_def)
  show "\<forall>a. a < vpos \<or> vpos + (ed - st + 1) \<le> a \<longrightarrow>
           VP_buf s' a = VP_buf s a \<and> VQ_buf s' a = VQ_buf s a"
    using VP2out VQ5out by (simp add: s' o6 len_def)
qed

subsection \<open>The concrete call\<close>

lemma sqrt9: "sqrt 9 = 3"
  by (rule real_sqrt_unique) simp_all

lemma isum_3: "isum 3 f = f 0 + f 1 + f 2"
  by (simp add: isum_def for_loop.simps)

lemma isum_4: "isum 4 f = f 0 + f 1 + f 2 + f 3"
  by (simp add: isum_def for_loop.simps)

lemma lapack_exact_sel:
  "zlarfg lapack_exact = zlarfg_exact" "zlarfx lapack_exact = zlarfx_exact"
  by (simp_all add: lapack_exact_def)

lemma ex_A0:
  "A_buf bulge_example = (\<lambda>a. if a = 60 \<or> a = 47 \<or> a = 34 \<or> a = 21 \<or> a = 32 then 1
                              else if a = 44 \<or> a = 56 then 2 else 0)"
  by (intro ext) (simp add: bulge_example_def AU_def)

lemma ex_right:
  "fst (type1_upper_right lapack_exact 4 13 1 4 (A_buf bulge_example)) = - 3"
  "snd (snd (type1_upper_right lapack_exact 4 13 1 4 (A_buf bulge_example))) = 1"
  "fst (snd (type1_upper_right lapack_exact 4 13 1 4 (A_buf bulge_example))) 0 = 1 / 3"
  "fst (snd (type1_upper_right lapack_exact 4 13 1 4 (A_buf bulge_example))) 1 = 2 / 3"
  "fst (snd (type1_upper_right lapack_exact 4 13 1 4 (A_buf bulge_example))) 2 = 2 / 3"
  by (simp_all add: type1_upper_right_def lapack_exact_sel zlarfg_exact_def ex_A0 AU_def
      isum_3 sqrt9 Let_def complex_eq_iff)

lemma ex_block:
  "block_read CoreBlasUpper 4 13 (A_buf bulge_example) 1 1 4 4 =
     (\<lambda>i j. if 0 \<le> i \<and> i < 4 \<and> i = j then 1 else 0)"
  by (intro ext) (auto simp: block_read_def band_entry_def ex_A0 AU_def, presburger+)

lemma ex_mid:
  "type1_upper_mid lapack_exact 4 13 1 4 (A_buf bulge_example) 0 0 = 0"
  "type1_upper_mid lapack_exact 4 13 1 4 (A_buf bulge_example) 1 0 = - 1 / 3"
  "type1_upper_mid lapack_exact 4 13 1 4 (A_buf bulge_example) 2 0 = - 2 / 3"
  "type1_upper_mid lapack_exact 4 13 1 4 (A_buf bulge_example) 3 0 = - 2 / 3"
  "type1_upper_mid lapack_exact 4 13 1 4 (A_buf bulge_example) 0 1 = - 1 / 3"
  "type1_upper_mid lapack_exact 4 13 1 4 (A_buf bulge_example) 1 1 = 8 / 9"
  "type1_upper_mid lapack_exact 4 13 1 4 (A_buf bulge_example) 2 1 = - 2 / 9"
  "type1_upper_mid lapack_exact 4 13 1 4 (A_buf bulge_example) 3 1 = - 2 / 9"
  by (simp_all add: type1_upper_mid_def Let_def ex_right ex_block lapack_exact_sel
      zlarfx_exact_def isum_4 unit_head_def)

lemma ex_left:
  "snd (snd (type1_upper_left lapack_exact 4 13 1 4 (A_buf bulge_example))) = 1"
  "fst (snd (type1_upper_left lapack_exact 4 13 1 4 (A_buf bulge_example))) 0 = - 1 / 3"
  "fst (snd (type1_upper_left lapack_exact 4 13 1 4 (A_buf bulge_example))) 1 = - 2 / 3"
  "fst (snd (type1_upper_left lapack_exact 4 13 1 4 (A_buf bulge_example))) 2 = - 2 / 3"
  by (simp_all add: type1_upper_left_def Let_def ex_mid lapack_exact_sel zlarfg_exact_def
      isum_3 complex_eq_iff power2_eq_square)

lemma ex_final:
  "type1_upper_final lapack_exact 4 13 1 4 (A_buf bulge_example) 2 0 = - 4 / 9"
  "type1_upper_final lapack_exact 4 13 1 4 (A_buf bulge_example) 3 0 = - 4 / 9"
  by (simp_all add: type1_upper_final_def Let_def ex_mid ex_left lapack_exact_sel
      zlarfx_exact_def isum_4 unit_head_def)

subsection \<open>The type-1 kernel, lower case\<close>

lemma type1_lower_refines:
  "zgbtype1cb_lower P nb lda st ed vpos taupos s = type1_lower_steps P nb lda st ed vpos taupos s"
  using eliminate_col_band[of P CoreBlasLower nb lda st "st - 1"]
  by (simp add: zgbtype1cb_lower_def type1_lower_steps_def Let_def AL_band
      apply_right_at_band apply_left_at_band eliminate_row_band)

lemma type1_lower_sem:
  fixes P :: lapack and nb lda st ed vpos taupos :: int and s :: bulge_state
  assumes len1: "st \<le> ed" and lda: "ed - st + 1 < lda - 1"
  defines "s' \<equiv> type1_lower_steps P nb lda st ed vpos taupos s"
  defines "A0 \<equiv> A_buf s"
  defines "be \<equiv> band_entry CoreBlasLower nb lda"
  shows "A_buf s' (be st (st - 1)) = fst (type1_lower_left P nb lda st ed A0)"
    and "\<forall>i. 1 \<le> i \<and> i \<le> ed - st \<longrightarrow> A_buf s' (be (st + i) (st - 1)) = 0"
    and "A_buf s' (be st st) = fst (type1_lower_right P nb lda st ed A0)"
    and "\<forall>i. 1 \<le> i \<and> i \<le> ed - st \<longrightarrow> A_buf s' (be st (st + i)) = 0"
    and "\<forall>i j. 1 \<le> i \<and> i \<le> ed - st \<and> 0 \<le> j \<and> j \<le> ed - st \<longrightarrow>
           A_buf s' (be (st + i) (st + j)) = type1_lower_final P nb lda st ed A0 (i - 1) j"
    and "\<forall>a. (\<forall>i. 0 \<le> i \<and> i \<le> ed - st \<longrightarrow> a \<noteq> be (st + i) (st - 1)) \<and>
             (\<forall>i j. 0 \<le> i \<and> i \<le> ed - st \<and> 0 \<le> j \<and> j \<le> ed - st \<longrightarrow>
                 a \<noteq> be (st + i) (st + j)) \<longrightarrow> A_buf s' a = A0 a"
    and "slot_holds (VQ_buf s') vpos (ed - st + 1) (fst (snd (type1_lower_left P nb lda st ed A0)))"
    and "TAUQ_buf s' = (TAUQ_buf s)(taupos := snd (snd (type1_lower_left P nb lda st ed A0)))"
    and "slot_holds (VP_buf s') vpos (ed - st + 1) (fst (snd (type1_lower_right P nb lda st ed A0)))"
    and "TAUP_buf s' = (TAUP_buf s)(taupos := snd (snd (type1_lower_right P nb lda st ed A0)))"
    and "\<forall>a. a < vpos \<or> vpos + (ed - st + 1) \<le> a \<longrightarrow>
           VP_buf s' a = VP_buf s a \<and> VQ_buf s' a = VQ_buf s a"
proof -
  define len where "len = ed - st + 1"
  have len: "1 \<le> len" "len < lda - 1" "1 < lda" "ed - st = len - 1"
    using len1 lda by (auto simp: len_def)
  have be_iff: "\<And>r c r' c'. \<bar>r - r'\<bar> < lda - 1 \<Longrightarrow> (be r c = be r' c') = (r = r' \<and> c = c')"
    unfolding be_def by (rule band_entry_eq_iff)
  \<comment> \<open>step 1: the column\<close>
  define s1 where "s1 = gather_col CoreBlasLower nb lda st (st - 1) len vpos s"
  have A1: "A_buf s1 = (\<lambda>a. if \<exists>k. 1 \<le> k \<and> k < len \<and> a = be (st + k) (st - 1)
                              then 0 else A0 a)"
    and VQ1: "VQ_buf s1 = (\<lambda>a. if a = vpos then 1
                    else if vpos + 1 \<le> a \<and> a < vpos + len
                    then A0 (be (st + (a - vpos)) (st - 1)) else VQ_buf s a)"
    and o1: "VP_buf s1 = VP_buf s" "TAUQ_buf s1 = TAUQ_buf s" "TAUP_buf s1 = TAUP_buf s"
    unfolding A0_def be_def by (simp_all add: s1_def gather_col_eq)
  \<comment> \<open>step 2: the left reflector\<close>
  define rr1 where "rr1 = type1_lower_left P nb lda st ed A0"
  have piv1: "A_buf s1 (be st (st - 1)) = A0 (be st (st - 1))"
    using len by (auto simp: A1 be_iff)
  have x1: "vec_read (VQ_buf s1) (vpos + 1) (len - 1) =
        (\<lambda>i. if 0 \<le> i \<and> i < ed - st then A0 (AL nb lda (st + 1 + i) (st - 1)) else 0)"
    by (intro ext) (auto simp: vec_read_def VQ1 len(4) be_def band_entry_def add.assoc)
  have rr1: "zlarfg P len (A_buf s1 (band_entry CoreBlasLower nb lda st (st - 1)))
               (vec_read (VQ_buf s1) (vpos + 1) (len - 1)) = rr1"
    unfolding rr1_def type1_lower_left_def x1 using piv1
    by (simp add: be_def band_entry_def len_def)
  define s2 where "s2 = gen_left_reflector P CoreBlasLower nb lda st (st - 1) len vpos taupos s1"
  have A2: "A_buf s2 = (A_buf s1)(be st (st - 1) := fst rr1)"
    and VQ2: "VQ_buf s2 = vec_write (VQ_buf s1) (vpos + 1) (len - 1) (fst (snd rr1))"
    and TAUQ2: "TAUQ_buf s2 = (TAUQ_buf s)(taupos := snd (snd rr1))"
    and o2: "VP_buf s2 = VP_buf s" "TAUP_buf s2 = TAUP_buf s"
    by (simp_all add: s2_def gen_left_reflector_eq rr1 Let_def o1 be_def)
  have VQ2slot: "slot_holds (VQ_buf s2) vpos len (fst (snd rr1))"
    using len by (auto simp: slot_holds_def VQ2 vec_write_eq VQ1)
  have VQ2out: "\<forall>a. a < vpos \<or> vpos + len \<le> a \<longrightarrow> VQ_buf s2 a = VQ_buf s a"
    using len by (auto simp: VQ2 vec_write_eq VQ1)
  \<comment> \<open>step 3: the left update of the block\<close>
  define B where "B = type1_lower_mid P nb lda st ed A0"
  have v1: "vec_read (VQ_buf s2) vpos len = unit_head len (fst (snd rr1))"
    using VQ2slot len(1) unfolding slot_holds_def by (intro vec_read_unit_head) auto
  have blk2: "A_buf s2 (be (st + i) (st + j)) = A0 (be (st + i) (st + j))"
    if "0 \<le> i" "i < len" "0 \<le> j" for i j
    using that len by (auto simp: A2 A1 be_iff)
  have C0: "block_read CoreBlasLower nb lda (A_buf s2) st st len len =
            block_read CoreBlasLower nb lda A0 st st len len"
    by (intro ext) (simp add: block_read_def blk2[unfolded be_def])
  define s3 where "s3 = apply_left P CoreBlasLower nb lda st st len len vpos taupos s2"
  have A3: "A_buf s3 = block_write CoreBlasLower nb lda (A_buf s2) st st len len B"
    and o3: "VQ_buf s3 = VQ_buf s2" "TAUQ_buf s3 = TAUQ_buf s2"
            "VP_buf s3 = VP_buf s" "TAUP_buf s3 = TAUP_buf s"
    by (simp_all add: s3_def apply_left_eq v1 C0 TAUQ2 o2 B_def type1_lower_mid_def Let_def
        rr1_def len_def[symmetric])
  have A3in: "A_buf s3 (be (st + i) (st + j)) = B i j"
    if "0 \<le> i" "i < len" "0 \<le> j" "j < len" for i j
    unfolding A3 be_def by (rule block_write_value) (use that len in auto)
  have A3out: "A_buf s3 a = A_buf s2 a"
    if "\<forall>i j. 0 \<le> i \<and> i < len \<and> 0 \<le> j \<and> j < len \<longrightarrow> a \<noteq> be (st + i) (st + j)" for a
    unfolding A3 by (rule block_write_frame) (use that in \<open>simp add: be_def\<close>)
  \<comment> \<open>step 4: the row\<close>
  define s4 where "s4 = gather_row CoreBlasLower nb lda st st len vpos s3"
  have A4: "A_buf s4 = (\<lambda>a. if \<exists>k. 1 \<le> k \<and> k < len \<and> a = be st (st + k)
                              then 0 else A_buf s3 a)"
    and VP4: "VP_buf s4 = (\<lambda>a. if a = vpos then 1
                    else if vpos + 1 \<le> a \<and> a < vpos + len
                    then cnj (A_buf s3 (be st (st + (a - vpos)))) else VP_buf s a)"
    and o4: "VQ_buf s4 = VQ_buf s2" "TAUQ_buf s4 = TAUQ_buf s2" "TAUP_buf s4 = TAUP_buf s"
    unfolding be_def by (simp_all add: s4_def gather_row_eq[OF len(3)] o3 cong: if_cong)
  \<comment> \<open>step 5: the right reflector\<close>
  define rr2 where "rr2 = type1_lower_right P nb lda st ed A0"
  have piv2: "A_buf s4 (be st st) = B 0 0"
    using len A3in[of 0 0] by (auto simp: A4 be_iff)
  have x2: "vec_read (VP_buf s4) (vpos + 1) (len - 1) =
        (\<lambda>i. if 0 \<le> i \<and> i < ed - st then cnj (B 0 (i + 1)) else 0)"
  proof (intro ext)
    fix i
    show "vec_read (VP_buf s4) (vpos + 1) (len - 1) i =
          (if 0 \<le> i \<and> i < ed - st then cnj (B 0 (i + 1)) else 0)"
      using A3in[of 0 "i + 1"] len by (auto simp: vec_read_def VP4 add.commute)
  qed
  have rr2: "zlarfg P len (cnj (A_buf s4 (band_entry CoreBlasLower nb lda st st)))
               (vec_read (VP_buf s4) (vpos + 1) (len - 1)) = rr2"
    using piv2 unfolding rr2_def type1_lower_right_def x2 Let_def be_def
    by (simp add: len_def B_def cong: if_cong)
  define s5 where "s5 = gen_right_reflector P CoreBlasLower nb lda st st len vpos taupos s4"
  have A5: "A_buf s5 = (A_buf s4)(be st st := fst rr2)"
    and VP5: "VP_buf s5 = vec_write (VP_buf s4) (vpos + 1) (len - 1) (fst (snd rr2))"
    and TAUP5: "TAUP_buf s5 = (TAUP_buf s)(taupos := snd (snd rr2))"
    and o5: "VQ_buf s5 = VQ_buf s2" "TAUQ_buf s5 = TAUQ_buf s2"
    by (simp_all add: s5_def gen_right_reflector_eq rr2 Let_def o4 be_def)
  have VP5slot: "slot_holds (VP_buf s5) vpos len (fst (snd rr2))"
    using len by (auto simp: slot_holds_def VP5 vec_write_eq VP4)
  have VP5out: "\<forall>a. a < vpos \<or> vpos + len \<le> a \<longrightarrow> VP_buf s5 a = VP_buf s a"
    using len by (auto simp: VP5 vec_write_eq VP4)
  \<comment> \<open>step 6: the right update of the remaining rows\<close>
  define D where "D = type1_lower_final P nb lda st ed A0"
  have v2: "vec_read (VP_buf s5) vpos len = unit_head len (fst (snd rr2))"
    using VP5slot len(1) unfolding slot_holds_def by (intro vec_read_unit_head) auto
  have blk5: "A_buf s5 (be (st + 1 + i) (st + j)) = B (i + 1) j"
    if "0 \<le> i" "i < len - 1" "0 \<le> j" "j < len" for i j
  proof -
    have e: "st + 1 + i = st + (i + 1)" by simp
    show ?thesis unfolding e using that len A3in[of "i + 1" j] by (auto simp: A5 A4 be_iff)
  qed
  have C4: "block_read CoreBlasLower nb lda (A_buf s5) (st + 1) st (len - 1) len =
            (\<lambda>i j. if 0 \<le> i \<and> i < len - 1 \<and> 0 \<le> j \<and> j < len then B (i + 1) j else 0)"
    by (intro ext) (simp add: block_read_def blk5[unfolded be_def])
  define s6 where "s6 = apply_right P CoreBlasLower nb lda (st + 1) st (len - 1) len vpos taupos s5"
  have A6: "A_buf s6 = block_write CoreBlasLower nb lda (A_buf s5) (st + 1) st (len - 1) len D"
    and o6: "VQ_buf s6 = VQ_buf s2" "TAUQ_buf s6 = TAUQ_buf s2"
            "VP_buf s6 = VP_buf s5" "TAUP_buf s6 = TAUP_buf s5"
    by (simp_all add: s6_def apply_right_eq v2 C4 TAUP5 o5 D_def type1_lower_final_def Let_def
        rr2_def len_def[symmetric] B_def cong: if_cong)
  have A6in: "A_buf s6 (be (st + 1 + i) (st + j)) = D i j"
    if "0 \<le> i" "i < len - 1" "0 \<le> j" "j < len" for i j
    unfolding A6 be_def by (rule block_write_value) (use that len in auto)
  have A6out: "A_buf s6 a = A_buf s5 a"
    if "\<forall>i j. 0 \<le> i \<and> i < len - 1 \<and> 0 \<le> j \<and> j < len \<longrightarrow> a \<noteq> be (st + 1 + i) (st + j)" for a
    unfolding A6 by (rule block_write_frame) (use that in \<open>simp add: be_def\<close>)
  have s': "s' = s6"
    by (simp add: s'_def type1_lower_steps_def Let_def s6_def s5_def s4_def s3_def s2_def s1_def
        len_def)
  \<comment> \<open>reading the final buffer\<close>
  have out6: "A_buf s6 (be r c) = A_buf s5 (be r c)"
    if "st \<le> r" "r \<le> ed" "c < st \<or> r = st" for r c
  proof (rule A6out, intro allI impI)
    fix i j assume h: "0 \<le> i \<and> i < len - 1 \<and> 0 \<le> j \<and> j < len"
    have "\<bar>r - (st + 1 + i)\<bar> < lda - 1" using h len that by auto
    from be_iff[OF this] show "be r c \<noteq> be (st + 1 + i) (st + j)" using h that by auto
  qed
  have out3: "A_buf s3 (be r (st - 1)) = A_buf s2 (be r (st - 1))"
    if "st \<le> r" "r \<le> ed" for r
  proof (rule A3out, intro allI impI)
    fix i j assume h: "0 \<le> i \<and> i < len \<and> 0 \<le> j \<and> j < len"
    have "\<bar>r - (st + i)\<bar> < lda - 1" using h len that by auto
    from be_iff[OF this] show "be r (st - 1) \<noteq> be (st + i) (st + j)" using h by auto
  qed
  show "A_buf s' (be st (st - 1)) = fst (type1_lower_left P nb lda st ed A0)"
  proof -
    have "A_buf s6 (be st (st - 1)) = A_buf s5 (be st (st - 1))"
      by (rule out6) (use len1 in auto)
    also have "\<dots> = A_buf s3 (be st (st - 1))" using len by (auto simp: A5 A4 be_iff)
    also have "\<dots> = A_buf s2 (be st (st - 1))" by (rule out3) (use len1 in auto)
    finally show ?thesis by (simp add: s' A2 rr1_def)
  qed
  show "\<forall>i. 1 \<le> i \<and> i \<le> ed - st \<longrightarrow> A_buf s' (be (st + i) (st - 1)) = 0"
  proof (intro allI impI)
    fix i assume i: "1 \<le> i \<and> i \<le> ed - st"
    have "A_buf s6 (be (st + i) (st - 1)) = A_buf s5 (be (st + i) (st - 1))"
      by (rule out6) (use i in auto)
    also have "\<dots> = A_buf s3 (be (st + i) (st - 1))" using len i by (auto simp: A5 A4 be_iff)
    also have "\<dots> = A_buf s2 (be (st + i) (st - 1))" by (rule out3) (use i in auto)
    also have "\<dots> = 0" using len i by (auto simp: A2 A1 be_iff)
    finally show "A_buf s' (be (st + i) (st - 1)) = 0" by (simp add: s')
  qed
  show "A_buf s' (be st st) = fst (type1_lower_right P nb lda st ed A0)"
  proof -
    have "A_buf s6 (be st st) = A_buf s5 (be st st)"
      by (rule out6) (use len1 in auto)
    then show ?thesis by (simp add: s' A5 rr2_def)
  qed
  show "\<forall>i. 1 \<le> i \<and> i \<le> ed - st \<longrightarrow> A_buf s' (be st (st + i)) = 0"
  proof (intro allI impI)
    fix i assume i: "1 \<le> i \<and> i \<le> ed - st"
    have "A_buf s6 (be st (st + i)) = A_buf s5 (be st (st + i))"
      by (rule out6) (use len1 in auto)
    also have "\<dots> = 0" using len i by (auto simp: A5 A4 be_iff)
    finally show "A_buf s' (be st (st + i)) = 0" by (simp add: s')
  qed
  show "\<forall>i j. 1 \<le> i \<and> i \<le> ed - st \<and> 0 \<le> j \<and> j \<le> ed - st \<longrightarrow>
           A_buf s' (be (st + i) (st + j)) = type1_lower_final P nb lda st ed A0 (i - 1) j"
  proof (intro allI impI)
    fix i j assume h: "1 \<le> i \<and> i \<le> ed - st \<and> 0 \<le> j \<and> j \<le> ed - st"
    have "A_buf s6 (be (st + 1 + (i - 1)) (st + j)) = D (i - 1) j"
      by (rule A6in) (use h len in auto)
    then show "A_buf s' (be (st + i) (st + j)) = type1_lower_final P nb lda st ed A0 (i - 1) j"
      by (simp add: s' D_def)
  qed
  show "\<forall>a. (\<forall>i. 0 \<le> i \<and> i \<le> ed - st \<longrightarrow> a \<noteq> be (st + i) (st - 1)) \<and>
             (\<forall>i j. 0 \<le> i \<and> i \<le> ed - st \<and> 0 \<le> j \<and> j \<le> ed - st \<longrightarrow>
                 a \<noteq> be (st + i) (st + j)) \<longrightarrow> A_buf s' a = A0 a"
  proof (intro allI impI)
    fix a
    assume h: "(\<forall>i. 0 \<le> i \<and> i \<le> ed - st \<longrightarrow> a \<noteq> be (st + i) (st - 1)) \<and>
             (\<forall>i j. 0 \<le> i \<and> i \<le> ed - st \<and> 0 \<le> j \<and> j \<le> ed - st \<longrightarrow>
                 a \<noteq> be (st + i) (st + j))"
    then have col: "\<And>i. 0 \<le> i \<Longrightarrow> i < len \<Longrightarrow> a \<noteq> be (st + i) (st - 1)"
      and blk: "\<And>i j. 0 \<le> i \<Longrightarrow> i < len \<Longrightarrow> 0 \<le> j \<Longrightarrow> j < len \<Longrightarrow> a \<noteq> be (st + i) (st + j)"
      using len(4) by auto
    have "A_buf s6 a = A_buf s5 a"
    proof (rule A6out, intro allI impI)
      fix i j assume "0 \<le> i \<and> i < len - 1 \<and> 0 \<le> j \<and> j < len"
      then show "a \<noteq> be (st + 1 + i) (st + j)" using blk[of "1 + i" j] by (simp add: add.assoc)
    qed
    also have "\<dots> = A_buf s3 a"
    proof -
      have n4: "\<not> (\<exists>k. 1 \<le> k \<and> k < len \<and> a = be st (st + k))"
        using blk[of 0] len by auto
      have n5: "a \<noteq> be st st" using blk[of 0 0] len by simp
      show ?thesis by (simp add: A5 A4 n4 n5)
    qed
    also have "\<dots> = A_buf s2 a" by (rule A3out) (use blk in auto)
    also have "\<dots> = A0 a"
    proof -
      have n1: "\<not> (\<exists>k. 1 \<le> k \<and> k < len \<and> a = be (st + k) (st - 1))"
        using col by auto
      have n2: "a \<noteq> be st (st - 1)" using col[of 0] len by simp
      show ?thesis by (simp add: A2 A1 n1 n2)
    qed
    finally show "A_buf s' a = A0 a" by (simp add: s')
  qed
  show "slot_holds (VQ_buf s') vpos (ed - st + 1) (fst (snd (type1_lower_left P nb lda st ed A0)))"
    using VQ2slot by (simp add: s' o6 rr1_def len_def)
  show "TAUQ_buf s' = (TAUQ_buf s)(taupos := snd (snd (type1_lower_left P nb lda st ed A0)))"
    by (simp add: s' o6 TAUQ2 rr1_def)
  show "slot_holds (VP_buf s') vpos (ed - st + 1) (fst (snd (type1_lower_right P nb lda st ed A0)))"
    using VP5slot by (simp add: s' o6 rr2_def len_def)
  show "TAUP_buf s' = (TAUP_buf s)(taupos := snd (snd (type1_lower_right P nb lda st ed A0)))"
    by (simp add: s' o6 TAUP5 rr2_def)
  show "\<forall>a. a < vpos \<or> vpos + (ed - st + 1) \<le> a \<longrightarrow>
           VP_buf s' a = VP_buf s a \<and> VQ_buf s' a = VQ_buf s a"
    using VQ2out VP5out by (simp add: s' o6 len_def)
qed

subsection \<open>The window of a type-1 call\<close>

lemma zgbtype1cb_at_steps:
  "zgbtype1cb_at P uplo nb lda st ed vpos taupos s =
     (if uplo = CoreBlasUpper then type1_upper_steps P nb lda st ed vpos taupos s
      else type1_lower_steps P nb lda st ed vpos taupos s)"
  by (simp add: zgbtype1cb_at_def type1_upper_refines type1_lower_refines)

lemma type1_at_effect:
  fixes P :: lapack and uplo :: coreblas_enum and nb lda st ed vpos taupos :: int
    and s :: bulge_state
  assumes "st \<le> ed" and "ed - st + 1 \<le> nb" and "3 * nb + 1 \<le> lda"
  defines "s' \<equiv> zgbtype1cb_at P uplo nb lda st ed vpos taupos s"
  shows "\<forall>a. (\<forall>i j. type1_window uplo st ed i j \<longrightarrow> a \<noteq> band_entry uplo nb lda i j) \<longrightarrow>
             A_buf s' a = A_buf s a"
    and "\<forall>k. 1 \<le> k \<and> k \<le> ed - st \<longrightarrow> A_buf s' (eliminated_entry uplo nb lda st k) = 0"
    and "\<forall>i j. type1_window uplo st ed i j \<and> \<not> in_band uplo nb i j \<and>
               A_buf s' (band_entry uplo nb lda i j) \<noteq> 0 \<longrightarrow> fill_triangle uplo st ed i j"
    and "slot_holds (VP_buf s') vpos (ed - st + 1)
           (fst (snd (type1_row_reflector P uplo nb lda st ed (A_buf s))))"
    and "TAUP_buf s' taupos = snd (snd (type1_row_reflector P uplo nb lda st ed (A_buf s)))"
    and "slot_holds (VQ_buf s') vpos (ed - st + 1)
           (fst (snd (type1_col_reflector P uplo nb lda st ed (A_buf s))))"
    and "TAUQ_buf s' taupos = snd (snd (type1_col_reflector P uplo nb lda st ed (A_buf s)))"
proof -
  have lda: "ed - st + 1 < lda - 1" using assms(1-3) by simp
  show "\<forall>a. (\<forall>i j. type1_window uplo st ed i j \<longrightarrow> a \<noteq> band_entry uplo nb lda i j) \<longrightarrow>
             A_buf s' a = A_buf s a"
  proof (intro allI impI)
    fix a assume h: "\<forall>i j. type1_window uplo st ed i j \<longrightarrow> a \<noteq> band_entry uplo nb lda i j"
    show "A_buf s' a = A_buf s a"
    proof (cases "uplo = CoreBlasUpper")
      case True
      have "(\<forall>i. 0 \<le> i \<and> i \<le> ed - st \<longrightarrow> a \<noteq> band_entry CoreBlasUpper nb lda (st - 1) (st + i)) \<and>
            (\<forall>i j. 0 \<le> i \<and> i \<le> ed - st \<and> 0 \<le> j \<and> j \<le> ed - st \<longrightarrow>
                a \<noteq> band_entry CoreBlasUpper nb lda (st + i) (st + j))"
        using h True by (auto simp: type1_window_def)
      with type1_upper_sem(6)[OF assms(1) lda, where nb=nb and P=P and vpos=vpos and taupos=taupos and s=s]
      show ?thesis by (simp add: s'_def zgbtype1cb_at_steps True)
    next
      case False
      have "(\<forall>i. 0 \<le> i \<and> i \<le> ed - st \<longrightarrow> a \<noteq> band_entry CoreBlasLower nb lda (st + i) (st - 1)) \<and>
            (\<forall>i j. 0 \<le> i \<and> i \<le> ed - st \<and> 0 \<le> j \<and> j \<le> ed - st \<longrightarrow>
                a \<noteq> band_entry CoreBlasLower nb lda (st + i) (st + j))"
        using h False by (auto simp: type1_window_def band_entry_def)
      with type1_lower_sem(6)[OF assms(1) lda, where nb=nb and P=P and vpos=vpos and taupos=taupos and s=s]
      show ?thesis by (simp add: s'_def zgbtype1cb_at_steps False)
    qed
  qed
  show elim: "\<forall>k. 1 \<le> k \<and> k \<le> ed - st \<longrightarrow> A_buf s' (eliminated_entry uplo nb lda st k) = 0"
  proof (cases "uplo = CoreBlasUpper")
    case True
    with type1_upper_sem(2)[OF assms(1) lda, where nb=nb and P=P and vpos=vpos and taupos=taupos and s=s]
    show ?thesis by (simp add: s'_def zgbtype1cb_at_steps eliminated_entry_def)
  next
    case False
    with type1_lower_sem(2)[OF assms(1) lda, where nb=nb and P=P and vpos=vpos and taupos=taupos and s=s]
    show ?thesis by (simp add: s'_def zgbtype1cb_at_steps eliminated_entry_def band_entry_def)
  qed
  show "\<forall>i j. type1_window uplo st ed i j \<and> \<not> in_band uplo nb i j \<and>
               A_buf s' (band_entry uplo nb lda i j) \<noteq> 0 \<longrightarrow> fill_triangle uplo st ed i j"
  proof (intro allI impI)
    fix i j
    assume h: "type1_window uplo st ed i j \<and> \<not> in_band uplo nb i j \<and>
               A_buf s' (band_entry uplo nb lda i j) \<noteq> 0"
    show "fill_triangle uplo st ed i j"
    proof (cases "uplo = CoreBlasUpper")
      case True
      from h True assms(1,2) have w: "st \<le> i" "i \<le> ed" "st \<le> j" "j \<le> ed" "j < i"
        by (auto simp: type1_window_def in_band_def)
      have "j \<noteq> st"
      proof
        assume "j = st"
        with type1_upper_sem(4)[OF assms(1) lda, where nb=nb and P=P and vpos=vpos and taupos=taupos and s=s, rule_format, of "i - st"] w
        have "A_buf s' (band_entry uplo nb lda i j) = 0"
          by (simp add: s'_def zgbtype1cb_at_steps True)
        with h show False by simp
      qed
      with w True show ?thesis by (simp add: fill_triangle_def)
    next
      case False
      from h False assms(1,2) have w: "st \<le> i" "i \<le> ed" "st \<le> j" "j \<le> ed" "i < j"
        by (auto simp: type1_window_def in_band_def)
      have "i \<noteq> st"
      proof
        assume "i = st"
        with type1_lower_sem(4)[OF assms(1) lda, where nb=nb and P=P and vpos=vpos and taupos=taupos and s=s, rule_format, of "j - st"] w
        have "A_buf s' (band_entry uplo nb lda i j) = 0"
          by (simp add: s'_def zgbtype1cb_at_steps False band_entry_def)
        with h show False by simp
      qed
      with w False show ?thesis by (simp add: fill_triangle_def)
    qed
  qed
  show "slot_holds (VP_buf s') vpos (ed - st + 1)
           (fst (snd (type1_row_reflector P uplo nb lda st ed (A_buf s))))"
    using type1_upper_sem(7)[OF assms(1) lda, where nb=nb and P=P and vpos=vpos and taupos=taupos and s=s]
      type1_lower_sem(9)[OF assms(1) lda, where nb=nb and P=P and vpos=vpos and taupos=taupos and s=s]
    by (simp add: s'_def zgbtype1cb_at_steps type1_row_reflector_def)
  show "TAUP_buf s' taupos = snd (snd (type1_row_reflector P uplo nb lda st ed (A_buf s)))"
    using type1_upper_sem(8)[OF assms(1) lda, where nb=nb and P=P and vpos=vpos and taupos=taupos and s=s]
      type1_lower_sem(10)[OF assms(1) lda, where nb=nb and P=P and vpos=vpos and taupos=taupos and s=s]
    by (simp add: s'_def zgbtype1cb_at_steps type1_row_reflector_def)
  show "slot_holds (VQ_buf s') vpos (ed - st + 1)
           (fst (snd (type1_col_reflector P uplo nb lda st ed (A_buf s))))"
    using type1_upper_sem(9)[OF assms(1) lda, where nb=nb and P=P and vpos=vpos and taupos=taupos and s=s]
      type1_lower_sem(7)[OF assms(1) lda, where nb=nb and P=P and vpos=vpos and taupos=taupos and s=s]
    by (simp add: s'_def zgbtype1cb_at_steps type1_col_reflector_def)
  show "TAUQ_buf s' taupos = snd (snd (type1_col_reflector P uplo nb lda st ed (A_buf s)))"
    using type1_upper_sem(10)[OF assms(1) lda, where nb=nb and P=P and vpos=vpos and taupos=taupos and s=s]
      type1_lower_sem(8)[OF assms(1) lda, where nb=nb and P=P and vpos=vpos and taupos=taupos and s=s]
    by (simp add: s'_def zgbtype1cb_at_steps type1_col_reflector_def)
qed

lemma band_entry_not_upper:
  "uplo \<noteq> CoreBlasUpper \<Longrightarrow> band_entry uplo nb lda = band_entry CoreBlasLower nb lda"
  by (intro ext) (simp add: band_entry_def)

lemma zgbtype2cb_pending_steps:
  "zgbtype2cb_pending P uplo n nb lda st ed vpos taupos s =
     type2_pending_steps P uplo n nb lda st ed vpos taupos s"
  by (simp add: zgbtype2cb_pending_def type2_pending_steps_def Let_def
      zgbtype2cb_upper_pending_def zgbtype2cb_lower_pending_def AU_band AL_band
      apply_left_at_band apply_right_at_band)






lemma ex_vtpos: "bulge_vtpos no_findVTpos 0 5 4 1 0 p = (5 + p, 5 + p)"
  by (simp add: bulge_vtpos_def smod_int_alt_def sgn_if)

lemma ex_band_clean: "band_clean CoreBlasUpper 5 4 13 (A_buf bulge_example)"
  unfolding band_clean_def
proof (intro ballI)
  fix i j :: int assume "i \<in> {0..<5}" "j \<in> {0..<5}"
  then have b: "0 \<le> i" "i < 5" "0 \<le> j" "j < 5" by auto
  have a: "band_entry CoreBlasUpper 4 13 i j = 8 + 12 * j + i"
    by (simp add: band_entry_def AU_def)
  show "in_band CoreBlasUpper 4 i j \<or> A_buf bulge_example (band_entry CoreBlasUpper 4 13 i j) = 0"
    unfolding a ex_A0 in_band_def using b by (simp, presburger)
qed

lemma ex_type1_entries:
  "A_buf (zgbtype1cb_at lapack_exact CoreBlasUpper 4 13 1 4 6 6 bulge_example)
     (band_entry CoreBlasUpper 4 13 3 2) = - 4 / 9"
  "A_buf (zgbtype1cb_at lapack_exact CoreBlasUpper 4 13 1 4 6 6 bulge_example)
     (band_entry CoreBlasUpper 4 13 4 2) = - 4 / 9"
proof -
  have v: "(1::int) \<le> 4" "(4::int) - 1 + 1 < 13 - 1" by simp_all
  note sem = type1_upper_sem(5)[OF v, where P=lapack_exact and nb=4 and vpos=6 and taupos=6
      and s=bulge_example, rule_format]
  from sem[of 2 1] sem[of 3 1]
  show "A_buf (zgbtype1cb_at lapack_exact CoreBlasUpper 4 13 1 4 6 6 bulge_example)
     (band_entry CoreBlasUpper 4 13 3 2) = - 4 / 9"
    "A_buf (zgbtype1cb_at lapack_exact CoreBlasUpper 4 13 1 4 6 6 bulge_example)
     (band_entry CoreBlasUpper 4 13 4 2) = - 4 / 9"
    by (simp_all add: zgbtype1cb_at_steps ex_final)
qed

text \<open>
  Claim C1, as stated, fails. The call below is a valid upper type-1 call
  (\<open>n = 5\<close>, \<open>nb = 4\<close>, \<open>lda = 13\<close>, \<open>st = 1\<close>, \<open>ed = 4\<close>, first sweep, values only) on a buffer
  that is zero outside the band. After it the entries \<open>(3, 2)\<close> and \<open>(4, 2)\<close>, both below
  the diagonal and so outside the band of the upper triangle, both hold \<open>-4/9\<close>: more
  than one entry outside the band is nonzero, and neither lies in the block
  \<open>[st, ed] x [J1, J2]\<close> that the following type-2 call works on.
\<close>

theorem type1_leaves_fill_example:
  "band_clean CoreBlasUpper 5 4 13 (A_buf bulge_example) \<and>
   \<not> in_band CoreBlasUpper 4 3 2 \<and> \<not> in_band CoreBlasUpper 4 4 2 \<and>
   A_buf (coreblas_zgbtype1cb lapack_exact no_findVTpos CoreBlasUpper 5 4 13 1 4 0 1 0
            bulge_example) (band_entry CoreBlasUpper 4 13 3 2) = - 4 / 9 \<and>
   A_buf (coreblas_zgbtype1cb lapack_exact no_findVTpos CoreBlasUpper 5 4 13 1 4 0 1 0
            bulge_example) (band_entry CoreBlasUpper 4 13 4 2) = - 4 / 9"
  by (simp add: ex_band_clean in_band_def zgbtype1cb_eq_at ex_vtpos ex_type1_entries)

text \<open>
  Claim C1, amended. For every type-1 call with \<open>st \<le> ed\<close>, \<open>ed - st + 1 \<le> nb\<close> and
  \<open>lda \<ge> 3 * nb + 1\<close>, in either case of \<open>uplo\<close>: every offset of \<open>A\<close> outside the window of
  the call keeps its value; the \<open>len - 1\<close> entries of row or column \<open>st - 1\<close> past the pivot
  are exactly zero; an entry of the window that is outside the band and nonzero lies in
  the fill triangle of the diagonal block, which has \<open>(len - 1) * (len - 2) / 2\<close> entries
  and is left to later calls; and both reflectors are written in full, the slot at
  \<open>vpos\<close> of \<open>VP\<close> and of \<open>VQ\<close> holding the unit head and the entries \<open>zlarfg\<close> returned,
  \<open>TAUP[taupos]\<close> and \<open>TAUQ[taupos]\<close> its scalars.
\<close>

theorem type1_window_effect:
  fixes P :: lapack and uplo :: coreblas_enum and n nb lda st ed sweep Vblksiz wantz :: int
    and s :: bulge_state
  assumes "st \<le> ed" and "ed - st + 1 \<le> nb" and "3 * nb + 1 \<le> lda"
    and "bulge_vtpos fv wantz n nb Vblksiz sweep st = (vpos, taupos)"
  defines "s' \<equiv> coreblas_zgbtype1cb P fv uplo n nb lda st ed sweep Vblksiz wantz s"
  shows "(\<forall>a. (\<forall>i j. type1_window uplo st ed i j \<longrightarrow> a \<noteq> band_entry uplo nb lda i j) \<longrightarrow>
             A_buf s' a = A_buf s a) \<and>
         (\<forall>k. 1 \<le> k \<and> k \<le> ed - st \<longrightarrow> A_buf s' (eliminated_entry uplo nb lda st k) = 0) \<and>
         (\<forall>i j. type1_window uplo st ed i j \<and> \<not> in_band uplo nb i j \<and>
               A_buf s' (band_entry uplo nb lda i j) \<noteq> 0 \<longrightarrow> fill_triangle uplo st ed i j) \<and>
         slot_holds (VP_buf s') vpos (ed - st + 1)
           (fst (snd (type1_row_reflector P uplo nb lda st ed (A_buf s)))) \<and>
         TAUP_buf s' taupos = snd (snd (type1_row_reflector P uplo nb lda st ed (A_buf s))) \<and>
         slot_holds (VQ_buf s') vpos (ed - st + 1)
           (fst (snd (type1_col_reflector P uplo nb lda st ed (A_buf s)))) \<and>
         TAUQ_buf s' taupos = snd (snd (type1_col_reflector P uplo nb lda st ed (A_buf s)))"
proof -
  have s': "s' = zgbtype1cb_at P uplo nb lda st ed vpos taupos s"
    by (simp add: s'_def zgbtype1cb_eq_at assms(4))
  show ?thesis
    unfolding s'
    by (intro conjI type1_at_effect[OF assms(1-3)])
qed

theorem type1_window_effect_witness:
  "(1::int) \<le> 4 \<and> (4::int) - 1 + 1 \<le> 4 \<and> (3::int) * 4 + 1 \<le> 13 \<and>
   bulge_vtpos no_findVTpos 0 5 4 1 0 1 = (6, 6) \<and>
   A_buf (coreblas_zgbtype1cb lapack_exact no_findVTpos CoreBlasUpper 5 4 13 1 4 0 1 0
            bulge_example) (band_entry CoreBlasUpper 4 13 0 2) = 0 \<and>
   VP_buf (coreblas_zgbtype1cb lapack_exact no_findVTpos CoreBlasUpper 5 4 13 1 4 0 1 0
            bulge_example) 6 = 1 \<and>
   VP_buf (coreblas_zgbtype1cb lapack_exact no_findVTpos CoreBlasUpper 5 4 13 1 4 0 1 0
            bulge_example) 7 = 1 / 3 \<and>
   TAUP_buf (coreblas_zgbtype1cb lapack_exact no_findVTpos CoreBlasUpper 5 4 13 1 4 0 1 0
            bulge_example) 6 = 1 \<and>
   VQ_buf (coreblas_zgbtype1cb lapack_exact no_findVTpos CoreBlasUpper 5 4 13 1 4 0 1 0
            bulge_example) 7 = - 1 / 3 \<and>
   TAUQ_buf (coreblas_zgbtype1cb lapack_exact no_findVTpos CoreBlasUpper 5 4 13 1 4 0 1 0
            bulge_example) 6 = 1"
proof -
  have v: "(1::int) \<le> 4" "(4::int) - 1 + 1 \<le> 4" "(3::int) * 4 + 1 \<le> 13"
    "bulge_vtpos no_findVTpos 0 5 4 1 0 1 = (6, 6)"
    by (simp_all add: ex_vtpos)
  note w = type1_window_effect[OF v, where P=lapack_exact and uplo=CoreBlasUpper
      and s=bulge_example, unfolded slot_holds_def]
  note r = w[THEN conjunct2, THEN conjunct2, THEN conjunct2]
  note z = w[THEN conjunct2, THEN conjunct1, rule_format, of 1]
  note vp0 = r[THEN conjunct1, THEN conjunct1]
  note vp1 = r[THEN conjunct1, THEN conjunct2, rule_format, of 1]
  note taup = r[THEN conjunct2, THEN conjunct1]
  note vq1 = r[THEN conjunct2, THEN conjunct2, THEN conjunct1, THEN conjunct2, rule_format, of 1]
  note tauq = r[THEN conjunct2, THEN conjunct2, THEN conjunct2]
  from z vp0 vp1 taup vq1 tauq show ?thesis
    by (simp add: v eliminated_entry_def type1_row_reflector_def type1_col_reflector_def
        ex_right ex_left)
qed

subsection \<open>The sequence of the upper type-1 kernel\<close>

text \<open>
  Claim C3. In the upper case \<open>coreblas_zgbtype1cb\<close> is the sequence of steps
  \<open>type1_upper_steps\<close>: gather row \<open>st - 1\<close>, columns \<open>st + 1..ed\<close>, conjugated, into \<open>VP\<close> and
  zero it; generate the right reflector, which puts \<open>beta\<close> on the pivot \<open>(st - 1, st)\<close> and
  \<open>tau\<close> in \<open>TAUP\<close>; apply it from the right to the \<open>len\<close>-by-\<open>len\<close> block at \<open>(st, st)\<close>;
  gather the column below \<open>(st, st)\<close> into \<open>VQ\<close>, zero it and generate the left reflector;
  apply that from the left to the \<open>len\<close>-by-\<open>len - 1\<close> block at \<open>(st, st + 1)\<close>. For
  \<open>st \<le> ed\<close> and \<open>len < lda - 1\<close> the buffers after the call hold exactly the values of
  these steps.
\<close>

theorem type1_upper_sequence:
  fixes P :: lapack and fv :: findVTpos and n nb lda st ed sweep Vblksiz wantz :: int
    and s :: bulge_state
  defines "vpos \<equiv> fst (bulge_vtpos fv wantz n nb Vblksiz sweep st)"
  defines "taupos \<equiv> snd (bulge_vtpos fv wantz n nb Vblksiz sweep st)"
  defines "s' \<equiv> coreblas_zgbtype1cb P fv CoreBlasUpper n nb lda st ed sweep Vblksiz wantz s"
  shows "s' = type1_upper_steps P nb lda st ed vpos taupos s \<and>
         (st \<le> ed \<and> ed - st + 1 < lda - 1 \<longrightarrow>
            slot_holds (VP_buf s') vpos (ed - st + 1)
              (fst (snd (type1_upper_right P nb lda st ed (A_buf s)))) \<and>
            TAUP_buf s' taupos = snd (snd (type1_upper_right P nb lda st ed (A_buf s))) \<and>
            A_buf s' (AU nb lda (st - 1) st) = fst (type1_upper_right P nb lda st ed (A_buf s)) \<and>
            (\<forall>i. 1 \<le> i \<and> i \<le> ed - st \<longrightarrow> A_buf s' (AU nb lda (st - 1) (st + i)) = 0) \<and>
            slot_holds (VQ_buf s') vpos (ed - st + 1)
              (fst (snd (type1_upper_left P nb lda st ed (A_buf s)))) \<and>
            TAUQ_buf s' taupos = snd (snd (type1_upper_left P nb lda st ed (A_buf s))) \<and>
            A_buf s' (AU nb lda st st) = fst (type1_upper_left P nb lda st ed (A_buf s)) \<and>
            (\<forall>i. 1 \<le> i \<and> i \<le> ed - st \<longrightarrow> A_buf s' (AU nb lda (st + i) st) = 0) \<and>
            (\<forall>i j. 0 \<le> i \<and> i \<le> ed - st \<and> 1 \<le> j \<and> j \<le> ed - st \<longrightarrow>
               A_buf s' (AU nb lda (st + i) (st + j)) =
                 type1_upper_final P nb lda st ed (A_buf s) i (j - 1)))"
proof -
  have s': "s' = type1_upper_steps P nb lda st ed vpos taupos s"
    by (simp add: s'_def vpos_def taupos_def zgbtype1cb_eq_at zgbtype1cb_at_steps)
  show ?thesis
  proof (intro conjI impI)
    show "s' = type1_upper_steps P nb lda st ed vpos taupos s" by (rule s')
  next
    assume h: "st \<le> ed \<and> ed - st + 1 < lda - 1"
    then have v: "st \<le> ed" "ed - st + 1 < lda - 1" by simp_all
    note sem = type1_upper_sem[OF v, where P=P and nb=nb and vpos=vpos and taupos=taupos
        and s=s, folded s', unfolded AU_band[symmetric]]
    show "slot_holds (VP_buf s') vpos (ed - st + 1)
              (fst (snd (type1_upper_right P nb lda st ed (A_buf s))))" by (rule sem(7))
    show "TAUP_buf s' taupos = snd (snd (type1_upper_right P nb lda st ed (A_buf s)))"
      by (simp add: sem(8))
    show "A_buf s' (AU nb lda (st - 1) st) = fst (type1_upper_right P nb lda st ed (A_buf s))"
      by (rule sem(1))
    show "\<forall>i. 1 \<le> i \<and> i \<le> ed - st \<longrightarrow> A_buf s' (AU nb lda (st - 1) (st + i)) = 0"
      by (rule sem(2))
    show "slot_holds (VQ_buf s') vpos (ed - st + 1)
              (fst (snd (type1_upper_left P nb lda st ed (A_buf s))))" by (rule sem(9))
    show "TAUQ_buf s' taupos = snd (snd (type1_upper_left P nb lda st ed (A_buf s)))"
      by (simp add: sem(10))
    show "A_buf s' (AU nb lda st st) = fst (type1_upper_left P nb lda st ed (A_buf s))"
      by (rule sem(3))
    show "\<forall>i. 1 \<le> i \<and> i \<le> ed - st \<longrightarrow> A_buf s' (AU nb lda (st + i) st) = 0"
      by (rule sem(4))
    show "\<forall>i j. 0 \<le> i \<and> i \<le> ed - st \<and> 1 \<le> j \<and> j \<le> ed - st \<longrightarrow>
               A_buf s' (AU nb lda (st + i) (st + j)) =
                 type1_upper_final P nb lda st ed (A_buf s) i (j - 1)"
      by (rule sem(5))
  qed
qed

theorem type1_upper_sequence_witness:
  "coreblas_zgbtype1cb lapack_exact no_findVTpos CoreBlasUpper 5 4 13 1 4 0 1 0 bulge_example =
     type1_upper_steps lapack_exact 4 13 1 4 6 6 bulge_example \<and>
   (1::int) \<le> 4 \<and> (4::int) - 1 + 1 < 13 - 1 \<and>
   TAUP_buf (coreblas_zgbtype1cb lapack_exact no_findVTpos CoreBlasUpper 5 4 13 1 4 0 1 0
               bulge_example) 6 = 1 \<and>
   A_buf (coreblas_zgbtype1cb lapack_exact no_findVTpos CoreBlasUpper 5 4 13 1 4 0 1 0
               bulge_example) (AU 4 13 0 1) = - 3 \<and>
   A_buf (coreblas_zgbtype1cb lapack_exact no_findVTpos CoreBlasUpper 5 4 13 1 4 0 1 0
               bulge_example) (AU 4 13 0 3) = 0 \<and>
   TAUQ_buf (coreblas_zgbtype1cb lapack_exact no_findVTpos CoreBlasUpper 5 4 13 1 4 0 1 0
               bulge_example) 6 = 1 \<and>
   A_buf (coreblas_zgbtype1cb lapack_exact no_findVTpos CoreBlasUpper 5 4 13 1 4 0 1 0
               bulge_example) (AU 4 13 2 1) = 0 \<and>
   A_buf (coreblas_zgbtype1cb lapack_exact no_findVTpos CoreBlasUpper 5 4 13 1 4 0 1 0
               bulge_example) (AU 4 13 3 2) = - 4 / 9"
proof -
  note w = type1_upper_sequence[where P=lapack_exact and fv=no_findVTpos and n=5 and nb=4
      and lda=13 and st=1 and ed=4 and sweep=0 and Vblksiz=1 and wantz=0 and s=bulge_example,
      unfolded ex_vtpos fst_conv snd_conv]
  have v: "(1::int) \<le> 4 \<and> (4::int) - 1 + 1 < 13 - 1" by simp
  note e = w[THEN conjunct1]
  note r = w[THEN conjunct2, rule_format, OF v]
  note taup = r[THEN conjunct2, THEN conjunct1]
  note piv = r[THEN conjunct2, THEN conjunct2, THEN conjunct1]
  note z1 = r[THEN conjunct2, THEN conjunct2, THEN conjunct2, THEN conjunct1, rule_format, of 2]
  note r5 = r[THEN conjunct2, THEN conjunct2, THEN conjunct2, THEN conjunct2, THEN conjunct2]
  note tauq = r5[THEN conjunct1]
  note z2 = r5[THEN conjunct2, THEN conjunct2, THEN conjunct1, rule_format, of 1]
  note d = r5[THEN conjunct2, THEN conjunct2, THEN conjunct2, rule_format, of 2 1]
  from e taup piv z1 tauq z2 d show ?thesis
    by (simp add: ex_right ex_left ex_final)
qed

subsection \<open>The pending reflector of the type-2 kernel\<close>

lemma type2_pending_store:
  "VQ_buf (type2_pending_steps P uplo n nb lda st ed vpos taupos s) = VQ_buf s \<and>
   TAUQ_buf (type2_pending_steps P uplo n nb lda st ed vpos taupos s) = TAUQ_buf s \<and>
   VP_buf (type2_pending_steps P uplo n nb lda st ed vpos taupos s) = VP_buf s \<and>
   TAUP_buf (type2_pending_steps P uplo n nb lda st ed vpos taupos s) = TAUP_buf s"
  by (simp add: type2_pending_steps_def Let_def apply_left_eq apply_right_eq)

lemma type2_pending_frame:
  assumes "\<forall>i j. st \<le> i \<and> i \<le> ed \<and> ed + 1 \<le> j \<and> j \<le> imin (ed + nb) (n - 1) \<longrightarrow>
             a \<noteq> rectangle_entry uplo nb lda i j"
  shows "A_buf (type2_pending_steps P uplo n nb lda st ed vpos taupos s) a = A_buf s a"
proof (cases "uplo = CoreBlasUpper")
  case True
  have "block_write CoreBlasUpper nb lda (A_buf s) st (ed + 1) (ed - st + 1)
          (imin (ed + nb) (n - 1) - (ed + 1) + 1) C a = A_buf s a" for C
  proof (rule block_write_frame, intro allI impI)
    fix i j
    assume h: "0 \<le> i \<and> i < ed - st + 1 \<and> 0 \<le> j \<and> j < imin (ed + nb) (n - 1) - (ed + 1) + 1"
    with assms[rule_format, of "st + i" "ed + 1 + j"] True
    show "a \<noteq> band_entry CoreBlasUpper nb lda (st + i) (ed + 1 + j)"
      by (simp add: rectangle_entry_def)
  qed
  with True show ?thesis by (simp add: type2_pending_steps_def Let_def apply_left_eq)
next
  case False
  have "block_write CoreBlasLower nb lda (A_buf s) (ed + 1) st
          (imin (ed + nb) (n - 1) - (ed + 1) + 1) (ed - st + 1) C a = A_buf s a" for C
  proof (rule block_write_frame, intro allI impI)
    fix i j
    assume h: "0 \<le> i \<and> i < imin (ed + nb) (n - 1) - (ed + 1) + 1 \<and> 0 \<le> j \<and> j < ed - st + 1"
    with assms[rule_format, of "st + j" "ed + 1 + i"] False
    show "a \<noteq> band_entry CoreBlasLower nb lda (ed + 1 + i) (st + j)"
      by (simp add: rectangle_entry_def)
  qed
  with False show ?thesis by (simp add: type2_pending_steps_def Let_def apply_right_eq)
qed

lemma type2_pending_value:
  assumes "ed - st + 1 \<le> lda - 1" and "imin (ed + nb) (n - 1) - (ed + 1) + 1 \<le> lda - 1"
    and "st \<le> i" "i \<le> ed" "ed + 1 \<le> j" "j \<le> imin (ed + nb) (n - 1)"
  shows "A_buf (type2_pending_steps P uplo n nb lda st ed vpos taupos s)
           (rectangle_entry uplo nb lda i j) =
         type2_pending_block P uplo n nb lda st ed vpos taupos s (i - st) (j - (ed + 1))"
proof (cases "uplo = CoreBlasUpper")
  case True
  have "block_write CoreBlasUpper nb lda (A_buf s) st (ed + 1) (ed - st + 1)
          (imin (ed + nb) (n - 1) - (ed + 1) + 1) C
          (band_entry CoreBlasUpper nb lda (st + (i - st)) (ed + 1 + (j - (ed + 1))))
        = C (i - st) (j - (ed + 1))" for C
    by (rule block_write_value) (use assms in auto)
  with True show ?thesis
    by (simp add: type2_pending_steps_def type2_pending_block_def Let_def apply_left_eq
        rectangle_entry_def)
next
  case False
  have "block_write CoreBlasLower nb lda (A_buf s) (ed + 1) st
          (imin (ed + nb) (n - 1) - (ed + 1) + 1) (ed - st + 1) C
          (band_entry CoreBlasLower nb lda (ed + 1 + (j - (ed + 1))) (st + (i - st)))
        = C (j - (ed + 1)) (i - st)" for C
    by (rule block_write_value) (use assms in auto)
  with False show ?thesis
    by (simp add: type2_pending_steps_def type2_pending_block_def Let_def apply_right_eq
        rectangle_entry_def)
qed


text \<open>
  Claim C4. When the next block is not empty, \<open>coreblas_zgbtype2cb\<close> starts with
  \<open>type2_pending_steps\<close> at the slot of \<open>(sweep, st)\<close>, and only then, if the block has
  more than one column, runs the block that generates a reflector. The first step
  leaves \<open>VQ\<close>, \<open>TAUQ\<close>, \<open>VP\<close>, \<open>TAUP\<close> as they are, changes no offset of \<open>A\<close> outside the
  rectangle \<open>[st, ed] x [J1, J2]\<close> (rows by columns in the upper case, columns by rows in
  the lower case) and, for sides below \<open>lda\<close>, gives each entry of the rectangle the
  entry \<open>zlarfx\<close> returns for the stored reflector: from the left with \<open>VQ\<close> and the
  conjugate of \<open>TAUQ\<close> in the upper case, from the right with \<open>VP\<close> and \<open>TAUP\<close> in the
  lower case.
\<close>

theorem type2_pending_first:
  fixes P :: lapack and fv :: findVTpos and uplo :: coreblas_enum
    and n nb lda st ed sweep Vblksiz wantz :: int and s :: bulge_state
  assumes "0 < next_block_len n nb ed"
  defines "vpos \<equiv> fst (bulge_vtpos fv wantz n nb Vblksiz sweep st)"
  defines "taupos \<equiv> snd (bulge_vtpos fv wantz n nb Vblksiz sweep st)"
  defines "s1 \<equiv> type2_pending_steps P uplo n nb lda st ed vpos taupos s"
  shows "coreblas_zgbtype2cb P fv uplo n nb lda st ed sweep Vblksiz wantz s =
           (if 1 < next_block_len n nb ed
            then zgbtype2cb_chase P uplo n nb lda st ed
                   (fst (bulge_vtpos fv wantz n nb Vblksiz sweep (ed + 1)))
                   (snd (bulge_vtpos fv wantz n nb Vblksiz sweep (ed + 1))) s1
            else s1) \<and>
         VQ_buf s1 = VQ_buf s \<and> TAUQ_buf s1 = TAUQ_buf s \<and>
         VP_buf s1 = VP_buf s \<and> TAUP_buf s1 = TAUP_buf s \<and>
         (\<forall>a. (\<forall>i j. st \<le> i \<and> i \<le> ed \<and> ed + 1 \<le> j \<and> j \<le> imin (ed + nb) (n - 1) \<longrightarrow>
                  a \<noteq> rectangle_entry uplo nb lda i j) \<longrightarrow> A_buf s1 a = A_buf s a) \<and>
         (ed - st + 1 \<le> lda - 1 \<and> next_block_len n nb ed \<le> lda - 1 \<longrightarrow>
            (\<forall>i j. st \<le> i \<and> i \<le> ed \<and> ed + 1 \<le> j \<and> j \<le> imin (ed + nb) (n - 1) \<longrightarrow>
               A_buf s1 (rectangle_entry uplo nb lda i j) =
                 type2_pending_block P uplo n nb lda st ed vpos taupos s (i - st) (j - (ed + 1))))"
proof (intro conjI allI impI)
  show "coreblas_zgbtype2cb P fv uplo n nb lda st ed sweep Vblksiz wantz s =
           (if 1 < next_block_len n nb ed
            then zgbtype2cb_chase P uplo n nb lda st ed
                   (fst (bulge_vtpos fv wantz n nb Vblksiz sweep (ed + 1)))
                   (snd (bulge_vtpos fv wantz n nb Vblksiz sweep (ed + 1))) s1
            else s1)"
    using assms(1)
    by (simp add: zgbtype2cb_eq_phases zgbtype2cb_pending_steps Let_def s1_def vpos_def
        taupos_def)
  show "VQ_buf s1 = VQ_buf s" "TAUQ_buf s1 = TAUQ_buf s" "VP_buf s1 = VP_buf s"
    "TAUP_buf s1 = TAUP_buf s"
    by (simp_all add: s1_def type2_pending_store)
next
  fix a
  assume "\<forall>i j. st \<le> i \<and> i \<le> ed \<and> ed + 1 \<le> j \<and> j \<le> imin (ed + nb) (n - 1) \<longrightarrow>
                  a \<noteq> rectangle_entry uplo nb lda i j"
  then show "A_buf s1 a = A_buf s a" unfolding s1_def by (rule type2_pending_frame)
next
  fix i j
  assume "ed - st + 1 \<le> lda - 1 \<and> next_block_len n nb ed \<le> lda - 1"
    and "st \<le> i \<and> i \<le> ed \<and> ed + 1 \<le> j \<and> j \<le> imin (ed + nb) (n - 1)"
  then show "A_buf s1 (rectangle_entry uplo nb lda i j) =
                 type2_pending_block P uplo n nb lda st ed vpos taupos s (i - st) (j - (ed + 1))"
    unfolding s1_def by (intro type2_pending_value) (simp_all add: next_block_len_def)
qed

lemma ex_next_block_len:
  "next_block_len 5 4 2 = 2" "next_block_len 5 4 3 = 1" "next_block_len 5 4 4 = 0"
  by (simp_all add: next_block_len_def imin_def)

theorem type2_pending_first_witness:
  "0 < next_block_len 5 4 2 \<and>
   coreblas_zgbtype2cb lapack_exact no_findVTpos CoreBlasUpper 5 4 13 1 2 0 1 0 bulge_example =
     zgbtype2cb_chase lapack_exact CoreBlasUpper 5 4 13 1 2 8 8
       (type2_pending_steps lapack_exact CoreBlasUpper 5 4 13 1 2 6 6 bulge_example) \<and>
   VQ_buf (type2_pending_steps lapack_exact CoreBlasUpper 5 4 13 1 2 6 6 bulge_example) =
     VQ_buf bulge_example \<and>
   TAUQ_buf (type2_pending_steps lapack_exact CoreBlasUpper 5 4 13 1 2 6 6 bulge_example) =
     TAUQ_buf bulge_example \<and>
   (2::int) - 1 + 1 \<le> 13 - 1 \<and> next_block_len 5 4 2 \<le> 13 - 1 \<and>
   A_buf (type2_pending_steps lapack_exact CoreBlasUpper 5 4 13 1 2 6 6 bulge_example)
     (rectangle_entry CoreBlasUpper 4 13 2 4) =
     type2_pending_block lapack_exact CoreBlasUpper 5 4 13 1 2 6 6 bulge_example 1 1"
proof -
  have v: "0 < next_block_len 5 4 2" by (simp add: ex_next_block_len)
  have u: "(2::int) - 1 + 1 \<le> 13 - 1 \<and> next_block_len 5 4 2 \<le> 13 - 1"
    by (simp add: ex_next_block_len)
  have b: "(1::int) \<le> 2 \<and> (2::int) \<le> 2 \<and> (2::int) + 1 \<le> 4 \<and> 4 \<le> imin (2 + 4) (5 - 1)"
    by (simp add: imin_def)
  note w = type2_pending_first[OF v, where P=lapack_exact and fv=no_findVTpos
      and uplo=CoreBlasUpper and lda=13 and st=1 and sweep=0 and Vblksiz=1 and wantz=0
      and s=bulge_example, unfolded ex_vtpos fst_conv snd_conv]
  note e = w[THEN conjunct1]
  note vq = w[THEN conjunct2, THEN conjunct1]
  note tq = w[THEN conjunct2, THEN conjunct2, THEN conjunct1]
  note r = w[THEN conjunct2, THEN conjunct2, THEN conjunct2, THEN conjunct2, THEN conjunct2,
      THEN conjunct2, rule_format, OF u b]
  from v u e vq tq r show ?thesis by (simp add: ex_next_block_len)
qed


lemma pingpong_slot_period: "pingpong_slot n (sweep + 2) p = pingpong_slot n sweep p"
proof -
  have "(sweep + 2 + 1) mod 2 = (sweep + 1) mod 2" by presburger
  then show ?thesis by (simp only: pingpong_slot_def)
qed

text \<open>
  Claim C2. With \<open>wantz = 0\<close> and a sweep number that is not negative, both kernels use
  the offset \<open>((sweep + 1) mod 2) * n + p\<close> for the vector and for the scalar: the type-1
  kernel and the first block of the type-2 kernel with \<open>p = st\<close>, the second block of the
  type-2 kernel with \<open>p = ed + 1\<close>. For \<open>0 \<le> p < n\<close> the offset lies in \<open>0..2n - 1\<close>, and
  it is the same two sweeps later.
\<close>

theorem values_only_slots:
  assumes "0 \<le> sweep"
  shows "coreblas_zgbtype1cb P fv uplo n nb lda st ed sweep Vblksiz 0 s =
           zgbtype1cb_at P uplo nb lda st ed
             (pingpong_slot n sweep st) (pingpong_slot n sweep st) s \<and>
         coreblas_zgbtype2cb P fv uplo n nb lda st ed sweep Vblksiz 0 s =
           (let s1 = (if next_block_len n nb ed > 0
                      then zgbtype2cb_pending P uplo n nb lda st ed
                             (pingpong_slot n sweep st) (pingpong_slot n sweep st) s
                      else s)
            in if next_block_len n nb ed > 1
               then zgbtype2cb_chase P uplo n nb lda st ed
                      (pingpong_slot n sweep (ed + 1)) (pingpong_slot n sweep (ed + 1)) s1
               else s1) \<and>
         (\<forall>p. 0 \<le> p \<and> p < n \<longrightarrow>
              0 \<le> pingpong_slot n sweep p \<and> pingpong_slot n sweep p < 2 * n) \<and>
         (\<forall>p. pingpong_slot n (sweep + 2) p = pingpong_slot n sweep p)"
  using pingpong_slot_range
  by (simp add: zgbtype1cb_eq_at zgbtype2cb_eq_phases vtpos_values_only[OF assms] Let_def
      pingpong_slot_period)

theorem values_only_slots_witness:
  "(0::int) \<le> 3 \<and>
   coreblas_zgbtype1cb lapack_exact no_findVTpos CoreBlasLower 5 4 13 1 4 3 1 0 bulge_example =
     zgbtype1cb_at lapack_exact CoreBlasLower 4 13 1 4 1 1 bulge_example \<and>
   coreblas_zgbtype2cb lapack_exact no_findVTpos CoreBlasLower 5 4 13 1 2 3 1 0 bulge_example =
     zgbtype2cb_chase lapack_exact CoreBlasLower 5 4 13 1 2 3 3
       (zgbtype2cb_pending lapack_exact CoreBlasLower 5 4 13 1 2 1 1 bulge_example) \<and>
   pingpong_slot 5 3 1 = 1 \<and> pingpong_slot 5 4 1 = 6 \<and> pingpong_slot 5 5 1 = 1"
proof -
  have v: "(0::int) \<le> 3" by simp
  have p: "pingpong_slot 5 3 q = q" for q by (simp add: pingpong_slot_def)
  note w1 = values_only_slots[OF v, where P=lapack_exact and fv=no_findVTpos
      and uplo=CoreBlasLower and n=5 and nb=4 and lda=13 and st=1 and ed=4 and Vblksiz=1
      and s=bulge_example, THEN conjunct1]
  note w2 = values_only_slots[OF v, where P=lapack_exact and fv=no_findVTpos
      and uplo=CoreBlasLower and n=5 and nb=4 and lda=13 and st=1 and ed=2 and Vblksiz=1
      and s=bulge_example, THEN conjunct2, THEN conjunct1]
  from w1 w2 show ?thesis
    by (simp add: p ex_next_block_len Let_def) (simp add: pingpong_slot_def)
qed


text \<open>
  Claim C5. In \<open>coreblas_zgbtype2cb\<close>, for either case of \<open>uplo\<close>: when the next block
  has length \<open>J2 - J1 + 1 \<le> 0\<close> the call returns the state it was given, all six arrays
  unchanged; when the length is one, the call is the pending application alone, and
  \<open>VQ\<close>, \<open>TAUQ\<close>, \<open>VP\<close>, \<open>TAUP\<close> are unchanged, so no reflector is generated or stored.
\<close>

theorem type2_guards:
  "(next_block_len n nb ed \<le> 0 \<longrightarrow>
      coreblas_zgbtype2cb P fv uplo n nb lda st ed sweep Vblksiz wantz s = s) \<and>
   (next_block_len n nb ed = 1 \<longrightarrow>
      coreblas_zgbtype2cb P fv uplo n nb lda st ed sweep Vblksiz wantz s =
        zgbtype2cb_pending P uplo n nb lda st ed
          (fst (bulge_vtpos fv wantz n nb Vblksiz sweep st))
          (snd (bulge_vtpos fv wantz n nb Vblksiz sweep st)) s \<and>
      VQ_buf (coreblas_zgbtype2cb P fv uplo n nb lda st ed sweep Vblksiz wantz s) = VQ_buf s \<and>
      TAUQ_buf (coreblas_zgbtype2cb P fv uplo n nb lda st ed sweep Vblksiz wantz s) = TAUQ_buf s \<and>
      VP_buf (coreblas_zgbtype2cb P fv uplo n nb lda st ed sweep Vblksiz wantz s) = VP_buf s \<and>
      TAUP_buf (coreblas_zgbtype2cb P fv uplo n nb lda st ed sweep Vblksiz wantz s) = TAUP_buf s)"
  by (simp add: zgbtype2cb_eq_phases pending_keeps_reflectors Let_def)

theorem type2_guards_witness:
  "next_block_len 5 4 4 \<le> 0 \<and>
   coreblas_zgbtype2cb lapack_exact no_findVTpos CoreBlasUpper 5 4 13 3 4 0 1 0 bulge_example =
     bulge_example \<and>
   next_block_len 5 4 3 = 1 \<and>
   coreblas_zgbtype2cb lapack_exact no_findVTpos CoreBlasLower 5 4 13 2 3 0 1 0 bulge_example =
     zgbtype2cb_pending lapack_exact CoreBlasLower 5 4 13 2 3 7 7 bulge_example \<and>
   VQ_buf (coreblas_zgbtype2cb lapack_exact no_findVTpos CoreBlasLower 5 4 13 2 3 0 1 0
             bulge_example) = VQ_buf bulge_example \<and>
   VP_buf (coreblas_zgbtype2cb lapack_exact no_findVTpos CoreBlasLower 5 4 13 2 3 0 1 0
             bulge_example) = VP_buf bulge_example"
proof -
  have a: "next_block_len 5 4 4 \<le> 0" and b: "next_block_len 5 4 3 = 1"
    by (simp_all add: ex_next_block_len)
  note w1 = type2_guards[where P=lapack_exact and fv=no_findVTpos and uplo=CoreBlasUpper
      and n=5 and nb=4 and lda=13 and st=3 and ed=4 and sweep=0 and Vblksiz=1 and wantz=0
      and s=bulge_example, THEN conjunct1, rule_format, OF a]
  note w2 = type2_guards[where P=lapack_exact and fv=no_findVTpos and uplo=CoreBlasLower
      and n=5 and nb=4 and lda=13 and st=2 and ed=3 and sweep=0 and Vblksiz=1 and wantz=0
      and s=bulge_example, THEN conjunct2, rule_format, OF b, unfolded ex_vtpos fst_conv snd_conv]
  have e: "(5::int) + 2 = 7" by simp
  from a b w1 w2[unfolded e] show ?thesis by blast
qed

subsection \<open>No argument checks, and the workspace\<close>
















end
